theory Spec2Isabelle
  imports
    Complex_Main
    "HOL-Library.Sublist"
    "HOL-Library.List_Lexorder"
    "HOL-Library.Word"
begin

section \<open>JavaScript values, strings and errors\<close>

text \<open>
  Strings are byte strings holding the UTF-8 encoding of the JavaScript string. The
  needles the program searches for in them (\<open>'429'\<close>, \<open>'tiktok.com'\<close>) are ASCII, so
  \<open>includes\<close> agrees on bytes and on UTF-16 code units. The names of the entries of an
  archive are the one place where the program compares strings for order; they are kept
  as the sequence of their UTF-16 code units (\<open>utf16\<close> below).

  A thrown value is an \<open>Error\<close> object, of which the program reads \<open>name\<close> and
  \<open>message\<close>. \<open>new Error(m)\<close> has the name \<open>'Error'\<close>.
\<close>

datatype js_error = JsError (err_name: string) (err_message: string)

definition Error :: "string \<Rightarrow> js_error" where
  "Error m = JsError ''Error'' m"

definition TypeError :: "string \<Rightarrow> js_error" where
  "TypeError m = JsError ''TypeError'' m"

text \<open>\<open>s.includes(t)\<close> and \<open>s.endsWith(t)\<close>.\<close>

definition js_includes :: "string \<Rightarrow> string \<Rightarrow> bool" where
  "js_includes s t = sublist t s"

definition endsWith :: "'a list \<Rightarrow> 'a list \<Rightarrow> bool" where
  "endsWith s t = suffix t s"

text \<open>
  A JavaScript string as the sequence of its UTF-16 code units, and the code units of a
  string literal of the program that has ASCII characters only.
\<close>

type_synonym utf16 = "16 word list"

definition utf16_of_ascii :: "string \<Rightarrow> utf16" where
  "utf16_of_ascii s = map (\<lambda>c. of_nat (of_char c)) s"

text \<open>The name of a property in the message of a \<open>TypeError\<close>: \<open>'k'\<close>.\<close>

definition quoted :: "string \<Rightarrow> string" where
  "quoted k = [CHR 0x27] @ k @ [CHR 0x27]"

text \<open>The decimal digits of a non-negative integer, as a template literal prints it.\<close>

definition digit_char :: "nat \<Rightarrow> char" where
  "digit_char d = ''0123456789'' ! d"

function show_nat :: "nat \<Rightarrow> string" where
  "show_nat n = (if n < 10 then [digit_char n] else show_nat (n div 10) @ [digit_char (n mod 10)])"
  by pat_completeness auto
termination
  by (relation "measure id") auto

declare show_nat.simps [simp del]

text \<open>
  A JavaScript value as the program meets it: \<open>undefined\<close>, or a value that
  \<open>JSON.parse\<close> can produce. A number is the exact rational value of the double
  (\<open>JSON.parse\<close> produces no \<open>NaN\<close>; both zeros are \<open>0\<close>). An object is its list of
  own properties.
\<close>

datatype jsval =
    JUndefined
  | JNull
  | JBool bool
  | JNum rat
  | JStr string
  | JArr "jsval list"
  | JObj "(string \<times> jsval) list"

text \<open>Truthiness (\<open>ToBoolean\<close>): what \<open>if (v)\<close>, \<open>v || w\<close> and \<open>!v\<close> test.\<close>

fun truthy :: "jsval \<Rightarrow> bool" where
  "truthy JUndefined = False"
| "truthy JNull = False"
| "truthy (JBool b) = b"
| "truthy (JNum r) = (r \<noteq> 0)"
| "truthy (JStr s) = (s \<noteq> [])"
| "truthy (JArr xs) = True"
| "truthy (JObj fs) = True"

text \<open>\<open>a || b\<close>.\<close>

definition js_or :: "jsval \<Rightarrow> jsval \<Rightarrow> jsval" where
  "js_or a b = (if truthy a then a else b)"

text \<open>
  Property read \<open>v.k\<close> for the property names the program uses (\<open>choices\<close>, \<open>message\<close>,
  \<open>content\<close>, \<open>error\<close>, \<open>exercises\<close>, \<open>name\<close>, \<open>duration\<close>, \<open>difficulty\<close>, \<open>notes\<close>):
  reading a property of \<open>undefined\<close> or \<open>null\<close> throws a \<open>TypeError\<close>; primitives and
  arrays have none of these properties.
\<close>

fun get_prop :: "jsval \<Rightarrow> string \<Rightarrow> js_error + jsval" where
  "get_prop JUndefined k = Inl (TypeError (''Cannot read properties of undefined (reading '' @ quoted k @ '')''))"
| "get_prop JNull k = Inl (TypeError (''Cannot read properties of null (reading '' @ quoted k @ '')''))"
| "get_prop (JObj fs) k = Inr (case map_of fs k of None \<Rightarrow> JUndefined | Some v \<Rightarrow> v)"
| "get_prop v k = Inr JUndefined"

text \<open>Optional chaining \<open>v?.k\<close>: \<open>undefined\<close> when \<open>v\<close> is \<open>undefined\<close> or \<open>null\<close>.\<close>

fun get_prop_opt :: "jsval \<Rightarrow> string \<Rightarrow> jsval" where
  "get_prop_opt (JObj fs) k = (case map_of fs k of None \<Rightarrow> JUndefined | Some v \<Rightarrow> v)"
| "get_prop_opt v k = JUndefined"

text \<open>
  In a byte string, a character starts at a byte that is not a continuation byte
  (\<open>10xxxxxx\<close>). A character of four bytes (lead byte \<open>11110xxx\<close>) takes two UTF-16 code
  units, every other character one.
\<close>

definition continuation_byte :: "char \<Rightarrow> bool" where
  "continuation_byte c = (128 \<le> (of_char c :: nat) \<and> (of_char c :: nat) < 192)"

definition utf16_length :: "string \<Rightarrow> nat" where
  "utf16_length s =
     sum_list (map (\<lambda>c. if continuation_byte c then 0
                          else if (of_char c :: nat) < 240 then 1 else 2) s)"

text \<open>
  Element read \<open>v[0]\<close>. Of a string it is the first code unit as a string: here the
  first character (of a character outside the basic plane JavaScript gives the first
  half only, which a byte string cannot hold; the program reads \<open>?.message\<close> of the
  result and nothing else, which is \<open>undefined\<close> for every string).
\<close>

fun get_index0 :: "jsval \<Rightarrow> js_error + jsval" where
  "get_index0 JUndefined = Inl (TypeError (''Cannot read properties of undefined (reading '' @ quoted ''0'' @ '')''))"
| "get_index0 JNull = Inl (TypeError (''Cannot read properties of null (reading '' @ quoted ''0'' @ '')''))"
| "get_index0 (JArr xs) = Inr (case xs of [] \<Rightarrow> JUndefined | x # _ \<Rightarrow> x)"
| "get_index0 (JObj fs) = Inr (case map_of fs ''0'' of None \<Rightarrow> JUndefined | Some v \<Rightarrow> v)"
| "get_index0 (JStr s) =
     Inr (case s of [] \<Rightarrow> JUndefined | c # rest \<Rightarrow> JStr (c # takeWhile continuation_byte rest))"
| "get_index0 v = Inr JUndefined"

text \<open>\<open>Array.isArray(v)\<close>.\<close>

fun isArray :: "jsval \<Rightarrow> bool" where
  "isArray (JArr xs) = True"
| "isArray v = False"

section \<open>The update object of updateWorkout\<close>

text \<open>
  The \<open>updates\<close> argument of \<open>updateWorkout\<close>: a field the caller does not supply reads as
  \<open>undefined\<close>.
\<close>

record updates =
  u_status :: jsval
  u_exercises :: jsval
  u_name :: jsval
  u_duration :: jsval
  u_difficulty :: jsval
  u_notes :: jsval
  u_displayUrl :: jsval
  u_processingError :: jsval

definition no_updates :: updates where
  "no_updates = \<lparr> u_status = JUndefined, u_exercises = JUndefined, u_name = JUndefined,
     u_duration = JUndefined, u_difficulty = JUndefined, u_notes = JUndefined,
     u_displayUrl = JUndefined, u_processingError = JUndefined \<rparr>"

text \<open>
  The object \<open>updateData\<close> that \<open>updateWorkout\<close> builds and hands to
  \<open>supabase.from('workouts').update(updateData)\<close>, as the list of its properties in
  insertion order.
\<close>

definition updateData :: "updates \<Rightarrow> (string \<times> jsval) list" where
  "updateData u =
     [(''status'', u_status u)]
     @ (if truthy (u_exercises u) then [(''exercises'', u_exercises u)] else [])
     @ (if truthy (u_name u) then [(''name'', u_name u)] else [])
     @ (if truthy (u_duration u) then [(''duration'', u_duration u)] else [])
     @ (if truthy (u_difficulty u) then [(''difficulty'', u_difficulty u)] else [])
     @ (if truthy (u_notes u) then [(''notes'', u_notes u)] else [])
     @ (if truthy (u_displayUrl u) then [(''display_url'', u_displayUrl u)] else [])
     @ (if truthy (u_processingError u) then [(''processing_error'', u_processingError u)] else [])"

text \<open>
  The persistence collaborator, as far as the program relies on it: an update by
  identifier sets the columns named in the update object and leaves every other column of
  the row untouched.
\<close>

type_synonym row = "string \<rightharpoonup> jsval"

definition store_update :: "row \<Rightarrow> (string \<times> jsval) list \<Rightarrow> row" where
  "store_update r upd = (\<lambda>k. case map_of upd k of None \<Rightarrow> r k | Some v \<Rightarrow> Some v)"

section \<open>More string operations\<close>

text \<open>\<open>xs.join(sep)\<close> on an array of strings.\<close>

fun js_join :: "string \<Rightarrow> string list \<Rightarrow> string" where
  "js_join sep [] = []"
| "js_join sep [x] = x"
| "js_join sep (x # y # ys) = x @ sep @ js_join sep (y # ys)"

text \<open>
  \<open>s.trim()\<close> removes the white space and line terminator code points of ECMAScript
  from both ends; here they are listed in their UTF-8 encoding: TAB, LF, VT, FF, CR, SP,
  U+00A0, U+1680, U+2000 to U+200A, U+2028, U+2029, U+202F, U+205F, U+3000, U+FEFF.
\<close>

definition whitespace_seqs :: "string list" where
  "whitespace_seqs =
     [[CHR 0x09], [CHR 0x0A], [CHR 0x0B], [CHR 0x0C], [CHR 0x0D], [CHR 0x20],
      [CHR 0xC2, CHR 0xA0],
      [CHR 0xE1, CHR 0x9A, CHR 0x80],
      [CHR 0xE2, CHR 0x80, CHR 0x80], [CHR 0xE2, CHR 0x80, CHR 0x81],
      [CHR 0xE2, CHR 0x80, CHR 0x82], [CHR 0xE2, CHR 0x80, CHR 0x83],
      [CHR 0xE2, CHR 0x80, CHR 0x84], [CHR 0xE2, CHR 0x80, CHR 0x85],
      [CHR 0xE2, CHR 0x80, CHR 0x86], [CHR 0xE2, CHR 0x80, CHR 0x87],
      [CHR 0xE2, CHR 0x80, CHR 0x88], [CHR 0xE2, CHR 0x80, CHR 0x89],
      [CHR 0xE2, CHR 0x80, CHR 0x8A],
      [CHR 0xE2, CHR 0x80, CHR 0xA8], [CHR 0xE2, CHR 0x80, CHR 0xA9],
      [CHR 0xE2, CHR 0x80, CHR 0xAF],
      [CHR 0xE2, CHR 0x81, CHR 0x9F],
      [CHR 0xE3, CHR 0x80, CHR 0x80],
      [CHR 0xEF, CHR 0xBB, CHR 0xBF]]"

function strip_start :: "string list \<Rightarrow> string \<Rightarrow> string" where
  "strip_start ws s =
     (case List.find (\<lambda>w. w \<noteq> [] \<and> prefix w s) ws of
        Some w \<Rightarrow> strip_start ws (drop (length w) s)
      | None \<Rightarrow> s)"
  by pat_completeness auto
termination
proof (relation "measure (\<lambda>(ws, s). length s)")
  show "wf (measure (\<lambda>(ws :: string list, s :: string). length s))"
    by simp
next
  fix ws :: "string list" and s w :: string
  assume "List.find (\<lambda>w. w \<noteq> [] \<and> prefix w s) ws = Some w"
  then have "w \<noteq> []" and "prefix w s"
    by (auto simp: find_Some_iff)
  then have "length (drop (length w) s) < length s"
    by (cases w) (auto dest: prefix_length_le)
  then show "((ws, drop (length w) s), (ws, s)) \<in> measure (\<lambda>(ws, s). length s)"
    by simp
qed

declare strip_start.simps [simp del]

definition js_trim :: "string \<Rightarrow> string" where
  "js_trim s = rev (strip_start (map rev whitespace_seqs) (rev (strip_start whitespace_seqs s)))"

text \<open>
  String conversion (\<open>`${v}`\<close> and \<open>v + '...'\<close>). How a number prints is left to the
  parameter \<open>num\<close>.
\<close>

fun js_toString :: "(rat \<Rightarrow> string) \<Rightarrow> jsval \<Rightarrow> string" where
  "js_toString num JUndefined = ''undefined''"
| "js_toString num JNull = ''null''"
| "js_toString num (JBool b) = (if b then ''true'' else ''false'')"
| "js_toString num (JNum r) = num r"
| "js_toString num (JStr s) = s"
| "js_toString num (JArr xs) =
     js_join '','' (map (\<lambda>x. if x = JUndefined \<or> x = JNull then [] else js_toString num x) xs)"
| "js_toString num (JObj fs) = ''[object Object]''"

section \<open>Effects: the trace of a run\<close>

text \<open>
  What a run does to the outside world is recorded as the list of its events, in order.
  An \<open>async\<close> function is a pair: the events it caused, and either the error it
  threw (\<open>Inl\<close>) or the value it returned (\<open>Inr\<close>).

  \<open>Progress p\<close> is the call \<open>job.progress(p)\<close>. The program computes \<open>p\<close> in double
  precision; here \<open>p\<close> is the exact value of the expression, of which the program's
  number is the rounding. The two agree when the exact value is a double (as 17.5 or
  37.5) and may differ in the last bit otherwise (as for 100 / 3). Rounding is monotone,
  so an order \<open>\<le>\<close> between exact values holds between the program's numbers too.
\<close>

record vision_request =
  vr_authorization :: string
  vr_model :: string
  vr_text :: string
  vr_image_url :: string
  vr_detail :: string
  vr_max_tokens :: nat

record synth_request =
  sr_authorization :: string
  sr_model :: string
  sr_system :: string
  sr_user :: string
  sr_max_tokens :: nat
  sr_temperature :: rat

datatype event =
    Progress rat
  | HttpGet string "(string \<times> string) list" nat
  | FramesPost string
  | Unlink string
  | VisionPost vision_request
  | SynthPost synth_request
  | DbUpdate string "(string \<times> jsval) list"
  | Notification string jsval bool

type_synonym 'a io = "event list \<times> (js_error + 'a)"

definition io_return :: "'a \<Rightarrow> 'a io" where
  "io_return x = ([], Inr x)"

definition io_throw :: "js_error \<Rightarrow> 'a io" where
  "io_throw e = ([], Inl e)"

definition io_emit :: "event \<Rightarrow> unit io" where
  "io_emit ev = ([ev], Inr ())"

text \<open>\<open>await\<close> of a call whose outcome the environment decides.\<close>

definition io_await :: "js_error + 'a \<Rightarrow> 'a io" where
  "io_await r = ([], r)"

definition io_await_unit :: "js_error option \<Rightarrow> unit io" where
  "io_await_unit r = ([], case r of None \<Rightarrow> Inr () | Some e \<Rightarrow> Inl e)"

text \<open>Sequencing: a thrown error skips the rest.\<close>

definition bind_io :: "'a io \<Rightarrow> ('a \<Rightarrow> 'b io) \<Rightarrow> 'b io" where
  "bind_io m f =
     (case m of
        (evs, Inl e) \<Rightarrow> (evs, Inl e)
      | (evs, Inr x) \<Rightarrow> (case f x of (evs', r) \<Rightarrow> (evs @ evs', r)))"

text \<open>\<open>try { m } catch (error) { h error }\<close>.\<close>

definition try_catch :: "'a io \<Rightarrow> (js_error \<Rightarrow> 'a io) \<Rightarrow> 'a io" where
  "try_catch m h =
     (case m of
        (evs, Inl e) \<Rightarrow> (case h e of (evs', r) \<Rightarrow> (evs @ evs', r))
      | (evs, Inr x) \<Rightarrow> (evs, Inr x))"

section \<open>The environment\<close>

text \<open>
  The outcome of every call that leaves the program is an input of the model.
\<close>

record chat_response =
  resp_ok :: bool
  resp_status :: nat
  resp_statusText :: string
  resp_json :: "js_error + jsval"

text \<open>
  The answer of the frame extraction service. \<open>fr_zip\<close> is what
  \<open>zip.loadAsync(Buffer.from(arrayBuffer))\<close> gives: the entries by name, in the order in
  which they are put into the object \<open>zipContent.files\<close>. An entry stands for what its
  \<open>async('base64')\<close> settles to: the base64 text, or the error of an entry that cannot be
  decompressed. When a name is listed twice, the object has it once, with the later
  entry.
\<close>

type_synonym zip_files = "(utf16 \<times> (js_error + string)) list"

record frames_response =
  fr_ok :: bool
  fr_status :: nat
  fr_text :: "js_error + string"
  fr_zip :: "js_error + zip_files"

record download_response =
  dl_ok :: bool
  dl_status :: nat
  dl_buffer :: "js_error + string"

text \<open>
  One download: after how many milliseconds the \<open>fetch\<close> promise settles by itself
  (\<open>None\<close>: never) and how, how many milliseconds \<open>response.buffer()\<close> then takes to
  settle (to \<open>dl_buffer\<close> of the response), the outcome of \<open>writeFile\<close>, and the value
  of \<open>Date.now()\<close>.
\<close>

record download_world =
  dw_settles_ms :: "nat option"
  dw_fetch :: "js_error + download_response"
  dw_buffer_ms :: nat
  dw_write :: "js_error option"
  dw_now :: nat

text \<open>
  \<open>e_download i\<close> belongs to the \<open>i\<close>-th URL, \<open>e_frames k\<close> and \<open>e_unlink k\<close> to the
  \<open>k\<close>-th video in processing order, \<open>e_vision i\<close> to the \<open>i\<close>-th pooled frame (all
  counted from 0).
\<close>

record env =
  e_download :: "nat \<Rightarrow> download_world"
  e_frames :: "nat \<Rightarrow> js_error + frames_response"
  e_unlink :: "nat \<Rightarrow> js_error option"
  e_vision :: "nat \<Rightarrow> js_error + chat_response"
  e_synth :: "js_error + chat_response"
  e_json_parse :: "string \<Rightarrow> js_error + jsval"
  e_number_toString :: "rat \<Rightarrow> string"
  e_db :: "string \<Rightarrow> (string \<times> jsval) list \<Rightarrow> string option"
  e_notify :: "string \<Rightarrow> jsval \<Rightarrow> bool \<Rightarrow> js_error option"

section \<open>downloadVideo\<close>

definition isTikTok :: "string \<Rightarrow> bool" where
  "isTikTok videoUrl = (js_includes videoUrl ''tiktok.com'' \<or> js_includes videoUrl ''tiktokcdn.com'')"

definition download_headers :: "string \<Rightarrow> (string \<times> string) list" where
  "download_headers videoUrl =
     [(''User-Agent'', ''Mozilla/5.0 (iPhone; CPU iPhone OS 16_0 like Mac OS X) AppleWebKit/605.1.15 (KHTML, like Gecko) Version/16.0 Mobile/15E148 Safari/604.1'')]
     @ (if isTikTok videoUrl then
          [(''Referer'', ''https://www.tiktok.com/''),
           (''Origin'', ''https://www.tiktok.com''),
           (''Accept'', ''video/mp4,video/webm,video/*,*/*;q=0.9,application/signed-exchange;v=b3;q=0.7,*/*;q=0.8''),
           (''Accept-Language'', ''en-US,en;q=0.9''),
           (''Accept-Encoding'', ''identity''),
           (''Range'', ''bytes=0-''),
           (''Sec-Fetch-Dest'', ''video''),
           (''Sec-Fetch-Mode'', ''no-cors''),
           (''Sec-Fetch-Site'', ''same-site'')]
        else [])"

text \<open>
  \<open>setTimeout(() => controller.abort(), 30000)\<close> around \<open>fetch(videoUrl, {signal, headers})\<close>:
  a fetch that has not settled when the timer fires rejects with an \<open>AbortError\<close>.
\<close>

definition abort_error :: js_error where
  "abort_error = JsError ''AbortError'' ''The user aborted a request.''"

definition fetch_with_abort :: "nat \<Rightarrow> nat option \<Rightarrow> js_error + 'r \<Rightarrow> js_error + 'r" where
  "fetch_with_abort timer_ms settles r =
     (case settles of
        None \<Rightarrow> Inl abort_error
      | Some t \<Rightarrow> if t < timer_ms then r else Inl abort_error)"

text \<open>
  \<open>await response.buffer()\<close>, a read that takes \<open>takes_ms\<close> milliseconds, under the same
  signal: \<open>timer\<close> is the time left on the abort timer when the read starts, or \<open>None\<close>
  when no timer is pending. Only a pending timer can abort the read.
\<close>

definition buffer_with_abort :: "nat option \<Rightarrow> nat \<Rightarrow> js_error + 'r \<Rightarrow> js_error + 'r" where
  "buffer_with_abort timer takes_ms r =
     (case timer of
        None \<Rightarrow> r
      | Some left_ms \<Rightarrow> if takes_ms < left_ms then r else Inl abort_error)"

text \<open>
  The event \<open>HttpGet url headers ms\<close> is the call of \<open>fetch\<close> (no method given: a GET)
  under an abort timer of \<open>ms\<close> milliseconds. \<open>download_with\<close> is the body of
  \<open>downloadVideo\<close> from \<open>new AbortController()\<close> on, which is the same in
  \<open>src/unnamed/part_001\<close> and in \<open>src/index.js\<close>; the two differ in the headers they
  build before. The parameter \<open>source\<close> is not used by the function.
  \<open>clearTimeout(timeoutId)\<close> is the first statement after \<open>await fetch(...)\<close>, so no
  timer is pending (\<open>None\<close>) when the body is read.
\<close>

definition download_with :: "(string \<times> string) list \<Rightarrow> download_world \<Rightarrow> string \<Rightarrow> string io" where
  "download_with headers w videoUrl =
     try_catch
       (bind_io (io_emit (HttpGet videoUrl headers 30000)) (\<lambda>_.
        bind_io (io_await (fetch_with_abort 30000 (dw_settles_ms w) (dw_fetch w))) (\<lambda>response.
        if \<not> dl_ok response then
          io_throw (Error (''Failed to download video: '' @ show_nat (dl_status response)))
        else
          bind_io (io_await (buffer_with_abort None (dw_buffer_ms w) (dl_buffer response))) (\<lambda>buffer.
          let videoPath = ''/tmp/video_'' @ show_nat (dw_now w) @ ''.mp4'' in
          bind_io (io_await_unit (dw_write w)) (\<lambda>_.
          io_return videoPath)))))
       (\<lambda>error.
          if err_name error = ''AbortError'' then io_throw (Error ''Video download timeout'')
          else io_throw error)"

definition downloadVideo :: "download_world \<Rightarrow> string \<Rightarrow> jsval \<Rightarrow> string io" where
  "downloadVideo w videoUrl source = download_with (download_headers videoUrl) w videoUrl"

text \<open>\<open>downloadVideo\<close> of \<open>src/index.js\<close>.\<close>

definition download_headers_index :: "string \<Rightarrow> (string \<times> string) list" where
  "download_headers_index videoUrl =
     [(''User-Agent'', ''Mozilla/5.0 (iPhone; CPU iPhone OS 16_0 like Mac OS X) AppleWebKit/605.1.15'')]
     @ (if js_includes videoUrl ''tiktok.com'' then
          [(''Referer'', ''https://www.tiktok.com/''),
           (''Origin'', ''https://www.tiktok.com''),
           (''Accept'', ''video/mp4,video/*,*/*''),
           (''Range'', ''bytes=0-'')]
        else [])"

definition downloadVideo_index :: "download_world \<Rightarrow> string \<Rightarrow> jsval \<Rightarrow> string io" where
  "downloadVideo_index w videoUrl source = download_with (download_headers_index videoUrl) w videoUrl"

section \<open>extractFrames\<close>

text \<open>The object \<open>{ frames, firstFrame }\<close> that the function returns (\<open>None\<close> is \<open>null\<close>).\<close>

record frames_result =
  r_frames :: "string list"
  r_firstFrame :: "string option"

definition data_uri :: "string \<Rightarrow> string" where
  "data_uri imageData = ''data:image/png;base64,'' @ imageData"

text \<open>\<open>zipContent.files[name]\<close>: the last entry of that name, if any.\<close>

definition zip_file :: "zip_files \<Rightarrow> utf16 \<Rightarrow> (js_error + string) option" where
  "zip_file z name = map_of (rev z) name"

text \<open>\<open>await zipContent.files[name].async('base64')\<close>.\<close>

definition zip_base64 :: "zip_files \<Rightarrow> utf16 \<Rightarrow> js_error + string" where
  "zip_base64 z name =
     (case zip_file z name of
        None \<Rightarrow> Inl (TypeError (''Cannot read properties of undefined (reading '' @ quoted ''async'' @ '')''))
      | Some entry \<Rightarrow> entry)"

text \<open>\<open>for (let i = 0; i < files.length; i += 3)\<close>, started at \<open>i = 0\<close> with no frames.\<close>

function frames_loop ::
  "zip_files \<Rightarrow> utf16 list \<Rightarrow> nat \<Rightarrow> string list \<Rightarrow> js_error + string list" where
  "frames_loop z files i acc =
     (if i < length files then
        (case zip_base64 z (files ! i) of
           Inl e \<Rightarrow> Inl e
         | Inr imageData \<Rightarrow> frames_loop z files (i + 3) (acc @ [data_uri imageData]))
      else Inr acc)"
  by pat_completeness auto
termination
  by (relation "measure (\<lambda>(z, files, i, acc). length files - i)") auto

declare frames_loop.simps [simp del]

text \<open>
  \<open>Object.keys(zipContent.files).filter(name => name.endsWith('.png')).sort()\<close>. With no
  comparison function, \<open>sort\<close> orders strings by their UTF-16 code units, the first
  code unit that differs deciding and a proper prefix coming first: the order \<open>\<le>\<close> of
  lists of 16-bit words, which compares words as unsigned numbers.
\<close>

definition object_keys :: "('k \<times> 'v) list \<Rightarrow> 'k list" where
  "object_keys obj = remdups (map fst obj)"

definition png_files :: "zip_files \<Rightarrow> utf16 list" where
  "png_files z = sort (filter (\<lambda>name. endsWith name (utf16_of_ascii ''.png'')) (object_keys z))"

definition extractFrames_result :: "js_error + frames_response \<Rightarrow> js_error + frames_result" where
  "extractFrames_result w =
     (case w of
        Inl e \<Rightarrow> Inl e
      | Inr response \<Rightarrow>
          if \<not> fr_ok response then
            (case fr_text response of
               Inl e \<Rightarrow> Inl e
             | Inr errorText \<Rightarrow>
                 Inl (Error (''FFmpeg API error: '' @ show_nat (fr_status response) @ '' - '' @ errorText)))
          else
            (case fr_zip response of
               Inl e \<Rightarrow> Inl e
             | Inr z \<Rightarrow>
                 let files = png_files z in
                 if length files = 0 then Inl (Error ''No frames found in ZIP'')
                 else
                   (case (if length files > 0 then
                            (case zip_base64 z (files ! 0) of
                               Inl e \<Rightarrow> Inl e
                             | Inr imageData \<Rightarrow> Inr (Some (data_uri imageData)))
                          else Inr None) of
                      Inl e \<Rightarrow> Inl e
                    | Inr first \<Rightarrow>
                        (case frames_loop z files 0 [] of
                           Inl e \<Rightarrow> Inl e
                         | Inr fs \<Rightarrow> Inr \<lparr> r_frames = fs, r_firstFrame = first \<rparr>))))"

text \<open>
  The event \<open>FramesPost videoPath\<close> is the multipart POST of the file to the service.
  \<open>extractFrames\<close> is the same function in \<open>src/unnamed/part_001\<close> and in
  \<open>src/index.js\<close>, where the stride 3 is the constant \<open>frameInterval\<close>.
\<close>

definition extractFrames :: "js_error + frames_response \<Rightarrow> string \<Rightarrow> frames_result io" where
  "extractFrames w videoPath =
     bind_io (io_emit (FramesPost videoPath)) (\<lambda>_. io_await (extractFrames_result w))"

section \<open>extractTextFromFrames\<close>

definition vision_instruction :: string where
  "vision_instruction = ''Extract all visible text from this workout video frame. Include exercise names, rep counts, set counts, durations, and any other text visible on screen. Return only the extracted text, nothing else.''"

definition vision_request :: "string \<Rightarrow> string \<Rightarrow> string \<Rightarrow> vision_request" where
  "vision_request detail openAIKey frame =
     \<lparr> vr_authorization = ''Bearer '' @ openAIKey, vr_model = ''gpt-4o-mini'',
       vr_text = vision_instruction, vr_image_url = frame, vr_detail = detail,
       vr_max_tokens = 500 \<rparr>"

text \<open>\<open>data.choices[0]?.message?.content || ''\<close>.\<close>

definition completion_content :: "jsval \<Rightarrow> js_error + jsval" where
  "completion_content data =
     (case get_prop data ''choices'' of
        Inl e \<Rightarrow> Inl e
      | Inr choices \<Rightarrow>
          (case get_index0 choices of
             Inl e \<Rightarrow> Inl e
           | Inr choice \<Rightarrow>
               Inr (js_or (get_prop_opt (get_prop_opt choice ''message'') ''content'') (JStr []))))"

text \<open>\<open>text.trim()\<close>: only a string has the method.\<close>

fun trim_call :: "jsval \<Rightarrow> js_error + string" where
  "trim_call (JStr s) = Inr (js_trim s)"
| "trim_call v = Inl (TypeError ''text.trim is not a function'')"

text \<open>
  The body of the \<open>try\<close> block for one frame: the text it pushes to \<open>allTexts\<close>, if
  any, or the error it throws. In the \<open>else\<close> branch the program reads
  \<open>errorData.error?.message\<close> for the warning it logs.
\<close>

definition frame_try :: "js_error + chat_response \<Rightarrow> js_error + string option" where
  "frame_try w =
     (case w of
        Inl e \<Rightarrow> Inl e
      | Inr response \<Rightarrow>
          if resp_ok response then
            (case resp_json response of
               Inl e \<Rightarrow> Inl e
             | Inr data \<Rightarrow>
                 (case completion_content data of
                    Inl e \<Rightarrow> Inl e
                  | Inr text \<Rightarrow>
                      (case trim_call text of
                         Inl e \<Rightarrow> Inl e
                       | Inr t \<Rightarrow> Inr (if length t > 0 then Some t else None))))
          else
            (let errorData = (case resp_json response of Inl e \<Rightarrow> JObj [] | Inr v \<Rightarrow> v) in
             case get_prop errorData ''error'' of
               Inl e \<Rightarrow> Inl e
             | Inr err \<Rightarrow> Inr None))"

text \<open>The same block in \<open>src/index.js\<close>, which has no \<open>else\<close> branch.\<close>

definition frame_try_index :: "js_error + chat_response \<Rightarrow> js_error + string option" where
  "frame_try_index w =
     (case w of
        Inl e \<Rightarrow> Inl e
      | Inr response \<Rightarrow>
          if resp_ok response then
            (case resp_json response of
               Inl e \<Rightarrow> Inl e
             | Inr data \<Rightarrow>
                 (case completion_content data of
                    Inl e \<Rightarrow> Inl e
                  | Inr text \<Rightarrow>
                      (case trim_call text of
                         Inl e \<Rightarrow> Inl e
                       | Inr t \<Rightarrow> Inr (if length t > 0 then Some t else None))))
          else Inr None)"

text \<open>\<open>try { ... } catch (error) { console.warn(...) }\<close>: a frame that throws is skipped.\<close>

definition frame_catch :: "js_error + string option \<Rightarrow> string option" where
  "frame_catch r = (case r of Inl e \<Rightarrow> None | Inr t \<Rightarrow> t)"

text \<open>
  \<open>for (let i = 0; i < frames.length; i++)\<close>: the loop at index \<open>i\<close>, with the frames
  from \<open>frames[i]\<close> on still to do. \<open>try_frame\<close> is the \<open>try\<close> block and \<open>detail\<close> the
  \<open>detail\<close> of the request, the two places where the two copies of the function differ.
\<close>

fun text_loop ::
  "(js_error + chat_response \<Rightarrow> js_error + string option) \<Rightarrow> string \<Rightarrow>
   (nat \<Rightarrow> js_error + chat_response) \<Rightarrow> string \<Rightarrow> nat \<Rightarrow> string list \<Rightarrow> string list \<Rightarrow>
   (event list \<times> string list)" where
  "text_loop try_frame detail vision openAIKey i [] allTexts = ([], allTexts)"
| "text_loop try_frame detail vision openAIKey i (frame # rest) allTexts =
     (case text_loop try_frame detail vision openAIKey (Suc i) rest
             (case frame_catch (try_frame (vision i)) of
                Some t \<Rightarrow> allTexts @ [t]
              | None \<Rightarrow> allTexts) of
        (evs, texts) \<Rightarrow> (VisionPost (vision_request detail openAIKey frame) # evs, texts))"

definition blank_line :: string where
  "blank_line = [CHR 0x0A, CHR 0x0A]"

text \<open>\<open>extractTextFromFrames\<close> of \<open>src/unnamed/part_001\<close> (\<open>detail: 'low'\<close>).\<close>

definition extractTextFromFrames ::
  "(nat \<Rightarrow> js_error + chat_response) \<Rightarrow> string list \<Rightarrow> string \<Rightarrow> string io" where
  "extractTextFromFrames vision frames openAIKey =
     (case text_loop frame_try ''low'' vision openAIKey 0 frames [] of
        (evs, allTexts) \<Rightarrow> (evs, Inr (js_join blank_line allTexts)))"

text \<open>\<open>extractTextFromFrames\<close> of \<open>src/index.js\<close> (\<open>detail: 'high'\<close>).\<close>

definition extractTextFromFrames_index ::
  "(nat \<Rightarrow> js_error + chat_response) \<Rightarrow> string list \<Rightarrow> string \<Rightarrow> string io" where
  "extractTextFromFrames_index vision frames openAIKey =
     (case text_loop frame_try_index ''high'' vision openAIKey 0 frames [] of
        (evs, allTexts) \<Rightarrow> (evs, Inr (js_join blank_line allTexts)))"

section \<open>parseWorkoutWithAI\<close>

definition synth_system :: string where
  \<open>synth_system = ''You are a fitness expert. Extract workout information from the text and return ONLY a valid JSON object with this structure: {"name": "workout name", "exercises": [{"name": "exercise", "reps": "10", "sets": "3", "notes": ""}], "duration": "45 min", "difficulty": "Intermediate", "notes": "any additional notes"}. Do not include any explanation or markdown.''\<close>

definition synth_request :: "string \<Rightarrow> string \<Rightarrow> synth_request" where
  "synth_request openAIKey combinedText =
     \<lparr> sr_authorization = ''Bearer '' @ openAIKey, sr_model = ''gpt-4o-mini'',
       sr_system = synth_system, sr_user = combinedText, sr_max_tokens = 2000,
       sr_temperature = 3 / 10 \<rparr>"

text \<open>
  The match of the regular expression \<open>/\{[\s\S]*\}/\<close> in a string: it starts at the
  first \<open>{\<close> and, the star being greedy, ends at the last \<open>}\<close> after it; there is no
  match when no \<open>}\<close> follows the first \<open>{\<close>.
\<close>

definition match_braces :: "string \<Rightarrow> string option" where
  "match_braces s =
     (let t = dropWhile (\<lambda>c. c \<noteq> CHR 0x7B) s in
      if t = [] then None
      else
        let body = rev (dropWhile (\<lambda>c. c \<noteq> CHR 0x7D) (rev (tl t))) in
        if body = [] then None else Some (CHR 0x7B # body))"

text \<open>\<open>content.match(...)\<close>: only a string has the method.\<close>

fun match_call :: "jsval \<Rightarrow> js_error + string option" where
  "match_call (JStr s) = Inr (match_braces s)"
| "match_call v = Inl (TypeError ''content.match is not a function'')"

definition synth_prompt :: "string \<Rightarrow> string \<Rightarrow> string" where
  "synth_prompt caption extractedText =
     caption @ [CHR 0x0A, CHR 0x0A] @ ''=== EXTRACTED FROM VIDEO FRAMES ==='' @ [CHR 0x0A] @ extractedText"

text \<open>
  \<open>errorData.error?.message || errorData.message || response.statusText\<close>, where
  \<open>errorData\<close> is \<open>await response.json().catch(() => ({}))\<close>.
\<close>

definition synth_error_message :: "chat_response \<Rightarrow> js_error + jsval" where
  "synth_error_message response =
     (let errorData = (case resp_json response of Inl e \<Rightarrow> JObj [] | Inr v \<Rightarrow> v) in
      case get_prop errorData ''error'' of
        Inl e \<Rightarrow> Inl e
      | Inr err \<Rightarrow>
          (case get_prop errorData ''message'' of
             Inl e \<Rightarrow> Inl e
           | Inr msg \<Rightarrow>
               Inr (js_or (js_or (get_prop_opt err ''message'') msg) (JStr (resp_statusText response)))))"

definition parseWorkoutWithAI :: "env \<Rightarrow> string \<Rightarrow> string \<Rightarrow> string \<Rightarrow> jsval io" where
  "parseWorkoutWithAI env caption extractedText openAIKey =
     (let combinedText = synth_prompt caption extractedText in
      bind_io (io_emit (SynthPost (synth_request openAIKey combinedText))) (\<lambda>_.
      bind_io (io_await (e_synth env)) (\<lambda>response.
      if \<not> resp_ok response then
        bind_io (io_await (synth_error_message response)) (\<lambda>errorMessage.
        io_throw (Error (''OpenAI API error: '' @ show_nat (resp_status response) @ '' - ''
                         @ js_toString (e_number_toString env) errorMessage)))
      else
        bind_io (io_await (resp_json response)) (\<lambda>data.
        bind_io (io_await (completion_content data)) (\<lambda>content.
        bind_io (io_await (match_call content)) (\<lambda>jsonMatch.
        case jsonMatch of
          None \<Rightarrow> io_throw (Error ''Failed to parse workout data from AI response'')
        | Some matched \<Rightarrow>
            bind_io (io_await (e_json_parse env matched)) (\<lambda>workoutData.
            bind_io (io_await (get_prop workoutData ''exercises'')) (\<lambda>exercises.
            if \<not> truthy exercises \<or> \<not> isArray exercises then
              io_throw (Error ''Invalid workout structure from AI'')
            else io_return workoutData))))))))"

text \<open>
  \<open>parseWorkoutWithAI\<close> of \<open>src/index.js\<close>: the error for a response that is not ok
  carries the status only.
\<close>

definition parseWorkoutWithAI_index :: "env \<Rightarrow> string \<Rightarrow> string \<Rightarrow> string \<Rightarrow> jsval io" where
  "parseWorkoutWithAI_index env caption extractedText openAIKey =
     (let combinedText = synth_prompt caption extractedText in
      bind_io (io_emit (SynthPost (synth_request openAIKey combinedText))) (\<lambda>_.
      bind_io (io_await (e_synth env)) (\<lambda>response.
      if \<not> resp_ok response then
        io_throw (Error (''OpenAI API error: '' @ show_nat (resp_status response)))
      else
        bind_io (io_await (resp_json response)) (\<lambda>data.
        bind_io (io_await (completion_content data)) (\<lambda>content.
        bind_io (io_await (match_call content)) (\<lambda>jsonMatch.
        case jsonMatch of
          None \<Rightarrow> io_throw (Error ''Failed to parse workout data from AI response'')
        | Some matched \<Rightarrow>
            bind_io (io_await (e_json_parse env matched)) (\<lambda>workoutData.
            bind_io (io_await (get_prop workoutData ''exercises'')) (\<lambda>exercises.
            if \<not> truthy exercises \<or> \<not> isArray exercises then
              io_throw (Error ''Invalid workout structure from AI'')
            else io_return workoutData))))))))"

section \<open>updateWorkout and the notification\<close>

text \<open>
  The event \<open>DbUpdate workoutId updateData\<close> is the call
  \<open>supabase.from('workouts').update(updateData).eq('id', workoutId)\<close>; \<open>e_db\<close> gives the
  message of the \<open>error\<close> it reports, if any.
\<close>

definition updateWorkout :: "env \<Rightarrow> string \<Rightarrow> updates \<Rightarrow> unit io" where
  "updateWorkout env workoutId u =
     bind_io (io_emit (DbUpdate workoutId (updateData u))) (\<lambda>_.
     case e_db env workoutId (updateData u) of
       Some m \<Rightarrow> io_throw (Error (''Supabase error: '' @ m))
     | None \<Rightarrow> io_return ())"

text \<open>
  The event \<open>Notification userId workoutName success\<close> is the call
  \<open>sendWorkoutProcessingNotification(supabase, userId, workoutName, success)\<close>.
\<close>

definition sendWorkoutProcessingNotification :: "env \<Rightarrow> string \<Rightarrow> jsval \<Rightarrow> bool \<Rightarrow> unit io" where
  "sendWorkoutProcessingNotification env uid workoutName success =
     bind_io (io_emit (Notification uid workoutName success)) (\<lambda>_.
     io_await_unit (e_notify env uid workoutName success))"

section \<open>processVideoJob\<close>

text \<open>\<open>job.data\<close>. \<open>None\<close> is a field that is \<open>undefined\<close>.\<close>

record job_data =
  workoutId :: string
  videoUrl :: "string option"
  videoUrls :: "string list option"
  videoFiles :: "string list option"
  userId :: string
  caption :: string
  source :: jsval
  displayUrl :: jsval
  openAIKey :: string

text \<open>
  \<open>hasFiles ? videoFiles : []\<close> with \<open>hasFiles = videoFiles && videoFiles.length > 0\<close>, and
  \<open>hasUrls ? (videoUrls || [videoUrl]) : []\<close> with \<open>hasUrls = videoUrls || videoUrl\<close>
  (an array, even an empty one, is truthy; an empty string is not).
\<close>

definition job_files :: "job_data \<Rightarrow> string list" where
  "job_files d = (case videoFiles d of Some fs \<Rightarrow> if length fs > 0 then fs else [] | None \<Rightarrow> [])"

definition job_urls :: "job_data \<Rightarrow> string list" where
  "job_urls d =
     (case videoUrls d of
        Some us \<Rightarrow> us
      | None \<Rightarrow> (case videoUrl d of Some u \<Rightarrow> if u \<noteq> [] then [u] else [] | None \<Rightarrow> []))"

text \<open>Truthiness of a value that is a string or \<open>null\<close>.\<close>

definition truthy_str :: "string option \<Rightarrow> bool" where
  "truthy_str v = (case v of Some s \<Rightarrow> s \<noteq> [] | None \<Rightarrow> False)"

definition unlink :: "env \<Rightarrow> nat \<Rightarrow> string \<Rightarrow> unit io" where
  "unlink env k videoPath =
     bind_io (io_emit (Unlink videoPath)) (\<lambda>_. io_await_unit (e_unlink env k))"

text \<open>
  The loop over the uploaded files at index \<open>i\<close>, with the files from \<open>files[i]\<close> on
  still to do; the pair is \<open>(allFrames, thumbnailFrame)\<close>.
\<close>

fun files_loop ::
  "env \<Rightarrow> nat \<Rightarrow> nat \<Rightarrow> string list \<Rightarrow> string list \<times> string option \<Rightarrow>
   (string list \<times> string option) io" where
  "files_loop env totalVideos i [] acc = io_return acc"
| "files_loop env totalVideos i (videoPath # rest) acc =
     bind_io (extractFrames (e_frames env i) videoPath) (\<lambda>r.
     bind_io (io_emit (Progress (25 + of_nat (i + 1) * 25 / of_nat totalVideos))) (\<lambda>_.
     bind_io (unlink env i videoPath) (\<lambda>_.
     files_loop env totalVideos (Suc i) rest
       (fst acc @ r_frames r,
        if i = 0 \<and> truthy_str (r_firstFrame r) then r_firstFrame r else snd acc))))"

text \<open>The loop over the URLs, likewise; \<open>nfiles\<close> is \<open>files.length\<close>.\<close>

fun urls_loop ::
  "env \<Rightarrow> jsval \<Rightarrow> nat \<Rightarrow> nat \<Rightarrow> nat \<Rightarrow> string list \<Rightarrow> string list \<times> string option \<Rightarrow>
   (string list \<times> string option) io" where
  "urls_loop env src totalVideos nfiles i [] acc = io_return acc"
| "urls_loop env src totalVideos nfiles i (url # rest) acc =
     (let videoIndex = nfiles + i + 1 in
      bind_io (downloadVideo (e_download env i) url src) (\<lambda>videoPath.
      bind_io (io_emit (Progress (10 + of_nat videoIndex * 15 / of_nat totalVideos))) (\<lambda>_.
      bind_io (extractFrames (e_frames env (nfiles + i)) videoPath) (\<lambda>r.
      bind_io (io_emit (Progress (25 + of_nat videoIndex * 25 / of_nat totalVideos))) (\<lambda>_.
      bind_io (unlink env (nfiles + i) videoPath) (\<lambda>_.
      urls_loop env src totalVideos nfiles (Suc i) rest
        (fst acc @ r_frames r,
         if nfiles = 0 \<and> i = 0 \<and> truthy_str (r_firstFrame r) then r_firstFrame r
         else snd acc)))))))"

text \<open>The two loops: all uploaded files, then all URLs.\<close>

definition acquire_frames :: "env \<Rightarrow> job_data \<Rightarrow> (string list \<times> string option) io" where
  "acquire_frames env d =
     (let files = job_files d; urls = job_urls d;
          totalVideos = length files + length urls in
      bind_io (files_loop env totalVideos 0 files ([], None)) (\<lambda>acc.
      urls_loop env (source d) totalVideos (length files) 0 urls acc))"

text \<open>
  \<open>(source === 'TikTok' && thumbnailFrame) ? thumbnailFrame : displayUrl\<close>.
\<close>

definition finalDisplayUrl :: "jsval \<Rightarrow> string option \<Rightarrow> jsval \<Rightarrow> jsval" where
  "finalDisplayUrl src thumbnailFrame dispUrl =
     (if src = JStr ''TikTok'' \<and> truthy_str thumbnailFrame then
        (case thumbnailFrame of Some t \<Rightarrow> JStr t | None \<Rightarrow> JNull)
      else dispUrl)"

definition enhanced_marker :: string where
  "enhanced_marker = [CHR 0x0A, CHR 0x0A] @ ''[Enhanced with video frame analysis]''"

text \<open>\<open>v.length\<close>; of a string, the number of its UTF-16 code units.\<close>

fun get_length :: "jsval \<Rightarrow> js_error + jsval" where
  "get_length JUndefined = Inl (TypeError (''Cannot read properties of undefined (reading '' @ quoted ''length'' @ '')''))"
| "get_length JNull = Inl (TypeError (''Cannot read properties of null (reading '' @ quoted ''length'' @ '')''))"
| "get_length (JArr xs) = Inr (JNum (of_nat (length xs)))"
| "get_length (JStr s) = Inr (JNum (of_nat (utf16_length s)))"
| "get_length (JObj fs) = Inr (case map_of fs ''length'' of None \<Rightarrow> JUndefined | Some v \<Rightarrow> v)"
| "get_length v = Inr JUndefined"

text \<open>
  What the function returns: \<open>{ success: true, workoutId, exercises }\<close> or
  \<open>{ success: false, error }\<close>.
\<close>

datatype job_result = JobSuccess string jsval | JobSoftFailure string

text \<open>
  Step 5 of the \<open>try\<close> block and what follows it: the update of the workout, the
  last progress report, the notification (whose failure is swallowed) and the result.
\<close>

definition complete_job :: "env \<Rightarrow> job_data \<Rightarrow> string option \<Rightarrow> jsval \<Rightarrow> job_result io" where
  "complete_job env d thumbnailFrame workoutData =
     bind_io (io_await (get_prop workoutData ''exercises'')) (\<lambda>exercises.
     bind_io (io_await (get_prop workoutData ''name'')) (\<lambda>name.
     bind_io (io_await (get_prop workoutData ''duration'')) (\<lambda>duration.
     bind_io (io_await (get_prop workoutData ''difficulty'')) (\<lambda>difficulty.
     bind_io (io_await (get_prop workoutData ''notes'')) (\<lambda>notes.
     bind_io (updateWorkout env (workoutId d)
                \<lparr> u_status = JStr ''completed'', u_exercises = exercises, u_name = name,
                  u_duration = duration, u_difficulty = difficulty,
                  u_notes = JStr (js_toString (e_number_toString env) notes @ enhanced_marker),
                  u_displayUrl = finalDisplayUrl (source d) thumbnailFrame (displayUrl d),
                  u_processingError = JUndefined \<rparr>) (\<lambda>_.
     bind_io (io_emit (Progress 100)) (\<lambda>_.
     bind_io (try_catch
                (sendWorkoutProcessingNotification env (userId d)
                   (js_or name (JStr ''Your workout'')) True)
                (\<lambda>notifError. io_return ())) (\<lambda>_.
     bind_io (io_await (get_length exercises)) (\<lambda>n.
     io_return (JobSuccess (workoutId d) n))))))))))"

text \<open>The \<open>try\<close> block after the two loops, steps 3 and 4 first.\<close>

definition process_frames :: "env \<Rightarrow> job_data \<Rightarrow> string list \<times> string option \<Rightarrow> job_result io" where
  "process_frames env d acc =
     (let allFrames = fst acc; thumbnailFrame = snd acc in
      if length allFrames = 0 then io_throw (Error ''No frames extracted from any video'')
      else
        bind_io (extractTextFromFrames (e_vision env) allFrames (openAIKey d)) (\<lambda>extractedText.
        bind_io (io_emit (Progress 75)) (\<lambda>_.
        if length extractedText = 0 then io_throw (Error ''No text extracted from video frames'')
        else
          bind_io (parseWorkoutWithAI env (caption d) extractedText (openAIKey d)) (\<lambda>workoutData.
          bind_io (io_emit (Progress 90)) (\<lambda>_.
          complete_job env d thumbnailFrame workoutData)))))"

text \<open>The whole \<open>try\<close> block.\<close>

definition pipeline :: "env \<Rightarrow> job_data \<Rightarrow> job_result io" where
  "pipeline env d = bind_io (acquire_frames env d) (process_frames env d)"

text \<open>\<open>const isRateLimitError = error.message.includes('429')\<close>.\<close>

definition isRateLimitError :: "js_error \<Rightarrow> bool" where
  "isRateLimitError error = js_includes (err_message error) ''429''"

definition rate_limit_notes :: string where
  "rate_limit_notes = [CHR 0xE2, CHR 0x8F, CHR 0xB3] @ '' Hit API rate limit. Please wait 1-2 minutes and check back.''"

text \<open>The \<open>catch\<close> block.\<close>

definition handle_error :: "env \<Rightarrow> job_data \<Rightarrow> js_error \<Rightarrow> job_result io" where
  "handle_error env d error =
     (if isRateLimitError error then
        bind_io (updateWorkout env (workoutId d)
                   (no_updates\<lparr> u_status := JStr ''processing'', u_notes := JStr rate_limit_notes \<rparr>)) (\<lambda>_.
        io_return (JobSoftFailure ''Rate limit - no auto retry''))
      else
        bind_io (updateWorkout env (workoutId d)
                   (no_updates\<lparr> u_status := JStr ''failed'',
                                u_processingError := JStr (err_message error) \<rparr>)) (\<lambda>_.
        bind_io (try_catch
                   (sendWorkoutProcessingNotification env (userId d) (JStr ''Workout'') False)
                   (\<lambda>notifError. io_return ())) (\<lambda>_.
        io_throw error)))"

definition processVideoJob :: "env \<Rightarrow> job_data \<Rightarrow> job_result io" where
  "processVideoJob env d =
     bind_io (io_emit (Progress 10)) (\<lambda>_.
     try_catch (pipeline env d) (handle_error env d))"

section \<open>The single-video processor of src/index.js\<close>

text \<open>
  \<open>src/index.js\<close> holds an earlier copy of the processor, for one video given by
  \<open>videoUrl\<close>. Its \<open>extractFrames\<close> and \<open>updateWorkout\<close> are the functions above.
\<close>

text \<open>Step 5 and the result; there is no notification in this copy.\<close>

definition complete_job_index :: "env \<Rightarrow> job_data \<Rightarrow> string option \<Rightarrow> jsval \<Rightarrow> job_result io" where
  "complete_job_index env d firstFrame workoutData =
     bind_io (io_await (get_prop workoutData ''exercises'')) (\<lambda>exercises.
     bind_io (io_await (get_prop workoutData ''name'')) (\<lambda>name.
     bind_io (io_await (get_prop workoutData ''duration'')) (\<lambda>duration.
     bind_io (io_await (get_prop workoutData ''difficulty'')) (\<lambda>difficulty.
     bind_io (io_await (get_prop workoutData ''notes'')) (\<lambda>notes.
     bind_io (updateWorkout env (workoutId d)
                \<lparr> u_status = JStr ''completed'', u_exercises = exercises, u_name = name,
                  u_duration = duration, u_difficulty = difficulty,
                  u_notes = JStr (js_toString (e_number_toString env) notes @ enhanced_marker),
                  u_displayUrl = finalDisplayUrl (source d) firstFrame (displayUrl d),
                  u_processingError = JUndefined \<rparr>) (\<lambda>_.
     bind_io (io_emit (Progress 100)) (\<lambda>_.
     bind_io (io_await (get_length exercises)) (\<lambda>n.
     io_return (JobSuccess (workoutId d) n)))))))))"

text \<open>
  The \<open>try\<close> block. \<open>videoUrl.includes\<close> in \<open>downloadVideo\<close> throws when \<open>videoUrl\<close> is
  \<open>undefined\<close>.
\<close>

definition pipeline_index :: "env \<Rightarrow> job_data \<Rightarrow> job_result io" where
  "pipeline_index env d =
     bind_io (case videoUrl d of
                None \<Rightarrow> io_throw (TypeError (''Cannot read properties of undefined (reading '' @ quoted ''includes'' @ '')''))
              | Some url \<Rightarrow> downloadVideo_index (e_download env 0) url (source d)) (\<lambda>videoPath.
     bind_io (io_emit (Progress 25)) (\<lambda>_.
     bind_io (extractFrames (e_frames env 0) videoPath) (\<lambda>r.
     bind_io (io_emit (Progress 50)) (\<lambda>_.
     bind_io (unlink env 0 videoPath) (\<lambda>_.
     if length (r_frames r) = 0 then io_throw (Error ''No frames extracted from video'')
     else
       bind_io (extractTextFromFrames_index (e_vision env) (r_frames r) (openAIKey d)) (\<lambda>extractedText.
       bind_io (io_emit (Progress 75)) (\<lambda>_.
       if length extractedText = 0 then io_throw (Error ''No text extracted from video frames'')
       else
         bind_io (parseWorkoutWithAI_index env (caption d) extractedText (openAIKey d)) (\<lambda>workoutData.
         bind_io (io_emit (Progress 90)) (\<lambda>_.
         complete_job_index env d (r_firstFrame r) workoutData)))))))))"

text \<open>The \<open>catch\<close> block: a rate limit is thrown on for the queue to retry the job.\<close>

definition handle_error_index :: "env \<Rightarrow> job_data \<Rightarrow> js_error \<Rightarrow> job_result io" where
  "handle_error_index env d error =
     (if isRateLimitError error then
        io_throw (Error ''RATE_LIMIT: OpenAI API rate limit exceeded'')
      else
        bind_io (updateWorkout env (workoutId d)
                   (no_updates\<lparr> u_status := JStr ''failed'',
                                u_processingError := JStr (err_message error) \<rparr>)) (\<lambda>_.
        io_throw error))"

definition processVideoJob_index :: "env \<Rightarrow> job_data \<Rightarrow> job_result io" where
  "processVideoJob_index env d =
     bind_io (io_emit (Progress 10)) (\<lambda>_.
     try_catch (pipeline_index env d) (handle_error_index env d))"

section \<open>Observations of a trace\<close>

text \<open>The progress values reported by \<open>job.progress\<close>, in order.\<close>

definition progress_values :: "event list \<Rightarrow> rat list" where
  "progress_values evs = concat (map (\<lambda>ev. case ev of Progress p \<Rightarrow> [p] | _ \<Rightarrow> []) evs)"

text \<open>The updates sent to the store, the requests to the synthesis model, the notifications.\<close>

definition db_updates :: "event list \<Rightarrow> (string \<times> (string \<times> jsval) list) list" where
  "db_updates evs = concat (map (\<lambda>ev. case ev of DbUpdate w u \<Rightarrow> [(w, u)] | _ \<Rightarrow> []) evs)"

definition synth_calls :: "event list \<Rightarrow> synth_request list" where
  "synth_calls evs = concat (map (\<lambda>ev. case ev of SynthPost r \<Rightarrow> [r] | _ \<Rightarrow> []) evs)"

definition vision_calls :: "event list \<Rightarrow> vision_request list" where
  "vision_calls evs = concat (map (\<lambda>ev. case ev of VisionPost r \<Rightarrow> [r] | _ \<Rightarrow> []) evs)"

definition notifications :: "event list \<Rightarrow> (string \<times> jsval \<times> bool) list" where
  "notifications evs = concat (map (\<lambda>ev. case ev of Notification u n b \<Rightarrow> [(u, n, b)] | _ \<Rightarrow> []) evs)"

text \<open>
  A per-frame call of the vision model fails: \<open>fetch\<close> rejects, the response is not
  successful, its body is not JSON, reading \<open>data.choices[0]\<close> throws, or the content is
  not a string.
\<close>

definition vision_call_fails :: "js_error + chat_response \<Rightarrow> bool" where
  "vision_call_fails w =
     (case w of
        Inl e \<Rightarrow> True
      | Inr response \<Rightarrow>
          (if resp_ok response then
             (case resp_json response of
                Inl e \<Rightarrow> True
              | Inr data \<Rightarrow>
                  (case completion_content data of
                     Inl e \<Rightarrow> True
                   | Inr (JStr s) \<Rightarrow> False
                   | Inr v \<Rightarrow> True))
           else True))"

text \<open>
  A per-frame call returns only white space: the response is successful and its content
  (the empty string when it has none) is empty after trimming.
\<close>

definition vision_only_whitespace :: "js_error + chat_response \<Rightarrow> bool" where
  "vision_only_whitespace w =
     (case w of
        Inl e \<Rightarrow> False
      | Inr response \<Rightarrow>
          (if resp_ok response then
             (case resp_json response of
                Inl e \<Rightarrow> False
              | Inr data \<Rightarrow>
                  (case completion_content data of
                     Inr (JStr s) \<Rightarrow> js_trim s = []
                   | _ \<Rightarrow> False))
           else False))"

section \<open>Example inputs\<close>

text \<open>
  Archives: five images and a text file; one image; two images whose names start with
  U+FF5E and with U+1F600 (the surrogate pair D83D DE00), which sorts first by code
  units; and three images of which the second in name order cannot be decompressed.
\<close>

definition ex_zip :: zip_files where
  "ex_zip =
     [(utf16_of_ascii ''frame_0004.png'', Inr ''DDDD''), (utf16_of_ascii ''frame_0002.png'', Inr ''BBBB''),
      (utf16_of_ascii ''notes.txt'', Inr ''TTTT''), (utf16_of_ascii ''frame_0001.png'', Inr ''AAAA''),
      (utf16_of_ascii ''frame_0003.png'', Inr ''CCCC''), (utf16_of_ascii ''frame_0005.png'', Inr ''EEEE'')]"

definition ex_zip_one :: zip_files where
  "ex_zip_one = [(utf16_of_ascii ''frame_0001.png'', Inr ''AAAA'')]"

definition ex_zip_astral :: zip_files where
  "ex_zip_astral =
     [(0xFF5E # utf16_of_ascii ''.png'', Inr ''AAAA''),
      (0xD83D # 0xDE00 # utf16_of_ascii ''.png'', Inr ''BBBB'')]"


definition ex_frames_response :: "zip_files \<Rightarrow> js_error + frames_response" where
  "ex_frames_response z = Inr \<lparr> fr_ok = True, fr_status = 200, fr_text = Inr [], fr_zip = Inr z \<rparr>"

definition ex_chat_ok :: "string \<Rightarrow> js_error + chat_response" where
  "ex_chat_ok c =
     Inr \<lparr> resp_ok = True, resp_status = 200, resp_statusText = ''OK'',
           resp_json = Inr (JObj [(''choices'', JArr [JObj [(''message'', JObj [(''content'', JStr c)])]])]) \<rparr>"

definition ex_chat_429 :: "js_error + chat_response" where
  "ex_chat_429 =
     Inr \<lparr> resp_ok = False, resp_status = 429, resp_statusText = ''Too Many Requests'',
           resp_json = Inr (JObj [(''error'', JObj [(''message'', JStr ''Rate limit reached'')])]) \<rparr>"

definition ex_download :: download_world where
  "ex_download =
     \<lparr> dw_settles_ms = Some 1200,
       dw_fetch = Inr \<lparr> dl_ok = True, dl_status = 200, dl_buffer = Inr ''video bytes'' \<rparr>,
       dw_buffer_ms = 800, dw_write = None, dw_now = 1700000000000 \<rparr>"

definition ex_workout :: jsval where
  "ex_workout =
     JObj [(''name'', JStr ''Leg Day''),
           (''exercises'', JArr [JObj [(''name'', JStr ''Squat''), (''reps'', JStr ''10''),
                                      (''sets'', JStr ''3''), (''notes'', JStr [])]]),
           (''duration'', JStr ''30 min''), (''difficulty'', JStr ''Intermediate''),
           (''notes'', JStr ''great session'')]"

definition ex_workout_json :: string where
  \<open>ex_workout_json = ''{"name":"Leg Day","exercises":[{"name":"Squat","reps":"10","sets":"3","notes":""}],"duration":"30 min","difficulty":"Intermediate","notes":"great session"}''\<close>

definition ex_synth_answer :: string where
  "ex_synth_answer = ''Here is the workout: '' @ ex_workout_json"

text \<open>An environment in which every call succeeds; every archive holds one image.\<close>

definition ex_env :: env where
  "ex_env =
     \<lparr> e_download = (\<lambda>i. ex_download),
       e_frames = (\<lambda>k. ex_frames_response ex_zip_one),
       e_unlink = (\<lambda>k. None),
       e_vision = (\<lambda>i. ex_chat_ok ''Squat 3x10''),
       e_synth = ex_chat_ok ex_synth_answer,
       e_json_parse = (\<lambda>s. if s = ex_workout_json then Inr ex_workout
                             else Inl (JsError ''SyntaxError'' ''Unexpected token'')),
       e_number_toString = (\<lambda>r. ''0''),
       e_db = (\<lambda>w u. None),
       e_notify = (\<lambda>u n b. None) \<rparr>"

definition ex_job :: job_data where
  "ex_job =
     \<lparr> workoutId = ''w1'', videoUrl = None, videoUrls = None, videoFiles = None,
       userId = ''u1'', caption = ''Leg day!'', source = JStr ''Instagram'',
       displayUrl = JStr ''https://cdn.example/preview.jpg'', openAIKey = ''sk-test'' \<rparr>"




text \<open>Jobs: one URL, two URLs, one URL and an empty display URL, one uploaded TikTok file.\<close>

definition ex_job_url :: job_data where
  "ex_job_url = ex_job \<lparr> videoUrl := Some ''https://cdn.example/a.mp4'' \<rparr>"

definition ex_job_two_urls :: job_data where
  "ex_job_two_urls =
     ex_job \<lparr> videoUrls := Some [''https://cdn.example/a.mp4'', ''https://cdn.example/b.mp4''] \<rparr>"

definition ex_job_no_display :: job_data where
  "ex_job_no_display = ex_job_url \<lparr> displayUrl := JStr [] \<rparr>"

definition ex_job_tiktok :: job_data where
  "ex_job_tiktok = ex_job \<lparr> videoFiles := Some [''/tmp/uploads/3f2a''], source := JStr ''TikTok'' \<rparr>"

text \<open>
  Environments: the synthesis model answers 429; the same with a store that reports an
  error; the first frame's vision call is rejected and the others return white space.
\<close>

definition ex_env_429 :: env where
  "ex_env_429 = ex_env \<lparr> e_synth := ex_chat_429 \<rparr>"

definition ex_env_429_db_down :: env where
  "ex_env_429_db_down = ex_env_429 \<lparr> e_db := (\<lambda>w u. Some ''connection lost'') \<rparr>"

definition ex_env_blank :: env where
  "ex_env_blank =
     ex_env \<lparr> e_vision := (\<lambda>i. if i = 0 then Inl (JsError ''FetchError'' ''request failed'')
                                 else ex_chat_ok ([CHR 0x20, CHR 0x20, CHR 0x0A])) \<rparr>"






section \<open>Basic facts\<close>

lemma show_nat_digit: "n < 10 \<Longrightarrow> show_nat n = [digit_char n]"
  by (simp add: show_nat.simps)

lemma show_nat_429: "show_nat 429 = ''429''"
  by (simp add: show_nat.simps digit_char_def)

lemma show_nat_200: "show_nat 200 = ''200''"
  by (simp add: show_nat.simps digit_char_def)

lemma show_nat_now: "show_nat 1700000000000 = ''1700000000000''"
  by (simp add: show_nat.simps digit_char_def)

lemma bind_io_return [simp]: "bind_io (io_return x) f = f x"
  by (simp add: bind_io_def io_return_def split: prod.splits)

lemma bind_io_throw [simp]: "bind_io (io_throw e) f = io_throw e"
  by (simp add: bind_io_def io_throw_def)

lemma bind_io_emit [simp]: "bind_io (io_emit ev) f = (ev # fst (f ()), snd (f ()))"
  by (simp add: bind_io_def io_emit_def split: prod.splits)

lemma bind_io_await_Inl [simp]: "bind_io (io_await (Inl e)) f = io_throw e"
  by (simp add: bind_io_def io_await_def io_throw_def)

lemma bind_io_await_Inr [simp]: "bind_io (io_await (Inr x)) f = f x"
  by (simp add: bind_io_def io_await_def split: prod.splits)

lemma bind_io_await_unit_None [simp]: "bind_io (io_await_unit None) f = f ()"
  by (simp add: bind_io_def io_await_unit_def split: prod.splits)

lemma bind_io_await_unit_Some [simp]: "bind_io (io_await_unit (Some e)) f = io_throw e"
  by (simp add: bind_io_def io_await_unit_def io_throw_def)

lemma bind_io_Inl [simp]: "bind_io (evs, Inl e) f = (evs, Inl e)"
  by (simp add: bind_io_def)

lemma bind_io_Inr [simp]: "bind_io (evs, Inr x) f = (evs @ fst (f x), snd (f x))"
  by (simp add: bind_io_def split: prod.splits)

lemma fst_bind_io:
  "fst (bind_io m f) = fst m @ (case snd m of Inl e \<Rightarrow> [] | Inr x \<Rightarrow> fst (f x))"
  by (cases m) (auto simp: bind_io_def split: sum.splits prod.splits)

lemma snd_bind_io:
  "snd (bind_io m f) = (case snd m of Inl e \<Rightarrow> Inl e | Inr x \<Rightarrow> snd (f x))"
  by (cases m) (auto simp: bind_io_def split: sum.splits prod.splits)

lemma try_catch_Inl [simp]: "try_catch (evs, Inl e) h = (evs @ fst (h e), snd (h e))"
  by (simp add: try_catch_def split: prod.splits)

lemma try_catch_Inr [simp]: "try_catch (evs, Inr x) h = (evs, Inr x)"
  by (simp add: try_catch_def)

lemma try_catch_throw [simp]: "try_catch (io_throw e) h = h e"
  by (simp add: try_catch_def io_throw_def split: prod.splits)

lemma try_catch_return [simp]: "try_catch (io_return x) h = io_return x"
  by (simp add: try_catch_def io_return_def)

lemma fst_io [simp]:
  "fst (io_return x) = []" "fst (io_throw e) = []" "fst (io_emit ev) = [ev]"
  "fst (io_await r) = []" "fst (io_await_unit u) = []"
  by (simp_all add: io_return_def io_throw_def io_emit_def io_await_def io_await_unit_def)

lemma snd_io [simp]:
  "snd (io_return x) = Inr x" "snd (io_throw e) = Inl e" "snd (io_emit ev) = Inr ()"
  "snd (io_await r) = r"
  by (simp_all add: io_return_def io_throw_def io_emit_def io_await_def)

lemma progress_values_simps [simp]:
  "progress_values [] = []"
  "progress_values (Progress p # evs) = p # progress_values evs"
  "progress_values (HttpGet u h t # evs) = progress_values evs"
  "progress_values (FramesPost f # evs) = progress_values evs"
  "progress_values (Unlink f # evs) = progress_values evs"
  "progress_values (VisionPost v # evs) = progress_values evs"
  "progress_values (SynthPost s # evs) = progress_values evs"
  "progress_values (DbUpdate w d # evs) = progress_values evs"
  "progress_values (Notification i n b # evs) = progress_values evs"
  "progress_values (xs @ ys) = progress_values xs @ progress_values ys"
  by (simp_all add: progress_values_def)

lemma db_updates_simps [simp]:
  "db_updates [] = []"
  "db_updates (Progress p # evs) = db_updates evs"
  "db_updates (HttpGet u h t # evs) = db_updates evs"
  "db_updates (FramesPost f # evs) = db_updates evs"
  "db_updates (Unlink f # evs) = db_updates evs"
  "db_updates (VisionPost v # evs) = db_updates evs"
  "db_updates (SynthPost s # evs) = db_updates evs"
  "db_updates (DbUpdate w d # evs) = (w, d) # db_updates evs"
  "db_updates (Notification i n b # evs) = db_updates evs"
  "db_updates (xs @ ys) = db_updates xs @ db_updates ys"
  by (simp_all add: db_updates_def)

lemma synth_calls_simps [simp]:
  "synth_calls [] = []"
  "synth_calls (Progress p # evs) = synth_calls evs"
  "synth_calls (HttpGet u h t # evs) = synth_calls evs"
  "synth_calls (FramesPost f # evs) = synth_calls evs"
  "synth_calls (Unlink f # evs) = synth_calls evs"
  "synth_calls (VisionPost v # evs) = synth_calls evs"
  "synth_calls (SynthPost s # evs) = s # synth_calls evs"
  "synth_calls (DbUpdate w d # evs) = synth_calls evs"
  "synth_calls (Notification i n b # evs) = synth_calls evs"
  "synth_calls (xs @ ys) = synth_calls xs @ synth_calls ys"
  by (simp_all add: synth_calls_def)

lemma vision_calls_simps [simp]:
  "vision_calls [] = []"
  "vision_calls (Progress p # evs) = vision_calls evs"
  "vision_calls (HttpGet u h t # evs) = vision_calls evs"
  "vision_calls (FramesPost f # evs) = vision_calls evs"
  "vision_calls (Unlink f # evs) = vision_calls evs"
  "vision_calls (VisionPost v # evs) = v # vision_calls evs"
  "vision_calls (SynthPost s # evs) = vision_calls evs"
  "vision_calls (DbUpdate w d # evs) = vision_calls evs"
  "vision_calls (Notification i n b # evs) = vision_calls evs"
  "vision_calls (xs @ ys) = vision_calls xs @ vision_calls ys"
  by (simp_all add: vision_calls_def)

lemma notifications_simps [simp]:
  "notifications [] = []"
  "notifications (Progress p # evs) = notifications evs"
  "notifications (HttpGet u h t # evs) = notifications evs"
  "notifications (FramesPost f # evs) = notifications evs"
  "notifications (Unlink f # evs) = notifications evs"
  "notifications (VisionPost v # evs) = notifications evs"
  "notifications (SynthPost s # evs) = notifications evs"
  "notifications (DbUpdate w d # evs) = notifications evs"
  "notifications (Notification i n b # evs) = (i, n, b) # notifications evs"
  "notifications (xs @ ys) = notifications xs @ notifications ys"
  by (simp_all add: notifications_def)

section \<open>updateWorkout\<close>

lemma updateData_keys:
  "map_of (updateData u) ''status'' = Some (u_status u)"
  "map_of (updateData u) ''exercises'' = (if truthy (u_exercises u) then Some (u_exercises u) else None)"
  "map_of (updateData u) ''name'' = (if truthy (u_name u) then Some (u_name u) else None)"
  "map_of (updateData u) ''duration'' = (if truthy (u_duration u) then Some (u_duration u) else None)"
  "map_of (updateData u) ''difficulty'' = (if truthy (u_difficulty u) then Some (u_difficulty u) else None)"
  "map_of (updateData u) ''notes'' = (if truthy (u_notes u) then Some (u_notes u) else None)"
  "map_of (updateData u) ''display_url'' = (if truthy (u_displayUrl u) then Some (u_displayUrl u) else None)"
  "map_of (updateData u) ''processing_error'' = (if truthy (u_processingError u) then Some (u_processingError u) else None)"
  by (simp_all add: updateData_def)

lemma updateWorkout_ok:
  "e_db env wid (updateData u) = None \<Longrightarrow>
   updateWorkout env wid u = ([DbUpdate wid (updateData u)], Inr ())"
  by (simp add: updateWorkout_def io_return_def)

lemma updateWorkout_error:
  "e_db env wid (updateData u) = Some m \<Longrightarrow>
   updateWorkout env wid u = ([DbUpdate wid (updateData u)], Inl (Error (''Supabase error: '' @ m)))"
  by (simp add: updateWorkout_def io_throw_def)

lemma fst_updateWorkout: "fst (updateWorkout env wid u) = [DbUpdate wid (updateData u)]"
  by (cases "e_db env wid (updateData u)") (simp_all add: updateWorkout_ok updateWorkout_error)

section \<open>extractFrames\<close>


lemma utf16_of_ascii_png: "utf16_of_ascii ''.png'' = [0x2E, 0x70, 0x6E, 0x67]"
  by (simp add: utf16_of_ascii_def)

lemma zip_base64_Inr: "zip_base64 z n = Inr d \<longleftrightarrow> zip_file z n = Some (Inr d)"
  by (simp add: zip_base64_def split: option.splits)

lemma zip_file_None: "zip_file z n = None \<longleftrightarrow> n \<notin> fst ` set z"
  by (simp add: zip_file_def map_of_eq_None_iff)


lemma png_files_sorted: "sorted (png_files z)"
  by (simp add: png_files_def)


lemma png_files_set:
  "set (png_files z) = {n \<in> fst ` set z. endsWith n (utf16_of_ascii ''.png'')}"
  by (auto simp: png_files_def object_keys_def)

lemma png_files_keys: "n \<in> set (png_files z) \<Longrightarrow> \<exists>entry. zip_file z n = Some entry"
proof -
  assume "n \<in> set (png_files z)"
  then have "n \<in> fst ` set z"
    by (simp add: png_files_set)
  then show ?thesis
    using zip_file_None[of z n] by auto
qed

text \<open>The first name of the sorted list is the least of the names that end in \<open>.png\<close>.\<close>

lemma png_files_first:
  assumes "png_files z \<noteq> []"
  shows "png_files z ! 0 \<in> fst ` set z"
    and "endsWith (png_files z ! 0) (utf16_of_ascii ''.png'')"
    and "\<forall>n \<in> fst ` set z. endsWith n (utf16_of_ascii ''.png'') \<longrightarrow> png_files z ! 0 \<le> n"
proof -
  from assms obtain f rest where fr: "png_files z = f # rest"
    by (cases "png_files z") simp_all
  then have mem: "f \<in> set (png_files z)"
    by simp
  then have "f \<in> fst ` set z" and "endsWith f (utf16_of_ascii ''.png'')"
    unfolding png_files_set by simp_all
  then show "png_files z ! 0 \<in> fst ` set z"
    and "endsWith (png_files z ! 0) (utf16_of_ascii ''.png'')"
    using fr by simp_all
  have "sorted (f # rest)"
    using png_files_sorted[of z] fr by simp
  then have "\<forall>n \<in> set (f # rest). f \<le> n"
    by auto
  then show "\<forall>n \<in> fst ` set z. endsWith n (utf16_of_ascii ''.png'') \<longrightarrow> png_files z ! 0 \<le> n"
    using fr png_files_set[of z] by auto
qed

text \<open>The loop when every entry it reads can be decompressed.\<close>

lemma frames_loop_steps:
  assumes "\<forall>j. i + 3 * j < length files \<longrightarrow> (\<exists>d. zip_file z (files ! (i + 3 * j)) = Some (Inr d))"
  shows "\<exists>fs. frames_loop z files i acc = Inr (acc @ fs)
           \<and> length fs = (length files - i + 2) div 3
           \<and> (\<forall>j<length fs. \<exists>d. zip_file z (files ! (i + 3 * j)) = Some (Inr d) \<and> fs ! j = data_uri d)"
  using assms
proof (induction z files i acc rule: frames_loop.induct)
  case (1 z files i acc)
  show ?case
  proof (cases "i < length files")
    case False
    then show ?thesis
      by (simp add: frames_loop.simps)
  next
    case True
    from "1.prems"[rule_format, of 0] True obtain d where d: "zip_file z (files ! i) = Some (Inr d)"
      by auto
    then have zb: "zip_base64 z (files ! i) = Inr d"
      by (simp add: zip_base64_Inr)
    have rest: "\<forall>j. i + 3 + 3 * j < length files \<longrightarrow>
                  (\<exists>d. zip_file z (files ! (i + 3 + 3 * j)) = Some (Inr d))"
    proof (intro allI impI)
      fix j assume "i + 3 + 3 * j < length files"
      then have "i + 3 * Suc j < length files"
        by simp
      from "1.prems"[rule_format, OF this]
      show "\<exists>d. zip_file z (files ! (i + 3 + 3 * j)) = Some (Inr d)"
        by (simp add: add.assoc)
    qed
    from "1.IH"[OF True zb rest] obtain fs where
      fs: "frames_loop z files (i + 3) (acc @ [data_uri d]) = Inr ((acc @ [data_uri d]) @ fs)"
        "length fs = (length files - (i + 3) + 2) div 3"
        "\<forall>j<length fs. \<exists>d. zip_file z (files ! (i + 3 + 3 * j)) = Some (Inr d) \<and> fs ! j = data_uri d"
      by blast
    have len: "(length files - i + 2) div 3 = Suc ((length files - (i + 3) + 2) div 3)"
      using True by presburger
    have "frames_loop z files i acc = Inr (acc @ (data_uri d # fs))"
      using True zb fs(1) by (subst frames_loop.simps) simp
    moreover have "length (data_uri d # fs) = (length files - i + 2) div 3"
      using fs(2) len by simp
    moreover have "\<forall>j<length (data_uri d # fs).
        \<exists>d'. zip_file z (files ! (i + 3 * j)) = Some (Inr d') \<and> (data_uri d # fs) ! j = data_uri d'"
    proof (intro allI impI)
      fix j assume j: "j < length (data_uri d # fs)"
      show "\<exists>d'. zip_file z (files ! (i + 3 * j)) = Some (Inr d') \<and> (data_uri d # fs) ! j = data_uri d'"
      proof (cases j)
        case 0
        then show ?thesis using d by simp
      next
        case (Suc k)
        then have "k < length fs" using j by simp
        with fs(3) obtain d' where
          "zip_file z (files ! (i + 3 + 3 * k)) = Some (Inr d')" "fs ! k = data_uri d'"
          by blast
        then show ?thesis using Suc by (simp add: add.assoc)
      qed
    qed
    ultimately show ?thesis by blast
  qed
qed


text \<open>A loop that returns has read every entry it sampled.\<close>

lemma frames_loop_returns:
  assumes "frames_loop z files i acc = Inr fs"
  shows "\<forall>j. i + 3 * j < length files \<longrightarrow> (\<exists>d. zip_file z (files ! (i + 3 * j)) = Some (Inr d))"
  using assms
proof (induction z files i acc rule: frames_loop.induct)
  case (1 z files i acc)
  show ?case
  proof (cases "i < length files")
    case False
    then show ?thesis
      by simp
  next
    case True
    from "1.prems" True obtain d where
      zb: "zip_base64 z (files ! i) = Inr d"
      and rec: "frames_loop z files (i + 3) (acc @ [data_uri d]) = Inr fs"
      by (subst (asm) frames_loop.simps) (auto split: sum.splits)
    from "1.IH"[OF True zb rec]
    have IH: "\<forall>j. i + 3 + 3 * j < length files \<longrightarrow>
                (\<exists>d. zip_file z (files ! (i + 3 + 3 * j)) = Some (Inr d))" .
    show ?thesis
    proof (intro allI impI)
      fix j assume j: "i + 3 * j < length files"
      show "\<exists>d. zip_file z (files ! (i + 3 * j)) = Some (Inr d)"
      proof (cases j)
        case 0
        then show ?thesis
          using zb by (simp add: zip_base64_Inr)
      next
        case (Suc k)
        with j have "i + 3 + 3 * k < length files"
          by simp
        with IH have "\<exists>d. zip_file z (files ! (i + 3 + 3 * k)) = Some (Inr d)"
          by blast
        then show ?thesis
          using Suc by (simp add: add.assoc)
      qed
    qed
  qed
qed

lemma snd_extractFrames: "snd (extractFrames w videoPath) = extractFrames_result w"
  by (simp add: extractFrames_def)

lemma fst_extractFrames: "fst (extractFrames w videoPath) = [FramesPost videoPath]"
  by (simp add: extractFrames_def)


lemma extractFrames_result_archive:
  assumes "fr_ok response" and "fr_zip response = Inr z" and "png_files z \<noteq> []"
    and "\<forall>j. 3 * j < length (png_files z) \<longrightarrow> (\<exists>d. zip_file z (png_files z ! (3 * j)) = Some (Inr d))"
  shows "\<exists>fs d0. extractFrames_result (Inr response)
                      = Inr \<lparr> r_frames = fs, r_firstFrame = Some (data_uri d0) \<rparr>
              \<and> zip_file z (png_files z ! 0) = Some (Inr d0)
              \<and> length fs = (length (png_files z) + 2) div 3
              \<and> (\<forall>j<length fs. \<exists>d. zip_file z (png_files z ! (3 * j)) = Some (Inr d) \<and> fs ! j = data_uri d)"
proof -
  from assms(3) have pos: "3 * 0 < length (png_files z)"
    by simp
  from assms(4)[rule_format, OF pos] obtain d0 where d0: "zip_file z (png_files z ! 0) = Some (Inr d0)"
    by auto
  have "\<forall>j. 0 + 3 * j < length (png_files z) \<longrightarrow>
          (\<exists>d. zip_file z (png_files z ! (0 + 3 * j)) = Some (Inr d))"
    using assms(4) by simp
  from frames_loop_steps[OF this, of "[]"] obtain fs where
    fs: "frames_loop z (png_files z) 0 [] = Inr fs"
      "length fs = (length (png_files z) + 2) div 3"
      "\<forall>j<length fs. \<exists>d. zip_file z (png_files z ! (3 * j)) = Some (Inr d) \<and> fs ! j = data_uri d"
    by auto
  have "extractFrames_result (Inr response) = Inr \<lparr> r_frames = fs, r_firstFrame = Some (data_uri d0) \<rparr>"
    using assms(1,2,3) d0 fs(1) by (simp add: extractFrames_result_def zip_base64_def Let_def)
  with d0 fs(2,3) show ?thesis
    by auto
qed


lemma extractFrames_result_success:
  assumes "extractFrames_result w = Inr r"
  shows "\<exists>response z. w = Inr response \<and> fr_ok response \<and> fr_zip response = Inr z \<and> png_files z \<noteq> []
           \<and> (\<forall>j. 3 * j < length (png_files z) \<longrightarrow>
                  (\<exists>d. zip_file z (png_files z ! (3 * j)) = Some (Inr d)))"
proof -
  from assms obtain response z where
    w: "w = Inr response" "fr_ok response" "fr_zip response = Inr z" "png_files z \<noteq> []"
    by (auto simp: extractFrames_result_def Let_def split: sum.splits if_splits)
  from assms w obtain fs where "frames_loop z (png_files z) 0 [] = Inr fs"
    by (auto simp: extractFrames_result_def Let_def split: sum.splits if_splits)
  from frames_loop_returns[OF this]
  have "\<forall>j. 3 * j < length (png_files z) \<longrightarrow> (\<exists>d. zip_file z (png_files z ! (3 * j)) = Some (Inr d))"
    by simp
  with w show ?thesis
    by blast
qed

lemma extractFrames_result_first:
  assumes "extractFrames_result w = Inr r"
  shows "\<exists>f fs response z d0. r_frames r = f # fs \<and> r_firstFrame r = Some f \<and> f \<noteq> []
           \<and> w = Inr response \<and> fr_ok response \<and> fr_zip response = Inr z \<and> png_files z \<noteq> []
           \<and> zip_file z (png_files z ! 0) = Some (Inr d0) \<and> f = data_uri d0"
proof -
  from extractFrames_result_success[OF assms] obtain response z where
    w: "w = Inr response" "fr_ok response" "fr_zip response = Inr z" "png_files z \<noteq> []"
      "\<forall>j. 3 * j < length (png_files z) \<longrightarrow> (\<exists>d. zip_file z (png_files z ! (3 * j)) = Some (Inr d))"
    by blast
  from extractFrames_result_archive[OF w(2,3,4,5)] obtain fs d0 where
    r: "extractFrames_result (Inr response) = Inr \<lparr> r_frames = fs, r_firstFrame = Some (data_uri d0) \<rparr>"
      "zip_file z (png_files z ! 0) = Some (Inr d0)"
      "length fs = (length (png_files z) + 2) div 3"
      "\<forall>j<length fs. \<exists>d. zip_file z (png_files z ! (3 * j)) = Some (Inr d) \<and> fs ! j = data_uri d"
    by auto
  from w(4) have "0 < length (png_files z)"
    by simp
  then have pos: "0 < length fs"
    using r(3) by presburger
  with r(4) obtain d where "zip_file z (png_files z ! (3 * 0)) = Some (Inr d)" "fs ! 0 = data_uri d"
    by blast
  with r(2) have "fs ! 0 = data_uri d0"
    by simp
  with pos have "fs = data_uri d0 # tl fs"
    by (cases fs) simp_all
  moreover have "r = \<lparr> r_frames = fs, r_firstFrame = Some (data_uri d0) \<rparr>"
    using assms r(1) w(1) by simp
  moreover have "data_uri d0 \<noteq> []"
    by (simp add: data_uri_def)
  ultimately show ?thesis
    using w(1,2,3,4) r(2) by (metis frames_result.select_convs(1,2))
qed

text \<open>The example archives.\<close>

lemma png_files_ex_zip:
  "png_files ex_zip
     = [utf16_of_ascii ''frame_0001.png'', utf16_of_ascii ''frame_0002.png'',
        utf16_of_ascii ''frame_0003.png'', utf16_of_ascii ''frame_0004.png'',
        utf16_of_ascii ''frame_0005.png'']"
  by (simp add: png_files_def object_keys_def ex_zip_def endsWith_def suffix_to_prefix
        utf16_of_ascii_def)

lemma frames_loop_ex_zip:
  "frames_loop ex_zip (png_files ex_zip) 0 []
     = Inr [''data:image/png;base64,AAAA'', ''data:image/png;base64,DDDD'']"
  unfolding png_files_ex_zip
  by (simp add: frames_loop.simps ex_zip_def zip_base64_def zip_file_def data_uri_def utf16_of_ascii_def)

lemma extractFrames_ex_zip:
  "extractFrames_result (ex_frames_response ex_zip)
     = Inr \<lparr> r_frames = [''data:image/png;base64,AAAA'', ''data:image/png;base64,DDDD''],
             r_firstFrame = Some ''data:image/png;base64,AAAA'' \<rparr>"
proof -
  have "zip_base64 ex_zip (utf16_of_ascii ''frame_0001.png'') = Inr ''AAAA''"
    by (simp add: zip_base64_def zip_file_def ex_zip_def utf16_of_ascii_def)
  then show ?thesis
    by (simp add: extractFrames_result_def ex_frames_response_def
        frames_loop_ex_zip[unfolded png_files_ex_zip] png_files_ex_zip data_uri_def)
qed

lemma png_files_ex_zip_astral:
  "png_files ex_zip_astral
     = [[0xD83D, 0xDE00, 0x2E, 0x70, 0x6E, 0x67], [0xFF5E, 0x2E, 0x70, 0x6E, 0x67]]"
  by (simp add: png_files_def object_keys_def ex_zip_astral_def endsWith_def suffix_to_prefix
        utf16_of_ascii_def)

lemma frames_loop_ex_zip_astral:
  "frames_loop ex_zip_astral (png_files ex_zip_astral) 0 [] = Inr [''data:image/png;base64,BBBB'']"
  unfolding png_files_ex_zip_astral
  by (simp add: frames_loop.simps ex_zip_astral_def zip_base64_def zip_file_def data_uri_def utf16_of_ascii_def)

lemma extractFrames_ex_zip_astral:
  "extractFrames_result (ex_frames_response ex_zip_astral)
     = Inr \<lparr> r_frames = [''data:image/png;base64,BBBB''],
             r_firstFrame = Some ''data:image/png;base64,BBBB'' \<rparr>"
proof -
  have "zip_base64 ex_zip_astral [0xD83D, 0xDE00, 0x2E, 0x70, 0x6E, 0x67] = Inr ''BBBB''"
    by (simp add: zip_base64_def zip_file_def ex_zip_astral_def utf16_of_ascii_def)
  then show ?thesis
    by (simp add: extractFrames_result_def ex_frames_response_def
        frames_loop_ex_zip_astral[unfolded png_files_ex_zip_astral] png_files_ex_zip_astral
        data_uri_def)
qed


section \<open>downloadVideo\<close>

lemma Error_name [simp]: "err_name (Error m) = ''Error''" "err_message (Error m) = m"
  by (simp_all add: Error_def)

lemma abort_error_name [simp]: "err_name abort_error = ''AbortError''"
  by (simp add: abort_error_def)

lemma buffer_with_abort_None [simp]: "buffer_with_abort None takes_ms r = r"
  by (simp add: buffer_with_abort_def)

lemma download_with_eq:
  "download_with hs w url =
     ([HttpGet url hs 30000],
      (case fetch_with_abort 30000 (dw_settles_ms w) (dw_fetch w) of
         Inl e \<Rightarrow> Inl (if err_name e = ''AbortError'' then Error ''Video download timeout'' else e)
       | Inr response \<Rightarrow>
           if \<not> dl_ok response then
             Inl (Error (''Failed to download video: '' @ show_nat (dl_status response)))
           else
             (case dl_buffer response of
                Inl e \<Rightarrow> Inl (if err_name e = ''AbortError'' then Error ''Video download timeout'' else e)
              | Inr buffer \<Rightarrow>
                  (case dw_write w of
                     Some e \<Rightarrow> Inl (if err_name e = ''AbortError'' then Error ''Video download timeout'' else e)
                   | None \<Rightarrow> Inr (''/tmp/video_'' @ show_nat (dw_now w) @ ''.mp4'')))))"
proof (cases "fetch_with_abort 30000 (dw_settles_ms w) (dw_fetch w)")
  case (Inl e)
  then show ?thesis
    by (simp add: download_with_def io_throw_def)
next
  case (Inr response)
  show ?thesis
  proof (cases "dl_ok response")
    case False
    then show ?thesis
      using Inr by (simp add: download_with_def io_throw_def)
  next
    case True
    show ?thesis
    proof (cases "dl_buffer response")
      case (Inl e)
      then show ?thesis
        using Inr True by (simp add: download_with_def io_throw_def)
    next
      case buf: (Inr buffer)
      show ?thesis
      proof (cases "dw_write w")
        case None
        then show ?thesis
          using Inr True buf by (simp add: download_with_def io_return_def)
      next
        case (Some e)
        then show ?thesis
          using Inr True buf by (simp add: download_with_def io_throw_def)
      qed
    qed
  qed
qed

lemma downloadVideo_eq:
  "downloadVideo w url src =
     ([HttpGet url (download_headers url) 30000],
      (case fetch_with_abort 30000 (dw_settles_ms w) (dw_fetch w) of
         Inl e \<Rightarrow> Inl (if err_name e = ''AbortError'' then Error ''Video download timeout'' else e)
       | Inr response \<Rightarrow>
           if \<not> dl_ok response then
             Inl (Error (''Failed to download video: '' @ show_nat (dl_status response)))
           else
             (case dl_buffer response of
                Inl e \<Rightarrow> Inl (if err_name e = ''AbortError'' then Error ''Video download timeout'' else e)
              | Inr buffer \<Rightarrow>
                  (case dw_write w of
                     Some e \<Rightarrow> Inl (if err_name e = ''AbortError'' then Error ''Video download timeout'' else e)
                   | None \<Rightarrow> Inr (''/tmp/video_'' @ show_nat (dw_now w) @ ''.mp4'')))))"
  by (simp add: downloadVideo_def download_with_eq)

lemma downloadVideo_index_eq:
  "downloadVideo_index w url src = (HttpGet url (download_headers_index url) 30000 # [],
                                    snd (downloadVideo w url src))"
  by (simp add: downloadVideo_index_def downloadVideo_def download_with_eq)







lemma downloadVideo_ex:
  "downloadVideo ex_download url src
     = ([HttpGet url (download_headers url) 30000], Inr ''/tmp/video_1700000000000.mp4'')"
  by (simp add: downloadVideo_eq ex_download_def fetch_with_abort_def show_nat_now)

section \<open>extractTextFromFrames\<close>

lemma fst_text_loop:
  "fst (text_loop try_frame detail vision key i fs acc)
     = map (\<lambda>f. VisionPost (vision_request detail key f)) fs"
  by (induction fs arbitrary: i acc) (simp_all add: case_prod_beta)

lemma fst_extractTextFromFrames:
  "fst (extractTextFromFrames vision fs key) = map (\<lambda>f. VisionPost (vision_request ''low'' key f)) fs"
  using fst_text_loop[of frame_try "''low''" vision key 0 fs "[]"]
  by (simp add: extractTextFromFrames_def case_prod_beta)

lemma fst_extractTextFromFrames_index:
  "fst (extractTextFromFrames_index vision fs key) = map (\<lambda>f. VisionPost (vision_request ''high'' key f)) fs"
  using fst_text_loop[of frame_try_index "''high''" vision key 0 fs "[]"]
  by (simp add: extractTextFromFrames_index_def case_prod_beta)

lemma snd_text_loop_no_text:
  assumes "\<forall>j<length fs. frame_catch (try_frame (vision (i + j))) = None"
  shows "snd (text_loop try_frame detail vision key i fs acc) = acc"
  using assms
proof (induction fs arbitrary: i acc)
  case Nil
  then show ?case by simp
next
  case (Cons f fs)
  from Cons.prems have here: "frame_catch (try_frame (vision i)) = None"
    by force
  from Cons.prems have "\<forall>j<length fs. frame_catch (try_frame (vision (Suc i + j))) = None"
    by force
  from Cons.IH[OF this] here show ?case
    by (simp add: case_prod_beta)
qed

lemma snd_extractTextFromFrames_Inr:
  "\<exists>t. snd (extractTextFromFrames vision fs key) = Inr t"
  by (simp add: extractTextFromFrames_def case_prod_beta)

lemma no_text_frame_catch:
  assumes "vision_call_fails w \<or> vision_only_whitespace w"
  shows "frame_catch (frame_try w) = None"
proof (cases w)
  case (Inl e)
  then show ?thesis by (simp add: frame_try_def frame_catch_def)
next
  case (Inr response)
  show ?thesis
  proof (cases "resp_ok response")
    case False
    then show ?thesis
      using Inr by (simp add: frame_try_def frame_catch_def Let_def split: sum.splits)
  next
    case True
    show ?thesis
    proof (cases "resp_json response")
      case (Inl e)
      then show ?thesis using Inr True by (simp add: frame_try_def frame_catch_def)
    next
      case data: (Inr data)
      show ?thesis
      proof (cases "completion_content data")
        case (Inl e)
        then show ?thesis using Inr True data by (simp add: frame_try_def frame_catch_def)
      next
        case content: (Inr v)
        show ?thesis
        proof (cases v)
          case (JStr s)
          then have "js_trim s = []"
            using assms Inr True data content
            by (simp add: vision_call_fails_def vision_only_whitespace_def)
          then show ?thesis
            using Inr True data content JStr by (simp add: frame_try_def frame_catch_def)
        qed (use Inr True data content in \<open>simp_all add: frame_try_def frame_catch_def\<close>)
      qed
    qed
  qed
qed

lemma extractTextFromFrames_no_text:
  assumes "\<forall>i<length fs. vision_call_fails (vision i) \<or> vision_only_whitespace (vision i)"
  shows "snd (extractTextFromFrames vision fs key) = Inr []"
proof -
  have "\<forall>j<length fs. frame_catch (frame_try (vision (0 + j))) = None"
    using assms no_text_frame_catch by simp
  from snd_text_loop_no_text[OF this, of "''low''" key "[]"]
  show ?thesis
    by (simp add: extractTextFromFrames_def case_prod_beta)
qed

section \<open>The orchestrator\<close>

lemma bind_io_pair:
  "bind_io (evs, r) f = (case r of Inl e \<Rightarrow> (evs, Inl e) | Inr x \<Rightarrow> (evs @ fst (f x), snd (f x)))"
  by (cases r) simp_all

lemma bind_io_InrE:
  assumes "bind_io m f = (evs, Inr y)"
  obtains evs1 x evs2 where "m = (evs1, Inr x)" and "f x = (evs2, Inr y)" and "evs = evs1 @ evs2"
proof -
  obtain evs1 r where m: "m = (evs1, r)"
    by (cases m)
  with assms obtain x where r: "r = Inr x"
    by (cases r) simp_all
  obtain evs2 r2 where f: "f x = (evs2, r2)"
    by (cases "f x")
  from assms m r f have "evs = evs1 @ evs2" "r2 = Inr y"
    by simp_all
  with m r f that show thesis
    by blast
qed

lemma updateWorkout_eq:
  "updateWorkout env wid u =
     ([DbUpdate wid (updateData u)],
      case e_db env wid (updateData u) of
        Some m \<Rightarrow> Inl (Error (''Supabase error: '' @ m))
      | None \<Rightarrow> Inr ())"
  by (cases "e_db env wid (updateData u)") (simp_all add: updateWorkout_ok updateWorkout_error)

lemma notification_swallowed:
  "try_catch (sendWorkoutProcessingNotification env uid n b) (\<lambda>notifError. io_return ())
     = ([Notification uid n b], Inr ())"
  by (cases "e_notify env uid n b")
     (simp_all add: sendWorkoutProcessingNotification_def io_await_unit_def io_return_def)

lemma unlink_eq:
  "unlink env k p = ([Unlink p], case e_unlink env k of None \<Rightarrow> Inr () | Some e \<Rightarrow> Inl e)"
  by (simp add: unlink_def io_await_unit_def)

lemma extractFrames_eq: "extractFrames w p = ([FramesPost p], extractFrames_result w)"
  by (simp add: extractFrames_def io_await_def)

lemma extractTextFromFrames_eq:
  "extractTextFromFrames vision fs key =
     (map (\<lambda>f. VisionPost (vision_request ''low'' key f)) fs,
      Inr (js_join blank_line (snd (text_loop frame_try ''low'' vision key 0 fs []))))"
  using fst_text_loop[of frame_try "''low''" vision key 0 fs "[]"]
  by (simp add: extractTextFromFrames_def case_prod_beta)

lemma parseWorkoutWithAI_eq:
  "parseWorkoutWithAI env c t k =
     ([SynthPost (synth_request k (synth_prompt c t))],
      (case e_synth env of
         Inl e \<Rightarrow> Inl e
       | Inr response \<Rightarrow>
           if \<not> resp_ok response then
             (case synth_error_message response of
                Inl e \<Rightarrow> Inl e
              | Inr errorMessage \<Rightarrow>
                  Inl (Error (''OpenAI API error: '' @ show_nat (resp_status response) @ '' - ''
                              @ js_toString (e_number_toString env) errorMessage)))
           else
             (case resp_json response of
                Inl e \<Rightarrow> Inl e
              | Inr data \<Rightarrow>
                  (case completion_content data of
                     Inl e \<Rightarrow> Inl e
                   | Inr content \<Rightarrow>
                       (case match_call content of
                          Inl e \<Rightarrow> Inl e
                        | Inr None \<Rightarrow> Inl (Error ''Failed to parse workout data from AI response'')
                        | Inr (Some matched) \<Rightarrow>
                            (case e_json_parse env matched of
                               Inl e \<Rightarrow> Inl e
                             | Inr workoutData \<Rightarrow>
                                 (case get_prop workoutData ''exercises'' of
                                    Inl e \<Rightarrow> Inl e
                                  | Inr exercises \<Rightarrow>
                                      if \<not> truthy exercises \<or> \<not> isArray exercises then
                                        Inl (Error ''Invalid workout structure from AI'')
                                      else Inr workoutData)))))))"
  by (auto simp: parseWorkoutWithAI_def Let_def io_throw_def io_return_def
           split: sum.splits option.splits)

lemma parseWorkoutWithAI_success:
  assumes "snd (parseWorkoutWithAI env c t k) = Inr workoutData"
  shows "\<exists>props xs. workoutData = JObj props \<and> map_of props ''exercises'' = Some (JArr xs)"
proof -
  from assms obtain exercises where
    ex: "get_prop workoutData ''exercises'' = Inr exercises" "truthy exercises" "isArray exercises"
    by (auto simp: parseWorkoutWithAI_eq split: sum.splits if_splits option.splits)
  from ex(3) obtain xs where xs: "exercises = JArr xs"
    by (cases exercises) simp_all
  with ex(1) show ?thesis
    by (cases workoutData) (auto split: option.splits)
qed

lemma handle_error_rate_limit:
  assumes "isRateLimitError e"
  shows "handle_error env d e =
     ([DbUpdate (workoutId d)
         (updateData (no_updates\<lparr> u_status := JStr ''processing'', u_notes := JStr rate_limit_notes \<rparr>))],
      case e_db env (workoutId d)
             (updateData (no_updates\<lparr> u_status := JStr ''processing'', u_notes := JStr rate_limit_notes \<rparr>)) of
        None \<Rightarrow> Inr (JobSoftFailure ''Rate limit - no auto retry'')
      | Some m \<Rightarrow> Inl (Error (''Supabase error: '' @ m)))"
  using assms
  by (simp add: handle_error_def updateWorkout_eq io_return_def split: option.splits)

lemma handle_error_permanent:
  assumes "\<not> isRateLimitError e"
  shows "handle_error env d e =
     (case e_db env (workoutId d)
             (updateData (no_updates\<lparr> u_status := JStr ''failed'',
                                      u_processingError := JStr (err_message e) \<rparr>)) of
        None \<Rightarrow>
          ([DbUpdate (workoutId d)
              (updateData (no_updates\<lparr> u_status := JStr ''failed'',
                                       u_processingError := JStr (err_message e) \<rparr>)),
            Notification (userId d) (JStr ''Workout'') False],
           Inl e)
      | Some m \<Rightarrow>
          ([DbUpdate (workoutId d)
              (updateData (no_updates\<lparr> u_status := JStr ''failed'',
                                       u_processingError := JStr (err_message e) \<rparr>))],
           Inl (Error (''Supabase error: '' @ m))))"
  using assms
  by (simp add: handle_error_def updateWorkout_eq notification_swallowed io_throw_def
           split: option.splits)

lemma handle_error_not_success: "snd (handle_error env d e) \<noteq> Inr (JobSuccess w n)"
  by (cases "isRateLimitError e")
     (simp_all add: handle_error_rate_limit handle_error_permanent split: option.splits)

lemma handle_error_no_synth: "synth_calls (fst (handle_error env d e)) = []"
  by (cases "isRateLimitError e")
     (simp_all add: handle_error_rate_limit handle_error_permanent split: option.splits)

lemma processVideoJob_pipeline_error:
  assumes "pipeline env d = (evs, Inl e)"
  shows "processVideoJob env d = (Progress 10 # evs @ fst (handle_error env d e), snd (handle_error env d e))"
  using assms by (simp add: processVideoJob_def)

lemma processVideoJob_pipeline_ok:
  assumes "pipeline env d = (evs, Inr r)"
  shows "processVideoJob env d = (Progress 10 # evs, Inr r)"
  using assms by (simp add: processVideoJob_def)

lemma updateData_completed_status:
  "map_of (updateData (u\<lparr> u_status := s \<rparr>)) ''status'' = Some s"
  by (simp add: updateData_def)

lemma truthy_str_Some: "truthy_str v \<longleftrightarrow> (\<exists>t. v = Some t \<and> t \<noteq> [])"
  by (cases v) (simp_all add: truthy_str_def)

lemma files_loop_quiet:
  "db_updates (fst (files_loop env tv i fs acc)) = []
   \<and> synth_calls (fst (files_loop env tv i fs acc)) = []
   \<and> notifications (fst (files_loop env tv i fs acc)) = []
   \<and> vision_calls (fst (files_loop env tv i fs acc)) = []"
  by (induction fs arbitrary: i acc)
     (simp_all add: extractFrames_eq unlink_eq bind_io_pair split: sum.splits option.splits
        split del: if_split)

lemma urls_loop_quiet:
  "db_updates (fst (urls_loop env src tv nf i us acc)) = []
   \<and> synth_calls (fst (urls_loop env src tv nf i us acc)) = []
   \<and> notifications (fst (urls_loop env src tv nf i us acc)) = []
   \<and> vision_calls (fst (urls_loop env src tv nf i us acc)) = []"
  by (induction us arbitrary: i acc)
     (simp_all add: extractFrames_eq unlink_eq downloadVideo_eq bind_io_pair Let_def
        split: sum.splits option.splits split del: if_split)

lemma acquire_frames_quiet:
  "db_updates (fst (acquire_frames env d)) = []
   \<and> synth_calls (fst (acquire_frames env d)) = []
   \<and> notifications (fst (acquire_frames env d)) = []
   \<and> vision_calls (fst (acquire_frames env d)) = []"
  by (simp add: acquire_frames_def Let_def fst_bind_io files_loop_quiet urls_loop_quiet
        split: sum.splits)

lemma files_loop_thumbnail:
  assumes "files_loop env tv i fs acc = (evs, Inr acc')"
    and "truthy_str (snd acc) \<or> (i = 0 \<and> fs \<noteq> [])"
  shows "truthy_str (snd acc')"
  using assms
proof (induction fs arbitrary: i acc evs)
  case Nil
  then show ?case by (simp add: io_return_def)
next
  case (Cons p rest)
  from Cons.prems(1) obtain r evs0 evs3 where
    r0: "extractFrames (e_frames env i) p = (evs0, Inr r)"
    and rec: "files_loop env tv (Suc i) rest
                (fst acc @ r_frames r,
                 if i = 0 \<and> truthy_str (r_firstFrame r) then r_firstFrame r else snd acc)
              = (evs3, Inr acc')"
    unfolding files_loop.simps by (elim bind_io_InrE) blast
  from r0 have r: "extractFrames_result (e_frames env i) = Inr r"
    by (simp add: extractFrames_eq)
  from extractFrames_result_first[OF r] have first: "truthy_str (r_firstFrame r)"
    by (auto simp: truthy_str_Some)
  have "truthy_str (if i = 0 \<and> truthy_str (r_firstFrame r) then r_firstFrame r else snd acc)"
    using first Cons.prems(2) by auto
  then show ?case
    using Cons.IH[OF rec] by simp
qed

lemma urls_loop_thumbnail:
  assumes "urls_loop env src tv nf i us acc = (evs, Inr acc')"
    and "truthy_str (snd acc) \<or> (nf = 0 \<and> i = 0 \<and> us \<noteq> [])"
  shows "truthy_str (snd acc')"
  using assms
proof (induction us arbitrary: i acc evs)
  case Nil
  then show ?case by (simp add: io_return_def)
next
  case (Cons u rest)
  from Cons.prems(1) obtain r evs0 evs3 vp where
    r0: "extractFrames (e_frames env (nf + i)) vp = (evs0, Inr r)"
    and rec: "urls_loop env src tv nf (Suc i) rest
                (fst acc @ r_frames r,
                 if nf = 0 \<and> i = 0 \<and> truthy_str (r_firstFrame r) then r_firstFrame r else snd acc)
              = (evs3, Inr acc')"
    unfolding urls_loop.simps Let_def by (elim bind_io_InrE) blast
  from r0 have r: "extractFrames_result (e_frames env (nf + i)) = Inr r"
    by (simp add: extractFrames_eq)
  from extractFrames_result_first[OF r] have first: "truthy_str (r_firstFrame r)"
    by (auto simp: truthy_str_Some)
  have "truthy_str (if nf = 0 \<and> i = 0 \<and> truthy_str (r_firstFrame r) then r_firstFrame r else snd acc)"
    using first Cons.prems(2) by auto
  then show ?case
    using Cons.IH[OF rec] by simp
qed

lemma acquire_frames_thumbnail:
  assumes "acquire_frames env d = (evs, Inr acc)" and "fst acc \<noteq> []"
  shows "\<exists>thumb. snd acc = Some thumb \<and> thumb \<noteq> []"
proof -
  from assms(1) obtain evs1 acc1 evs2 where
    f: "files_loop env (length (job_files d) + length (job_urls d)) 0 (job_files d) ([], None)
          = (evs1, Inr acc1)"
    and u: "urls_loop env (source d) (length (job_files d) + length (job_urls d))
              (length (job_files d)) 0 (job_urls d) acc1 = (evs2, Inr acc)"
    unfolding acquire_frames_def Let_def by (elim bind_io_InrE) blast
  show ?thesis
  proof (cases "job_files d = []")
    case False
    with files_loop_thumbnail[OF f] have "truthy_str (snd acc1)"
      by simp
    with urls_loop_thumbnail[OF u] show ?thesis
      by (simp add: truthy_str_Some)
  next
    case True
    with f have acc1: "acc1 = ([], None)"
      by (simp add: io_return_def)
    show ?thesis
    proof (cases "job_urls d = []")
      case False
      with urls_loop_thumbnail[OF u] True show ?thesis
        by (simp add: truthy_str_Some)
    next
      case True
      with u acc1 have "acc = ([], None)"
        by (simp add: io_return_def)
      with assms(2) show ?thesis
        by simp
    qed
  qed
qed

lemma quiet_vision_posts:
  "db_updates (map (\<lambda>f. VisionPost (g f)) fs) = []"
  "synth_calls (map (\<lambda>f. VisionPost (g f)) fs) = []"
  "notifications (map (\<lambda>f. VisionPost (g f)) fs) = []"
  "progress_values (map (\<lambda>f. VisionPost (g f)) fs) = []"
  by (induction fs) simp_all

lemma fst_parseWorkoutWithAI:
  "fst (parseWorkoutWithAI env c t k) = [SynthPost (synth_request k (synth_prompt c t))]"
  by (simp add: parseWorkoutWithAI_eq)

lemma complete_job_obj:
  assumes "map_of props ''exercises'' = Some (JArr xs)"
  shows "complete_job env d th (JObj props) =
     (case e_db env (workoutId d)
             (updateData
                \<lparr> u_status = JStr ''completed'', u_exercises = JArr xs,
                  u_name = get_prop_opt (JObj props) ''name'',
                  u_duration = get_prop_opt (JObj props) ''duration'',
                  u_difficulty = get_prop_opt (JObj props) ''difficulty'',
                  u_notes = JStr (js_toString (e_number_toString env)
                                    (get_prop_opt (JObj props) ''notes'') @ enhanced_marker),
                  u_displayUrl = finalDisplayUrl (source d) th (displayUrl d),
                  u_processingError = JUndefined \<rparr>) of
        Some m \<Rightarrow>
          ([DbUpdate (workoutId d)
              (updateData
                \<lparr> u_status = JStr ''completed'', u_exercises = JArr xs,
                  u_name = get_prop_opt (JObj props) ''name'',
                  u_duration = get_prop_opt (JObj props) ''duration'',
                  u_difficulty = get_prop_opt (JObj props) ''difficulty'',
                  u_notes = JStr (js_toString (e_number_toString env)
                                    (get_prop_opt (JObj props) ''notes'') @ enhanced_marker),
                  u_displayUrl = finalDisplayUrl (source d) th (displayUrl d),
                  u_processingError = JUndefined \<rparr>)],
           Inl (Error (''Supabase error: '' @ m)))
      | None \<Rightarrow>
          ([DbUpdate (workoutId d)
              (updateData
                \<lparr> u_status = JStr ''completed'', u_exercises = JArr xs,
                  u_name = get_prop_opt (JObj props) ''name'',
                  u_duration = get_prop_opt (JObj props) ''duration'',
                  u_difficulty = get_prop_opt (JObj props) ''difficulty'',
                  u_notes = JStr (js_toString (e_number_toString env)
                                    (get_prop_opt (JObj props) ''notes'') @ enhanced_marker),
                  u_displayUrl = finalDisplayUrl (source d) th (displayUrl d),
                  u_processingError = JUndefined \<rparr>),
            Progress 100,
            Notification (userId d)
              (js_or (get_prop_opt (JObj props) ''name'') (JStr ''Your workout'')) True],
           Inr (JobSuccess (workoutId d) (JNum (of_nat (length xs))))))"
proof -
  have gp: "get_prop (JObj props) k = Inr (get_prop_opt (JObj props) k)" for k
    by simp
  have ex: "get_prop_opt (JObj props) ''exercises'' = JArr xs"
    using assms by simp
  show ?thesis
    unfolding complete_job_def notification_swallowed gp bind_io_await_Inr ex updateWorkout_eq
    by (cases "e_db env (workoutId d)
             (updateData
                \<lparr> u_status = JStr ''completed'', u_exercises = JArr xs,
                  u_name = get_prop_opt (JObj props) ''name'',
                  u_duration = get_prop_opt (JObj props) ''duration'',
                  u_difficulty = get_prop_opt (JObj props) ''difficulty'',
                  u_notes = JStr (js_toString (e_number_toString env)
                                    (get_prop_opt (JObj props) ''notes'') @ enhanced_marker),
                  u_displayUrl = finalDisplayUrl (source d) th (displayUrl d),
                  u_processingError = JUndefined \<rparr>)")
       (simp_all add: io_return_def del: get_prop_opt.simps)
qed

lemma complete_job_success:
  assumes "complete_job env d th (JObj props) = (evs, Inr res)"
    and "map_of props ''exercises'' = Some (JArr xs)"
  shows "\<exists>upd. db_updates evs = [(workoutId d, upd)]
           \<and> map_of upd ''status'' = Some (JStr ''completed'')
           \<and> map_of upd ''display_url''
               = (if truthy (finalDisplayUrl (source d) th (displayUrl d))
                  then Some (finalDisplayUrl (source d) th (displayUrl d)) else None)
           \<and> progress_values evs = [100]
           \<and> res = JobSuccess (workoutId d) (JNum (of_nat (length xs)))"
  using assms(1) unfolding complete_job_obj[OF assms(2)]
  by (auto simp: updateData_keys split: option.splits)

lemma process_frames_no_text:
  assumes "fst acc \<noteq> []"
    and "snd (extractTextFromFrames (e_vision env) (fst acc) (openAIKey d)) = Inr []"
  shows "process_frames env d acc =
           (fst (extractTextFromFrames (e_vision env) (fst acc) (openAIKey d)) @ [Progress 75],
            Inl (Error ''No text extracted from video frames''))"
proof -
  obtain evsT where "extractTextFromFrames (e_vision env) (fst acc) (openAIKey d) = (evsT, Inr [])"
    using assms(2) by (metis prod.collapse)
  then show ?thesis
    using assms(1) by (simp add: process_frames_def Let_def io_throw_def)
qed

lemma process_frames_success:
  assumes "process_frames env d acc = (evs, Inr res)"
  shows "fst acc \<noteq> []
       \<and> (\<exists>upd n. db_updates evs = [(workoutId d, upd)]
             \<and> map_of upd ''status'' = Some (JStr ''completed'')
             \<and> map_of upd ''display_url''
                 = (if truthy (finalDisplayUrl (source d) (snd acc) (displayUrl d))
                    then Some (finalDisplayUrl (source d) (snd acc) (displayUrl d)) else None)
             \<and> progress_values evs = [75, 90, 100]
             \<and> res = JobSuccess (workoutId d) n)"
proof -
  have ne: "fst acc \<noteq> []"
    using assms by (auto simp: process_frames_def Let_def io_throw_def)
  define etext where "etext = js_join blank_line (snd (text_loop frame_try ''low'' (e_vision env) (openAIKey d) 0 (fst acc) []))"
  define evsT where "evsT = map (\<lambda>f. VisionPost (vision_request ''low'' (openAIKey d) f)) (fst acc)"
  have T: "extractTextFromFrames (e_vision env) (fst acc) (openAIKey d) = (evsT, Inr etext)"
    by (simp add: extractTextFromFrames_eq etext_def evsT_def)
  have etext: "etext \<noteq> []"
    using assms ne T by (auto simp: process_frames_def Let_def io_throw_def)
  obtain rP where P: "parseWorkoutWithAI env (caption d) etext (openAIKey d)
       = ([SynthPost (synth_request (openAIKey d) (synth_prompt (caption d) etext))], rP)"
    by (metis fst_parseWorkoutWithAI prod.collapse)
  from assms ne T etext P obtain wd where wd: "rP = Inr wd"
    by (cases rP) (simp_all add: process_frames_def Let_def)
  with P have "snd (parseWorkoutWithAI env (caption d) etext (openAIKey d)) = Inr wd"
    by simp
  from parseWorkoutWithAI_success[OF this] obtain props xs where
    obj: "wd = JObj props" "map_of props ''exercises'' = Some (JArr xs)"
    by blast
  obtain evsC rC where C: "complete_job env d (snd acc) (JObj props) = (evsC, rC)"
    by (cases "complete_job env d (snd acc) (JObj props)")
  from assms ne T etext P wd obj C have
    evs: "evs = evsT @ Progress 75 # SynthPost (synth_request (openAIKey d) (synth_prompt (caption d) etext))
                 # Progress 90 # evsC"
    and rC: "rC = Inr res"
    by (simp_all add: process_frames_def Let_def)
  from complete_job_success[OF C[unfolded rC] obj(2)] obtain upd where
    "db_updates evsC = [(workoutId d, upd)]"
    "map_of upd ''status'' = Some (JStr ''completed'')"
    "map_of upd ''display_url''
       = (if truthy (finalDisplayUrl (source d) (snd acc) (displayUrl d))
          then Some (finalDisplayUrl (source d) (snd acc) (displayUrl d)) else None)"
    "progress_values evsC = [100]"
    "res = JobSuccess (workoutId d) (JNum (of_nat (length xs)))"
    by blast
  then show ?thesis
    using ne evs by (auto simp: evsT_def quiet_vision_posts)
qed

lemma processVideoJob_success:
  assumes "processVideoJob env d = (evs, Inr (JobSuccess w n))"
  shows "\<exists>evs1 acc evs2. acquire_frames env d = (evs1, Inr acc)
           \<and> process_frames env d acc = (evs2, Inr (JobSuccess w n))
           \<and> evs = Progress 10 # evs1 @ evs2"
proof -
  obtain evsP rP where P: "pipeline env d = (evsP, rP)"
    by (cases "pipeline env d")
  show ?thesis
  proof (cases rP)
    case (Inl e)
    with P assms have "snd (handle_error env d e) = Inr (JobSuccess w n)"
      by (simp add: processVideoJob_pipeline_error)
    then show ?thesis
      by (simp add: handle_error_not_success)
  next
    case (Inr r)
    with P assms have r: "r = JobSuccess w n" and evs: "evs = Progress 10 # evsP"
      by (simp_all add: processVideoJob_pipeline_ok)
    from P Inr r have "bind_io (acquire_frames env d) (process_frames env d) = (evsP, Inr (JobSuccess w n))"
      by (simp add: pipeline_def)
    then show ?thesis
      using evs by (elim bind_io_InrE) auto
  qed
qed

section \<open>The example runs\<close>

lemma extractFrames_one_image:
  "extractFrames_result (ex_frames_response ex_zip_one)
     = Inr \<lparr> r_frames = [''data:image/png;base64,AAAA''],
             r_firstFrame = Some ''data:image/png;base64,AAAA'' \<rparr>"
proof -
  have files: "png_files ex_zip_one = [utf16_of_ascii ''frame_0001.png'']"
    by (simp add: png_files_def object_keys_def ex_zip_one_def endsWith_def suffix_to_prefix
          utf16_of_ascii_def)
  have entry: "zip_base64 ex_zip_one (utf16_of_ascii ''frame_0001.png'') = Inr ''AAAA''"
    by (simp add: zip_base64_def zip_file_def ex_zip_one_def)
  have loop: "frames_loop ex_zip_one [utf16_of_ascii ''frame_0001.png''] 0 []
                = Inr [''data:image/png;base64,AAAA'']"
    by (simp add: frames_loop.simps entry data_uri_def)
  show ?thesis
    by (simp add: extractFrames_result_def ex_frames_response_def files entry loop data_uri_def)
qed

lemma js_trim_text: "js_trim ''Squat 3x10'' = ''Squat 3x10''"
  by (simp add: js_trim_def strip_start.simps whitespace_seqs_def)

lemma js_trim_blank: "js_trim [CHR 0x20, CHR 0x20, CHR 0x0A] = []"
  by (simp add: js_trim_def strip_start.simps whitespace_seqs_def)

lemma completion_content_ex:
  "completion_content (JObj [(''choices'', JArr [JObj [(''message'', JObj [(''content'', JStr c)])]])])
     = Inr (if c = [] then JStr [] else JStr c)"
  by (simp add: completion_content_def js_or_def)

lemma frame_try_text: "frame_try (ex_chat_ok ''Squat 3x10'') = Inr (Some ''Squat 3x10'')"
  by (simp add: frame_try_def ex_chat_ok_def completion_content_ex js_trim_text)

lemma acquire_frames_one_url:
  assumes "e_download env 0 = ex_download"
    and "e_frames env 0 = ex_frames_response ex_zip_one"
    and "e_unlink env 0 = None"
    and "job_files d = []" and "job_urls d = [u]"
  shows "acquire_frames env d =
     ([HttpGet u (download_headers u) 30000, Progress 25,
       FramesPost ''/tmp/video_1700000000000.mp4'', Progress 50,
       Unlink ''/tmp/video_1700000000000.mp4''],
      Inr ([''data:image/png;base64,AAAA''], Some ''data:image/png;base64,AAAA''))"
  using assms
  by (simp add: acquire_frames_def downloadVideo_ex extractFrames_eq extractFrames_one_image
        unlink_eq io_return_def truthy_str_def)

lemma acquire_frames_two_urls:
  assumes "\<forall>i. e_download env i = ex_download"
    and "\<forall>k. e_frames env k = ex_frames_response ex_zip_one"
    and "\<forall>k. e_unlink env k = None"
    and "job_files d = []" and "job_urls d = [u, v]"
  shows "acquire_frames env d =
     ([HttpGet u (download_headers u) 30000, Progress (35 / 2),
       FramesPost ''/tmp/video_1700000000000.mp4'', Progress (75 / 2),
       Unlink ''/tmp/video_1700000000000.mp4'',
       HttpGet v (download_headers v) 30000, Progress 25,
       FramesPost ''/tmp/video_1700000000000.mp4'', Progress 50,
       Unlink ''/tmp/video_1700000000000.mp4''],
      Inr ([''data:image/png;base64,AAAA'', ''data:image/png;base64,AAAA''],
           Some ''data:image/png;base64,AAAA''))"
  using assms
  by (simp add: acquire_frames_def downloadVideo_ex extractFrames_eq extractFrames_one_image
        unlink_eq io_return_def truthy_str_def)

lemma acquire_frames_one_file:
  assumes "e_frames env 0 = ex_frames_response ex_zip_one"
    and "e_unlink env 0 = None"
    and "job_files d = [p]" and "job_urls d = []"
  shows "acquire_frames env d =
     ([FramesPost p, Progress 50, Unlink p],
      Inr ([''data:image/png;base64,AAAA''], Some ''data:image/png;base64,AAAA''))"
  using assms
  by (simp add: acquire_frames_def extractFrames_eq extractFrames_one_image
        unlink_eq io_return_def truthy_str_def)

lemma ex_jobs:
  "job_files ex_job_url = []" "job_urls ex_job_url = [''https://cdn.example/a.mp4'']"
  "job_files ex_job_no_display = []" "job_urls ex_job_no_display = [''https://cdn.example/a.mp4'']"
  "job_files ex_job_two_urls = []"
  "job_urls ex_job_two_urls = [''https://cdn.example/a.mp4'', ''https://cdn.example/b.mp4'']"
  "job_files ex_job_tiktok = [''/tmp/uploads/3f2a'']" "job_urls ex_job_tiktok = []"
  by (simp_all add: job_files_def job_urls_def ex_job_url_def ex_job_no_display_def
        ex_job_two_urls_def ex_job_tiktok_def ex_job_def)

lemma match_braces_ex: "match_braces ex_synth_answer = Some ex_workout_json"
  by (simp add: match_braces_def ex_synth_answer_def ex_workout_json_def)

lemma ex_synth_answer_nonempty: "ex_synth_answer \<noteq> []"
  by (simp add: ex_synth_answer_def)

lemma parse_ex:
  assumes "e_synth env = ex_chat_ok ex_synth_answer"
    and "e_json_parse env ex_workout_json = Inr ex_workout"
  shows "parseWorkoutWithAI env c t k
     = ([SynthPost (synth_request k (synth_prompt c t))], Inr ex_workout)"
proof -
  have "get_prop ex_workout ''exercises''
          = Inr (JArr [JObj [(''name'', JStr ''Squat''), (''reps'', JStr ''10''),
                             (''sets'', JStr ''3''), (''notes'', JStr [])]])"
    by (simp add: ex_workout_def)
  then show ?thesis
    using assms
    by (simp add: parseWorkoutWithAI_eq ex_chat_ok_def completion_content_ex match_braces_ex
          ex_synth_answer_nonempty)
qed

lemma ex_env_fields:
  "e_download ex_env i = ex_download"
  "e_frames ex_env k = ex_frames_response ex_zip_one"
  "e_unlink ex_env k = None"
  "e_vision ex_env i = ex_chat_ok ''Squat 3x10''"
  "e_synth ex_env = ex_chat_ok ex_synth_answer"
  "e_json_parse ex_env ex_workout_json = Inr ex_workout"
  "e_db ex_env w u = None"
  by (simp_all add: ex_env_def)

lemma extract_text_ex:
  assumes "\<forall>i. e_vision env i = ex_chat_ok ''Squat 3x10''"
  shows "extractTextFromFrames (e_vision env) [f] k
           = ([VisionPost (vision_request ''low'' k f)], Inr ''Squat 3x10'')"
    and "extractTextFromFrames (e_vision env) [f, g] k
           = ([VisionPost (vision_request ''low'' k f), VisionPost (vision_request ''low'' k g)],
              Inr (''Squat 3x10'' @ blank_line @ ''Squat 3x10''))"
  using assms by (simp_all add: extractTextFromFrames_def frame_try_text frame_catch_def)

lemma complete_job_ex:
  assumes "\<forall>u. e_db env (workoutId d) u = None"
  shows "complete_job env d th ex_workout =
          ([DbUpdate (workoutId d)
              ([(''status'', JStr ''completed''),
                (''exercises'', JArr [JObj [(''name'', JStr ''Squat''), (''reps'', JStr ''10''),
                                           (''sets'', JStr ''3''), (''notes'', JStr [])]]),
                (''name'', JStr ''Leg Day''), (''duration'', JStr ''30 min''),
                (''difficulty'', JStr ''Intermediate''),
                (''notes'', JStr (''great session'' @ enhanced_marker))]
               @ (if truthy (finalDisplayUrl (source d) th (displayUrl d))
                  then [(''display_url'', finalDisplayUrl (source d) th (displayUrl d))] else [])),
            Progress 100, Notification (userId d) (JStr ''Leg Day'') True],
           Inr (JobSuccess (workoutId d) (JNum 1)))"
proof -
  have ex: "map_of [(''name'', JStr ''Leg Day''),
           (''exercises'', JArr [JObj [(''name'', JStr ''Squat''), (''reps'', JStr ''10''),
                                      (''sets'', JStr ''3''), (''notes'', JStr [])]]),
           (''duration'', JStr ''30 min''), (''difficulty'', JStr ''Intermediate''),
           (''notes'', JStr ''great session'')] ''exercises''
         = Some (JArr [JObj [(''name'', JStr ''Squat''), (''reps'', JStr ''10''),
                                      (''sets'', JStr ''3''), (''notes'', JStr [])]])"
    by simp
  show ?thesis
    unfolding ex_workout_def complete_job_obj[OF ex]
    using assms by (simp add: updateData_def js_or_def enhanced_marker_def)
qed

lemma run_two_urls:
  "progress_values (fst (processVideoJob ex_env ex_job_two_urls)) = [10, 35 / 2, 75 / 2, 25, 50, 75, 90, 100]"
proof -
  have acq: "acquire_frames ex_env ex_job_two_urls =
     ([HttpGet ''https://cdn.example/a.mp4'' (download_headers ''https://cdn.example/a.mp4'') 30000,
       Progress (35 / 2),
       FramesPost ''/tmp/video_1700000000000.mp4'', Progress (75 / 2),
       Unlink ''/tmp/video_1700000000000.mp4'',
       HttpGet ''https://cdn.example/b.mp4'' (download_headers ''https://cdn.example/b.mp4'') 30000,
       Progress 25,
       FramesPost ''/tmp/video_1700000000000.mp4'', Progress 50,
       Unlink ''/tmp/video_1700000000000.mp4''],
      Inr ([''data:image/png;base64,AAAA'', ''data:image/png;base64,AAAA''],
           Some ''data:image/png;base64,AAAA''))"
    by (rule acquire_frames_two_urls) (simp_all add: ex_env_fields ex_jobs)
  have cj: "complete_job ex_env ex_job_two_urls th ex_workout =
          ([DbUpdate (workoutId ex_job_two_urls)
              ([(''status'', JStr ''completed''),
                (''exercises'', JArr [JObj [(''name'', JStr ''Squat''), (''reps'', JStr ''10''),
                                           (''sets'', JStr ''3''), (''notes'', JStr [])]]),
                (''name'', JStr ''Leg Day''), (''duration'', JStr ''30 min''),
                (''difficulty'', JStr ''Intermediate''),
                (''notes'', JStr (''great session'' @ enhanced_marker))]
               @ (if truthy (finalDisplayUrl (source ex_job_two_urls) th (displayUrl ex_job_two_urls))
                  then [(''display_url'', finalDisplayUrl (source ex_job_two_urls) th (displayUrl ex_job_two_urls))] else [])),
            Progress 100, Notification (userId ex_job_two_urls) (JStr ''Leg Day'') True],
           Inr (JobSuccess (workoutId ex_job_two_urls) (JNum 1)))" for th
    by (rule complete_job_ex) (simp add: ex_env_fields)
  show ?thesis
    by (simp add: processVideoJob_def pipeline_def acq process_frames_def
          extract_text_ex(2)[of ex_env] ex_env_fields blank_line_def
          parse_ex[of ex_env] cj bind_io_pair)
qed

lemma updateData_processing:
  "updateData (no_updates\<lparr> u_status := JStr ''processing'', u_notes := JStr rate_limit_notes \<rparr>)
     = [(''status'', JStr ''processing''), (''notes'', JStr rate_limit_notes)]"
  by (simp add: updateData_def no_updates_def rate_limit_notes_def)

lemma updateData_failed:
  "updateData (no_updates\<lparr> u_status := JStr ''failed'', u_processingError := JStr m \<rparr>)
     = (''status'', JStr ''failed'') # (if m = [] then [] else [(''processing_error'', JStr m)])"
  by (simp add: updateData_def no_updates_def)

lemma not_rate_limit_fixed_messages:
  "\<not> isRateLimitError (Error ''Failed to parse workout data from AI response'')"
  "\<not> isRateLimitError (Error ''Invalid workout structure from AI'')"
  "\<not> isRateLimitError (Error ''No text extracted from video frames'')"
  by (simp_all add: isRateLimitError_def js_includes_def sublist_code)


lemma process_frames_one_frame:
  assumes "\<forall>i. e_vision env i = ex_chat_ok ''Squat 3x10''"
  shows "process_frames env d ([f], th) =
     (case parseWorkoutWithAI env (caption d) ''Squat 3x10'' (openAIKey d) of
        (evsP, Inl e) \<Rightarrow>
          (VisionPost (vision_request ''low'' (openAIKey d) f) # Progress 75 # evsP, Inl e)
      | (evsP, Inr workoutData) \<Rightarrow>
          (VisionPost (vision_request ''low'' (openAIKey d) f) # Progress 75 # evsP
             @ Progress 90 # fst (complete_job env d th workoutData),
           snd (complete_job env d th workoutData)))"
  by (simp add: process_frames_def extract_text_ex(1)[OF assms] bind_io_pair
        split: prod.splits sum.splits)

lemma run_success_one_frame:
  assumes "acquire_frames env d = (evsA, Inr ([f], th))"
    and "\<forall>i. e_vision env i = ex_chat_ok ''Squat 3x10''"
    and "e_synth env = ex_chat_ok ex_synth_answer"
    and "e_json_parse env ex_workout_json = Inr ex_workout"
    and "\<forall>u. e_db env (workoutId d) u = None"
  shows "processVideoJob env d =
     (Progress 10 # evsA
        @ [VisionPost (vision_request ''low'' (openAIKey d) f), Progress 75,
           SynthPost (synth_request (openAIKey d) (synth_prompt (caption d) ''Squat 3x10'')),
           Progress 90,
           DbUpdate (workoutId d)
              ([(''status'', JStr ''completed''),
                (''exercises'', JArr [JObj [(''name'', JStr ''Squat''), (''reps'', JStr ''10''),
                                           (''sets'', JStr ''3''), (''notes'', JStr [])]]),
                (''name'', JStr ''Leg Day''), (''duration'', JStr ''30 min''),
                (''difficulty'', JStr ''Intermediate''),
                (''notes'', JStr (''great session'' @ enhanced_marker))]
               @ (if truthy (finalDisplayUrl (source d) th (displayUrl d))
                  then [(''display_url'', finalDisplayUrl (source d) th (displayUrl d))] else [])),
           Progress 100, Notification (userId d) (JStr ''Leg Day'') True],
      Inr (JobSuccess (workoutId d) (JNum 1)))"
  by (simp add: processVideoJob_def pipeline_def assms(1) process_frames_one_frame[OF assms(2)]
        parse_ex[OF assms(3,4)] complete_job_ex[OF assms(5)])

lemma synth_error_message_429:
  "synth_error_message
     \<lparr> resp_ok = False, resp_status = 429, resp_statusText = ''Too Many Requests'',
       resp_json = Inr (JObj [(''error'', JObj [(''message'', JStr ''Rate limit reached'')])]) \<rparr>
     = Inr (JStr ''Rate limit reached'')"
  by (simp add: synth_error_message_def js_or_def)

lemma parse_429:
  assumes "e_synth env = ex_chat_429"
  shows "parseWorkoutWithAI env c t k
           = ([SynthPost (synth_request k (synth_prompt c t))],
              Inl (Error ''OpenAI API error: 429 - Rate limit reached''))"
  using assms
  by (simp add: parseWorkoutWithAI_eq ex_chat_429_def synth_error_message_429 show_nat_429)

lemma run_429_pipeline:
  assumes "e_download env 0 = ex_download"
    and "e_frames env 0 = ex_frames_response ex_zip_one"
    and "e_unlink env 0 = None"
    and "\<forall>i. e_vision env i = ex_chat_ok ''Squat 3x10''"
    and "e_synth env = ex_chat_429"
  shows "pipeline env ex_job_url =
     ([HttpGet ''https://cdn.example/a.mp4'' (download_headers ''https://cdn.example/a.mp4'') 30000,
       Progress 25, FramesPost ''/tmp/video_1700000000000.mp4'', Progress 50,
       Unlink ''/tmp/video_1700000000000.mp4'',
       VisionPost (vision_request ''low'' (openAIKey ex_job_url) ''data:image/png;base64,AAAA''),
       Progress 75,
       SynthPost (synth_request (openAIKey ex_job_url) (synth_prompt (caption ex_job_url) ''Squat 3x10''))],
      Inl (Error ''OpenAI API error: 429 - Rate limit reached''))"
  by (simp add: pipeline_def acquire_frames_one_url[OF assms(1,2,3) ex_jobs(1,2)]
        process_frames_one_frame[OF assms(4)] parse_429[OF assms(5)])

lemma ex_env_429_fields:
  "e_download ex_env_429 i = ex_download"
  "e_frames ex_env_429 k = ex_frames_response ex_zip_one"
  "e_unlink ex_env_429 k = None"
  "e_vision ex_env_429 i = ex_chat_ok ''Squat 3x10''"
  "e_synth ex_env_429 = ex_chat_429"
  "e_db ex_env_429 w u = None"
  "e_download ex_env_429_db_down i = ex_download"
  "e_frames ex_env_429_db_down k = ex_frames_response ex_zip_one"
  "e_unlink ex_env_429_db_down k = None"
  "e_vision ex_env_429_db_down i = ex_chat_ok ''Squat 3x10''"
  "e_synth ex_env_429_db_down = ex_chat_429"
  "e_db ex_env_429_db_down w u = Some ''connection lost''"
  by (simp_all add: ex_env_429_def ex_env_429_db_down_def ex_env_def)

lemma includes_429_example: "js_includes ''OpenAI API error: 429 - Rate limit reached'' ''429''"
  by (simp add: js_includes_def sublist_code)

lemma ex_job_ids:
  "workoutId ex_job_url = ''w1''" "userId ex_job_url = ''u1''"
  "workoutId ex_job_two_urls = ''w1''" "userId ex_job_two_urls = ''u1''"
  "workoutId ex_job_no_display = ''w1''" "workoutId ex_job_tiktok = ''w1''"
  by (simp_all add: ex_job_url_def ex_job_two_urls_def ex_job_no_display_def ex_job_tiktok_def
        ex_job_def)

lemma run_429_db_down:
  "snd (processVideoJob ex_env_429_db_down ex_job_url) = Inl (Error ''Supabase error: connection lost'')"
proof -
  have p: "pipeline ex_env_429_db_down ex_job_url =
     ([HttpGet ''https://cdn.example/a.mp4'' (download_headers ''https://cdn.example/a.mp4'') 30000,
       Progress 25, FramesPost ''/tmp/video_1700000000000.mp4'', Progress 50,
       Unlink ''/tmp/video_1700000000000.mp4'',
       VisionPost (vision_request ''low'' (openAIKey ex_job_url) ''data:image/png;base64,AAAA''),
       Progress 75,
       SynthPost (synth_request (openAIKey ex_job_url) (synth_prompt (caption ex_job_url) ''Squat 3x10''))],
      Inl (Error ''OpenAI API error: 429 - Rate limit reached''))"
    by (rule run_429_pipeline) (simp_all add: ex_env_429_fields)
  have rl: "isRateLimitError (Error ''OpenAI API error: 429 - Rate limit reached'')"
    by (simp add: isRateLimitError_def includes_429_example)
  show ?thesis
    unfolding processVideoJob_pipeline_error[OF p] handle_error_rate_limit[OF rl]
    by (simp add: ex_env_429_fields)
qed


lemma ex_env_blank_fields:
  "e_download ex_env_blank i = ex_download"
  "e_frames ex_env_blank k = ex_frames_response ex_zip_one"
  "e_unlink ex_env_blank k = None"
  "e_vision ex_env_blank 0 = Inl (JsError ''FetchError'' ''request failed'')"
  "e_vision ex_env_blank (Suc j) = ex_chat_ok [CHR 0x20, CHR 0x20, CHR 0x0A]"
  "e_db ex_env_blank w u = None"
  by (simp_all add: ex_env_blank_def ex_env_def)

lemma ex_blank_frames_no_text:
  "\<forall>i<length [''data:image/png;base64,AAAA'', ''data:image/png;base64,AAAA''].
     vision_call_fails (e_vision ex_env_blank i) \<or> vision_only_whitespace (e_vision ex_env_blank i)"
proof (intro allI impI)
  fix i :: nat
  assume "i < length [''data:image/png;base64,AAAA'', ''data:image/png;base64,AAAA'']"
  then consider "i = 0" | "i = Suc 0"
    by (cases i) auto
  then show "vision_call_fails (e_vision ex_env_blank i) \<or> vision_only_whitespace (e_vision ex_env_blank i)"
  proof cases
    case 1
    then show ?thesis
      by (simp add: ex_env_blank_fields vision_call_fails_def)
  next
    case 2
    have "completion_content (JObj [(''choices'', JArr [JObj [(''message'', JObj [(''content'', JStr [CHR 0x20, CHR 0x20, CHR 0x0A])])]])])
            = Inr (JStr [CHR 0x20, CHR 0x20, CHR 0x0A])"
      by (simp add: completion_content_ex)
    then have "vision_only_whitespace (e_vision ex_env_blank (Suc 0))"
      by (simp add: ex_env_blank_fields vision_only_whitespace_def ex_chat_ok_def js_trim_blank)
    with 2 show ?thesis
      by simp
  qed
qed

lemma acquire_blank:
  "acquire_frames ex_env_blank ex_job_two_urls =
     ([HttpGet ''https://cdn.example/a.mp4'' (download_headers ''https://cdn.example/a.mp4'') 30000,
       Progress (35 / 2),
       FramesPost ''/tmp/video_1700000000000.mp4'', Progress (75 / 2),
       Unlink ''/tmp/video_1700000000000.mp4'',
       HttpGet ''https://cdn.example/b.mp4'' (download_headers ''https://cdn.example/b.mp4'') 30000,
       Progress 25,
       FramesPost ''/tmp/video_1700000000000.mp4'', Progress 50,
       Unlink ''/tmp/video_1700000000000.mp4''],
      Inr ([''data:image/png;base64,AAAA'', ''data:image/png;base64,AAAA''],
           Some ''data:image/png;base64,AAAA''))"
  by (rule acquire_frames_two_urls) (simp_all add: ex_env_blank_fields ex_jobs)

lemma pipeline_blank:
  "pipeline ex_env_blank ex_job_two_urls =
     ([HttpGet ''https://cdn.example/a.mp4'' (download_headers ''https://cdn.example/a.mp4'') 30000,
       Progress (35 / 2),
       FramesPost ''/tmp/video_1700000000000.mp4'', Progress (75 / 2),
       Unlink ''/tmp/video_1700000000000.mp4'',
       HttpGet ''https://cdn.example/b.mp4'' (download_headers ''https://cdn.example/b.mp4'') 30000,
       Progress 25,
       FramesPost ''/tmp/video_1700000000000.mp4'', Progress 50,
       Unlink ''/tmp/video_1700000000000.mp4'',
       VisionPost (vision_request ''low'' (openAIKey ex_job_two_urls) ''data:image/png;base64,AAAA''),
       VisionPost (vision_request ''low'' (openAIKey ex_job_two_urls) ''data:image/png;base64,AAAA''),
       Progress 75],
      Inl (Error ''No text extracted from video frames''))"
proof -
  have "snd (extractTextFromFrames (e_vision ex_env_blank)
          [''data:image/png;base64,AAAA'', ''data:image/png;base64,AAAA''] (openAIKey ex_job_two_urls)) = Inr []"
    by (rule extractTextFromFrames_no_text[OF ex_blank_frames_no_text])
  from process_frames_no_text[of "([''data:image/png;base64,AAAA'', ''data:image/png;base64,AAAA''],
           Some ''data:image/png;base64,AAAA'')" ex_env_blank ex_job_two_urls] this
  show ?thesis
    by (simp add: pipeline_def acquire_blank fst_extractTextFromFrames)
qed

section \<open>The outcomes of parseWorkoutWithAI\<close>









lemma not_rate_limit_null_body:
  "\<not> isRateLimitError (TypeError (''Cannot read properties of null (reading '' @ quoted ''error'' @ '')''))"
  by (simp add: isRateLimitError_def js_includes_def sublist_code TypeError_def quoted_def)

section \<open>Facts about the single-video processor of src/index.js\<close>

lemma extractTextFromFrames_index_eq:
  "extractTextFromFrames_index vision fs key =
     (map (\<lambda>f. VisionPost (vision_request ''high'' key f)) fs,
      Inr (js_join blank_line (snd (text_loop frame_try_index ''high'' vision key 0 fs []))))"
  using fst_text_loop[of frame_try_index "''high''" vision key 0 fs "[]"]
  by (simp add: extractTextFromFrames_index_def case_prod_beta)

lemma parseWorkoutWithAI_index_eq:
  "parseWorkoutWithAI_index env c t k =
     ([SynthPost (synth_request k (synth_prompt c t))],
      (case e_synth env of
         Inl e \<Rightarrow> Inl e
       | Inr response \<Rightarrow>
           if \<not> resp_ok response then
             Inl (Error (''OpenAI API error: '' @ show_nat (resp_status response)))
           else
             (case resp_json response of
                Inl e \<Rightarrow> Inl e
              | Inr data \<Rightarrow>
                  (case completion_content data of
                     Inl e \<Rightarrow> Inl e
                   | Inr content \<Rightarrow>
                       (case match_call content of
                          Inl e \<Rightarrow> Inl e
                        | Inr None \<Rightarrow> Inl (Error ''Failed to parse workout data from AI response'')
                        | Inr (Some matched) \<Rightarrow>
                            (case e_json_parse env matched of
                               Inl e \<Rightarrow> Inl e
                             | Inr workoutData \<Rightarrow>
                                 (case get_prop workoutData ''exercises'' of
                                    Inl e \<Rightarrow> Inl e
                                  | Inr exercises \<Rightarrow>
                                      if \<not> truthy exercises \<or> \<not> isArray exercises then
                                        Inl (Error ''Invalid workout structure from AI'')
                                      else Inr workoutData)))))))"
  by (auto simp: parseWorkoutWithAI_index_def Let_def io_throw_def io_return_def
           split: sum.splits option.splits)

lemma parseWorkoutWithAI_index_success:
  assumes "parseWorkoutWithAI_index env c t k = (evs, Inr workoutData)"
  shows "\<exists>props xs. workoutData = JObj props \<and> map_of props ''exercises'' = Some (JArr xs)
           \<and> progress_values evs = [] \<and> db_updates evs = []"
proof -
  from assms obtain exercises where
    ex: "get_prop workoutData ''exercises'' = Inr exercises" "truthy exercises" "isArray exercises"
    and evs: "evs = [SynthPost (synth_request k (synth_prompt c t))]"
    by (auto simp: parseWorkoutWithAI_index_eq split: sum.splits if_splits option.splits)
  from ex(3) obtain xs where xs: "exercises = JArr xs"
    by (cases exercises) simp_all
  with ex(1) evs show ?thesis
    by (cases workoutData) (auto split: option.splits)
qed

lemma complete_job_index_success:
  assumes "complete_job_index env d th (JObj props) = (evs, Inr res)"
    and "map_of props ''exercises'' = Some (JArr xs)"
  shows "\<exists>upd. db_updates evs = [(workoutId d, upd)]
           \<and> map_of upd ''status'' = Some (JStr ''completed'')
           \<and> map_of upd ''display_url''
               = (if truthy (finalDisplayUrl (source d) th (displayUrl d))
                  then Some (finalDisplayUrl (source d) th (displayUrl d)) else None)
           \<and> progress_values evs = [100]
           \<and> res = JobSuccess (workoutId d) (JNum (of_nat (length xs)))"
proof -
  have gp: "get_prop (JObj props) k = Inr (get_prop_opt (JObj props) k)" for k
    by simp
  have ex: "get_prop_opt (JObj props) ''exercises'' = JArr xs"
    using assms(2) by simp
  from assms(1) show ?thesis
    unfolding complete_job_index_def gp bind_io_await_Inr ex updateWorkout_eq
    by (cases "e_db env (workoutId d)
             (updateData
                \<lparr> u_status = JStr ''completed'', u_exercises = JArr xs,
                  u_name = get_prop_opt (JObj props) ''name'',
                  u_duration = get_prop_opt (JObj props) ''duration'',
                  u_difficulty = get_prop_opt (JObj props) ''difficulty'',
                  u_notes = JStr (js_toString (e_number_toString env)
                                    (get_prop_opt (JObj props) ''notes'') @ enhanced_marker),
                  u_displayUrl = finalDisplayUrl (source d) th (displayUrl d),
                  u_processingError = JUndefined \<rparr>)")
       (auto simp: io_return_def updateData_keys simp del: get_prop_opt.simps)
qed

lemma handle_error_index_fails: "\<exists>e'. snd (handle_error_index env d e) = Inl e'"
  by (simp add: handle_error_index_def updateWorkout_eq io_throw_def split: option.splits)

lemma pipeline_index_success:
  assumes "pipeline_index env d = (evs, Inr res)"
  shows "\<exists>r thumb upd n.
           extractFrames_result (e_frames env 0) = Inr r \<and> r_firstFrame r = Some thumb
         \<and> db_updates evs = [(workoutId d, upd)]
         \<and> map_of upd ''status'' = Some (JStr ''completed'')
         \<and> map_of upd ''display_url''
             = (if source d = JStr ''TikTok'' then Some (JStr thumb)
                else if truthy (displayUrl d) then Some (displayUrl d) else None)
         \<and> progress_values evs = [25, 50, 75, 90, 100]
         \<and> res = JobSuccess (workoutId d) n"
proof -
  from assms obtain evs0 videoPath evs1 where
    dl: "(case videoUrl d of
            None \<Rightarrow> io_throw (TypeError (''Cannot read properties of undefined (reading '' @ quoted ''includes'' @ '')''))
          | Some url \<Rightarrow> downloadVideo_index (e_download env 0) url (source d)) = (evs0, Inr videoPath)"
    and rest1: "bind_io (io_emit (Progress 25)) (\<lambda>_.
       bind_io (extractFrames (e_frames env 0) videoPath) (\<lambda>r.
       bind_io (io_emit (Progress 50)) (\<lambda>_.
       bind_io (unlink env 0 videoPath) (\<lambda>_.
       if length (r_frames r) = 0 then io_throw (Error ''No frames extracted from video'')
       else
         bind_io (extractTextFromFrames_index (e_vision env) (r_frames r) (openAIKey d)) (\<lambda>extractedText.
         bind_io (io_emit (Progress 75)) (\<lambda>_.
         if length extractedText = 0 then io_throw (Error ''No text extracted from video frames'')
         else
           bind_io (parseWorkoutWithAI_index env (caption d) extractedText (openAIKey d)) (\<lambda>workoutData.
           bind_io (io_emit (Progress 90)) (\<lambda>_.
           complete_job_index env d (r_firstFrame r) workoutData)))))))) = (evs1, Inr res)"
    and evs: "evs = evs0 @ evs1"
    unfolding pipeline_index_def by (rule bind_io_InrE)
  from dl obtain url where url: "videoUrl d = Some url"
    and evs0: "evs0 = [HttpGet url (download_headers_index url) 30000]"
    by (cases "videoUrl d") (auto simp: io_throw_def downloadVideo_index_eq)
  from rest1 obtain r where r: "extractFrames_result (e_frames env 0) = Inr r"
    by (cases "extractFrames_result (e_frames env 0)") (simp_all add: extractFrames_eq)
  from extractFrames_result_first[OF r] obtain thumb rest where
    first: "r_firstFrame r = Some thumb" "thumb \<noteq> []" "r_frames r = thumb # rest"
    by blast
  from rest1 r have ul: "e_unlink env 0 = None"
    by (cases "e_unlink env 0") (simp_all add: extractFrames_eq unlink_eq)
  define etext where "etext = js_join blank_line
     (snd (text_loop frame_try_index ''high'' (e_vision env) (openAIKey d) 0 (r_frames r) []))"
  have T: "extractTextFromFrames_index (e_vision env) (r_frames r) (openAIKey d)
             = (map (\<lambda>f. VisionPost (vision_request ''high'' (openAIKey d) f)) (r_frames r), Inr etext)"
    by (simp add: extractTextFromFrames_index_eq etext_def)
  from rest1 r ul first(3) T have ne: "etext \<noteq> []"
    by (auto simp: extractFrames_eq unlink_eq io_throw_def)
  obtain evsP rP where P: "parseWorkoutWithAI_index env (caption d) etext (openAIKey d) = (evsP, rP)"
    by (cases "parseWorkoutWithAI_index env (caption d) etext (openAIKey d)")
  from rest1 r ul first(3) T ne P obtain wd where wd: "rP = Inr wd"
    by (cases rP) (simp_all add: extractFrames_eq unlink_eq)
  from parseWorkoutWithAI_index_success[OF P[unfolded wd]] obtain props xs where
    obj: "wd = JObj props" "map_of props ''exercises'' = Some (JArr xs)"
    and quietP: "progress_values evsP = []" "db_updates evsP = []"
    by blast
  obtain evsC rC where C: "complete_job_index env d (r_firstFrame r) (JObj props) = (evsC, rC)"
    by (cases "complete_job_index env d (r_firstFrame r) (JObj props)")
  from rest1 r ul first(3) T ne P wd obj C have
    evs1: "evs1 = Progress 25 # FramesPost videoPath # Progress 50 # Unlink videoPath
                  # map (\<lambda>f. VisionPost (vision_request ''high'' (openAIKey d) f)) (r_frames r)
                  @ Progress 75 # evsP @ Progress 90 # evsC"
    and rC: "rC = Inr res"
    by (simp_all add: extractFrames_eq unlink_eq)
  from complete_job_index_success[OF C[unfolded rC] obj(2)] obtain upd where
    upd: "db_updates evsC = [(workoutId d, upd)]"
    "map_of upd ''status'' = Some (JStr ''completed'')"
    "map_of upd ''display_url''
       = (if truthy (finalDisplayUrl (source d) (r_firstFrame r) (displayUrl d))
          then Some (finalDisplayUrl (source d) (r_firstFrame r) (displayUrl d)) else None)"
    "progress_values evsC = [100]"
    "res = JobSuccess (workoutId d) (JNum (of_nat (length xs)))"
    by blast
  have final: "finalDisplayUrl (source d) (r_firstFrame r) (displayUrl d)
                 = (if source d = JStr ''TikTok'' then JStr thumb else displayUrl d)"
    using first by (simp add: finalDisplayUrl_def truthy_str_def)
  have disp: "map_of upd ''display_url''
             = (if source d = JStr ''TikTok'' then Some (JStr thumb)
                else if truthy (displayUrl d) then Some (displayUrl d) else None)"
    using upd(3) first(2) unfolding final by simp
  have "db_updates evs = [(workoutId d, upd)]"
    using evs evs0 evs1 upd(1) quietP by (simp add: quiet_vision_posts)
  moreover have "progress_values evs = [25, 50, 75, 90, 100]"
    using evs evs0 evs1 upd(4) quietP by (simp add: quiet_vision_posts)
  ultimately show ?thesis
    using r first(1) upd(2,5) disp by blast
qed


lemma processVideoJob_index_pipeline_error:
  assumes "pipeline_index env d = (evs, Inl e)"
  shows "processVideoJob_index env d
           = (Progress 10 # evs @ fst (handle_error_index env d e), snd (handle_error_index env d e))"
  using assms by (simp add: processVideoJob_index_def)

lemma processVideoJob_index_pipeline_ok:
  assumes "pipeline_index env d = (evs, Inr r)"
  shows "processVideoJob_index env d = (Progress 10 # evs, Inr r)"
  using assms by (simp add: processVideoJob_index_def)

lemma frame_try_index_text: "frame_try_index (ex_chat_ok ''Squat 3x10'') = Inr (Some ''Squat 3x10'')"
  by (simp add: frame_try_index_def ex_chat_ok_def completion_content_ex js_trim_text)

lemma ex_job_url_fields:
  "videoUrl ex_job_url = Some ''https://cdn.example/a.mp4''"
  "source ex_job_url = JStr ''Instagram''"
  "displayUrl ex_job_url = JStr ''https://cdn.example/preview.jpg''"
  "caption ex_job_url = ''Leg day!''" "openAIKey ex_job_url = ''sk-test''"
  by (simp_all add: ex_job_url_def ex_job_def)

lemma pipeline_index_to_synthesis:
  assumes "e_download env 0 = ex_download"
    and "e_frames env 0 = ex_frames_response ex_zip_one"
    and "e_unlink env 0 = None"
    and "e_vision env 0 = ex_chat_ok ''Squat 3x10''"
  shows "pipeline_index env ex_job_url =
     (case parseWorkoutWithAI_index env ''Leg day!'' ''Squat 3x10'' ''sk-test'' of
        (evsP, Inl e) \<Rightarrow>
          (HttpGet ''https://cdn.example/a.mp4'' (download_headers_index ''https://cdn.example/a.mp4'') 30000
             # Progress 25 # FramesPost ''/tmp/video_1700000000000.mp4'' # Progress 50
             # Unlink ''/tmp/video_1700000000000.mp4''
             # VisionPost (vision_request ''high'' ''sk-test'' ''data:image/png;base64,AAAA'')
             # Progress 75 # evsP,
           Inl e)
      | (evsP, Inr workoutData) \<Rightarrow>
          (HttpGet ''https://cdn.example/a.mp4'' (download_headers_index ''https://cdn.example/a.mp4'') 30000
             # Progress 25 # FramesPost ''/tmp/video_1700000000000.mp4'' # Progress 50
             # Unlink ''/tmp/video_1700000000000.mp4''
             # VisionPost (vision_request ''high'' ''sk-test'' ''data:image/png;base64,AAAA'')
             # Progress 75 # evsP
             @ Progress 90
             # fst (complete_job_index env ex_job_url (Some ''data:image/png;base64,AAAA'') workoutData),
           snd (complete_job_index env ex_job_url (Some ''data:image/png;base64,AAAA'') workoutData)))"
  using assms
  by (simp add: pipeline_index_def ex_job_url_fields downloadVideo_index_eq downloadVideo_ex
        extractFrames_eq extractFrames_one_image unlink_eq extractTextFromFrames_index_def
        frame_try_index_text frame_catch_def bind_io_pair
        split: prod.splits sum.splits)


section \<open>Progress reported by the loop over uploaded files\<close>

lemma files_loop_progress:
  assumes "files_loop env tv i fs acc = (evs, Inr acc')"
  shows "progress_values evs = map (\<lambda>j. 25 + of_nat (i + j + 1) * 25 / of_nat tv) [0..<length fs]"
  using assms
proof (induction fs arbitrary: i acc evs)
  case Nil
  then show ?case by (simp add: io_return_def)
next
  case (Cons p rest)
  from Cons.prems obtain evs0 r evsA where
    a: "extractFrames (e_frames env i) p = (evs0, Inr r)"
    and b: "bind_io (io_emit (Progress (25 + of_nat (i + 1) * 25 / of_nat tv))) (\<lambda>_.
            bind_io (unlink env i p) (\<lambda>_.
            files_loop env tv (Suc i) rest
              (fst acc @ r_frames r,
               if i = 0 \<and> truthy_str (r_firstFrame r) then r_firstFrame r else snd acc)))
          = (evsA, Inr acc')"
    and e1: "evs = evs0 @ evsA"
    unfolding files_loop.simps by (erule bind_io_InrE)
  obtain evsB where
    c: "bind_io (unlink env i p) (\<lambda>_.
            files_loop env tv (Suc i) rest
              (fst acc @ r_frames r,
               if i = 0 \<and> truthy_str (r_firstFrame r) then r_firstFrame r else snd acc))
          = (evsB, Inr acc')"
    and e2: "evsA = Progress (25 + of_nat (i + 1) * 25 / of_nat tv) # evsB"
    by (rule bind_io_InrE[OF b]) (auto simp: io_emit_def simp del: of_nat_add of_nat_Suc)
  from c obtain evsC evs3 u where
    d: "unlink env i p = (evsC, Inr u)"
    and rec: "files_loop env tv (Suc i) rest
                (fst acc @ r_frames r,
                 if i = 0 \<and> truthy_str (r_firstFrame r) then r_firstFrame r else snd acc)
              = (evs3, Inr acc')"
    and e3: "evsB = evsC @ evs3"
    by (erule bind_io_InrE)
  from a have e0: "evs0 = [FramesPost p]"
    by (simp add: extractFrames_eq)
  from d have eC: "evsC = [Unlink p]"
    by (simp add: unlink_eq)
  from e0 e1 e2 e3 eC have evs:
    "evs = FramesPost p # Progress (25 + of_nat (i + 1) * 25 / of_nat tv) # Unlink p # evs3"
    by simp
  have "map (\<lambda>j. 25 + rat_of_nat (i + j + 1) * 25 / rat_of_nat tv) [0..<length (p # rest)]
          = (25 + rat_of_nat (i + 1) * 25 / rat_of_nat tv)
            # map (\<lambda>j. 25 + rat_of_nat (Suc i + j + 1) * 25 / rat_of_nat tv) [0..<length rest]"
    by (simp add: upt_conv_Cons map_Suc_upt[symmetric] del: upt_Suc)
  with Cons.IH[OF rec] evs show ?case
    by simp
qed

lemma sorted_progress_steps:
  assumes "0 < n"
  shows "sorted (10 # map (\<lambda>j. 25 + rat_of_nat (j + 1) * 25 / rat_of_nat n) [0..<n] @ [75, 90, 100])"
proof -
  let ?f = "\<lambda>j. 25 + rat_of_nat (j + 1) * 25 / rat_of_nat n"
  have pos: "(0::rat) < rat_of_nat n"
    using assms by simp
  have mono: "rat_of_nat (Suc j) * 25 / rat_of_nat n \<le> rat_of_nat (Suc k) * 25 / rat_of_nat n"
    if "j \<le> k" for j k
    using that pos by (intro divide_right_mono mult_right_mono) simp_all
  have hi: "rat_of_nat (Suc j) * 25 / rat_of_nat n \<le> 25" if "j < n" for j
  proof -
    from that have "Suc j \<le> n"
      by simp
    then have "rat_of_nat (Suc j) \<le> rat_of_nat n"
      by (simp only: of_nat_le_iff)
    then show ?thesis
      using pos by (simp add: pos_divide_le_eq del: of_nat_Suc)
  qed
  have lo: "0 \<le> rat_of_nat (Suc j) * 25 / rat_of_nat n" for j
    by simp
  have bounds: "10 \<le> 25 + rat_of_nat (Suc j) * 25 / rat_of_nat n"
    "25 + rat_of_nat (Suc j) * 25 / rat_of_nat n \<le> 75"
    "25 + rat_of_nat (Suc j) * 25 / rat_of_nat n \<le> 90"
    "25 + rat_of_nat (Suc j) * 25 / rat_of_nat n \<le> 100" if "j < n" for j
    using hi[OF that] lo[of j] by linarith+
  have srt: "sorted (map (\<lambda>j. 25 + rat_of_nat (Suc j) * 25 / rat_of_nat n) [0..<n])"
    unfolding sorted_iff_nth_mono using mono by (simp del: of_nat_Suc)
  have eq: "(\<lambda>j. 25 + rat_of_nat (j + 1) * 25 / rat_of_nat n)
          = (\<lambda>j. 25 + rat_of_nat (Suc j) * 25 / rat_of_nat n)"
    by (simp del: of_nat_Suc)
  have "\<forall>x \<in> set (map (\<lambda>j. 25 + rat_of_nat (Suc j) * 25 / rat_of_nat n) [0..<n]).
          10 \<le> x \<and> x \<le> 75 \<and> x \<le> 90 \<and> x \<le> 100"
    unfolding set_map using bounds by (intro ballI) (elim imageE, simp only: atLeastLessThan_iff set_upt)
  with srt show ?thesis
    unfolding eq by (simp only: sorted_append sorted_simps list.set append_Cons append_Nil) auto
qed

section \<open>Claims about the stage functions\<close>



text \<open>
  C9. Whenever \<open>extractFrames\<close> succeeds, the service answered with an archive, and among
  the names of its entries that end in \<open>.png\<close> there is a least one in the order of
  UTF-16 code units (\<open>name \<le> n\<close> for every such name \<open>n\<close>). \<open>firstFrame\<close> is the data URI
  of the entry with that name, and it is the first element of the list of sampled
  frames, which therefore is not empty.
\<close>

theorem extractFrames_firstFrame_heads_frames:
  assumes "snd (extractFrames w videoPath) = Inr r"
  shows "\<exists>response z name d fs.
           w = Inr response \<and> fr_ok response \<and> fr_zip response = Inr z
         \<and> name \<in> fst ` set z \<and> endsWith name (utf16_of_ascii ''.png'')
         \<and> (\<forall>n \<in> fst ` set z. endsWith n (utf16_of_ascii ''.png'') \<longrightarrow> name \<le> n)
         \<and> zip_file z name = Some (Inr d)
         \<and> r_firstFrame r = Some (''data:image/png;base64,'' @ d)
         \<and> r_frames r = (''data:image/png;base64,'' @ d) # fs"
proof -
  from assms have res: "extractFrames_result w = Inr r"
    by (simp add: snd_extractFrames)
  from extractFrames_result_first[OF res] obtain f fs response z d0 where
    r: "r_frames r = f # fs" "r_firstFrame r = Some f"
      "w = Inr response" "fr_ok response" "fr_zip response = Inr z" "png_files z \<noteq> []"
      "zip_file z (png_files z ! 0) = Some (Inr d0)" "f = data_uri d0"
    by blast
  from png_files_first[OF r(6)] r show ?thesis
    unfolding data_uri_def by blast
qed

theorem extractFrames_firstFrame_heads_frames_witness:
  "snd (extractFrames (ex_frames_response ex_zip_astral) ''/tmp/uploads/v1'')
     = Inr \<lparr> r_frames = [''data:image/png;base64,BBBB''],
             r_firstFrame = Some ''data:image/png;base64,BBBB'' \<rparr>
   \<and> (\<exists>name. name \<in> fst ` set ex_zip_astral
         \<and> name \<le> [0xD83D, 0xDE00, 0x2E, 0x70, 0x6E, 0x67]
         \<and> name \<le> [0xFF5E, 0x2E, 0x70, 0x6E, 0x67]
         \<and> zip_file ex_zip_astral name = Some (Inr ''BBBB''))"
proof -
  have h: "snd (extractFrames (ex_frames_response ex_zip_astral) ''/tmp/uploads/v1'')
     = Inr \<lparr> r_frames = [''data:image/png;base64,BBBB''],
             r_firstFrame = Some ''data:image/png;base64,BBBB'' \<rparr>"
    by (simp add: snd_extractFrames extractFrames_ex_zip_astral)
  have z: "ex_frames_response ex_zip_astral = Inr response \<Longrightarrow> fr_zip response = Inr ex_zip_astral"
    for response
    by (auto simp: ex_frames_response_def)
  have names: "fst ` set ex_zip_astral
                 = {[0xFF5E, 0x2E, 0x70, 0x6E, 0x67], [0xD83D, 0xDE00, 0x2E, 0x70, 0x6E, 0x67]}"
    by (simp add: ex_zip_astral_def utf16_of_ascii_def)
  have png: "endsWith n (utf16_of_ascii ''.png'')" if "n \<in> fst ` set ex_zip_astral" for n
    using that unfolding names by (auto simp: endsWith_def utf16_of_ascii_def suffix_to_prefix)
  from extractFrames_firstFrame_heads_frames[OF h] obtain response z name d fs where
    r: "ex_frames_response ex_zip_astral = Inr response" "fr_zip response = Inr z"
      "name \<in> fst ` set z"
      "\<forall>n \<in> fst ` set z. endsWith n (utf16_of_ascii ''.png'') \<longrightarrow> name \<le> n"
      "zip_file z name = Some (Inr d)"
      "r_firstFrame \<lparr> r_frames = [''data:image/png;base64,BBBB''],
                      r_firstFrame = Some ''data:image/png;base64,BBBB'' \<rparr>
         = Some (''data:image/png;base64,'' @ d)"
    by blast
  from z[OF r(1)] r(2) have zz: "z = ex_zip_astral"
    by simp
  from r(6) have d: "d = ''BBBB''"
    by simp
  from r(4) png have least: "\<forall>n \<in> fst ` set ex_zip_astral. name \<le> n"
    unfolding zz by blast
  then have "name \<le> [0xD83D, 0xDE00, 0x2E, 0x70, 0x6E, 0x67]"
    and "name \<le> [0xFF5E, 0x2E, 0x70, 0x6E, 0x67]"
    unfolding names by simp_all
  with r(3,5) zz d h show ?thesis
    by blast
qed




text \<open>
  C8. In \<open>src/unnamed/part_001\<close> every per-frame request asks for \<open>detail: 'low'\<close>; the
  copy of \<open>extractTextFromFrames\<close> in \<open>src/index.js\<close> asks for \<open>detail: 'high'\<close> in every
  request it issues, one per frame.
\<close>

theorem extractTextFromFrames_index_requests_high_detail:
  "map vr_detail (vision_calls (fst (extractTextFromFrames_index vision fs key)))
     = replicate (length fs) ''high''
   \<and> map vr_detail (vision_calls (fst (extractTextFromFrames vision fs key)))
     = replicate (length fs) ''low''"
proof -
  have calls: "vision_calls (map (\<lambda>f. VisionPost (vision_request detail key f)) fs)
                 = map (vision_request detail key) fs" for detail
    by (induction fs) simp_all
  have "map vr_detail (map (vision_request detail key) fs) = replicate (length fs) detail" for detail
    by (induction fs) (simp_all add: vision_request_def)
  then show ?thesis
    by (simp add: fst_extractTextFromFrames_index fst_extractTextFromFrames calls)
qed

theorem extractTextFromFrames_index_requests_high_detail_witness:
  "map vr_detail (vision_calls (fst (extractTextFromFrames_index (\<lambda>i. ex_chat_ok ''Squat 3x10'')
      [''data:image/png;base64,AAAA''] ''sk-test''))) = [''high'']
   \<and> ''high'' \<noteq> ''low''"
  using extractTextFromFrames_index_requests_high_detail
          [of "\<lambda>i. ex_chat_ok ''Squat 3x10''" "[''data:image/png;base64,AAAA'']" "''sk-test''"]
  by simp

text \<open>
  C10. \<open>updateWorkout\<close> sends one update. It always holds \<open>status\<close>, with whatever value
  was supplied (\<open>undefined\<close> included). Each of \<open>exercises\<close>, \<open>name\<close>, \<open>duration\<close>,
  \<open>difficulty\<close>, \<open>notes\<close>, \<open>display_url\<close> and \<open>processing_error\<close> is in it exactly when the
  supplied value is truthy, and a column that is not in it keeps its stored value. An
  empty string is not truthy; an empty array is.
\<close>

theorem updateWorkout_status_always_other_fields_when_truthy:
  "fst (updateWorkout env wid u) = [DbUpdate wid (updateData u)]
   \<and> map_of (updateData u) ''status'' = Some (u_status u)
   \<and> map_of (updateData u) ''exercises'' = (if truthy (u_exercises u) then Some (u_exercises u) else None)
   \<and> map_of (updateData u) ''name'' = (if truthy (u_name u) then Some (u_name u) else None)
   \<and> map_of (updateData u) ''duration'' = (if truthy (u_duration u) then Some (u_duration u) else None)
   \<and> map_of (updateData u) ''difficulty'' = (if truthy (u_difficulty u) then Some (u_difficulty u) else None)
   \<and> map_of (updateData u) ''notes'' = (if truthy (u_notes u) then Some (u_notes u) else None)
   \<and> map_of (updateData u) ''display_url'' = (if truthy (u_displayUrl u) then Some (u_displayUrl u) else None)
   \<and> map_of (updateData u) ''processing_error''
       = (if truthy (u_processingError u) then Some (u_processingError u) else None)
   \<and> store_update r (updateData u) k = (case map_of (updateData u) k of None \<Rightarrow> r k | Some v \<Rightarrow> Some v)
   \<and> \<not> truthy (JStr []) \<and> truthy (JArr [])"
  by (simp add: updateData_keys fst_updateWorkout store_update_def)

theorem updateWorkout_status_always_other_fields_when_truthy_witness:
  "updateData (no_updates \<lparr> u_exercises := JArr [], u_name := JStr [], u_duration := JStr [],
                            u_difficulty := JStr [], u_notes := JStr [] \<rparr>)
     = [(''status'', JUndefined), (''exercises'', JArr [])]
   \<and> store_update [''name'' \<mapsto> JStr ''Leg Day'', ''status'' \<mapsto> JStr ''processing'']
        (updateData (no_updates \<lparr> u_exercises := JArr [], u_name := JStr [], u_duration := JStr [],
                            u_difficulty := JStr [], u_notes := JStr [] \<rparr>)) ''name''
     = Some (JStr ''Leg Day'')
   \<and> store_update [''name'' \<mapsto> JStr ''Leg Day'', ''status'' \<mapsto> JStr ''processing'']
        (updateData (no_updates \<lparr> u_exercises := JArr [], u_name := JStr [], u_duration := JStr [],
                            u_difficulty := JStr [], u_notes := JStr [] \<rparr>)) ''exercises''
     = Some (JArr [])"
  using updateWorkout_status_always_other_fields_when_truthy
          [of ex_env "''w1''"
              "no_updates \<lparr> u_exercises := JArr [], u_name := JStr [], u_duration := JStr [],
                            u_difficulty := JStr [], u_notes := JStr [] \<rparr>"
              "[''name'' \<mapsto> JStr ''Leg Day'', ''status'' \<mapsto> JStr ''processing'']" "''name''"]
  by (simp add: updateData_def no_updates_def store_update_def)

section \<open>Claims about the orchestrator\<close>

text \<open>
  C1, as amended. When the \<open>try\<close> block throws an error whose message contains \<open>429\<close>,
  \<open>processVideoJob\<close> sends one update, with status \<open>processing\<close> and the rate limit
  note, sends no notification, and, if the store accepts the update, returns the soft
  outcome \<open>{ success: false, error: 'Rate limit - no auto retry' }\<close>. When the message
  does not contain \<open>429\<close>, it sends one update with status \<open>failed\<close> and the message as
  \<open>processing_error\<close> (left out when the message is empty), and, if the store accepts it,
  sends the failure notification and throws the error again. In both cases an update
  that the store refuses makes the function throw \<open>Supabase error: ...\<close> instead.
\<close>

theorem processVideoJob_failure_classification:
  assumes "pipeline env d = (evs, Inl e)"
  shows "(js_includes (err_message e) ''429'' \<longrightarrow>
           (case e_db env (workoutId d)
                   [(''status'', JStr ''processing''), (''notes'', JStr rate_limit_notes)] of
              None \<Rightarrow>
                processVideoJob env d =
                  (Progress 10 # evs
                     @ [DbUpdate (workoutId d)
                          [(''status'', JStr ''processing''), (''notes'', JStr rate_limit_notes)]],
                   Inr (JobSoftFailure ''Rate limit - no auto retry''))
            | Some m \<Rightarrow>
                processVideoJob env d =
                  (Progress 10 # evs
                     @ [DbUpdate (workoutId d)
                          [(''status'', JStr ''processing''), (''notes'', JStr rate_limit_notes)]],
                   Inl (Error (''Supabase error: '' @ m)))))
       \<and> (\<not> js_includes (err_message e) ''429'' \<longrightarrow>
           (case e_db env (workoutId d)
                   ((''status'', JStr ''failed'')
                    # (if err_message e = [] then []
                       else [(''processing_error'', JStr (err_message e))])) of
              None \<Rightarrow>
                processVideoJob env d =
                  (Progress 10 # evs
                     @ [DbUpdate (workoutId d)
                          ((''status'', JStr ''failed'')
                           # (if err_message e = [] then []
                              else [(''processing_error'', JStr (err_message e))])),
                        Notification (userId d) (JStr ''Workout'') False],
                   Inl e)
            | Some m \<Rightarrow>
                processVideoJob env d =
                  (Progress 10 # evs
                     @ [DbUpdate (workoutId d)
                          ((''status'', JStr ''failed'')
                           # (if err_message e = [] then []
                              else [(''processing_error'', JStr (err_message e))]))],
                   Inl (Error (''Supabase error: '' @ m)))))"
proof (cases "isRateLimitError e")
  case True
  then have "js_includes (err_message e) ''429''"
    by (simp add: isRateLimitError_def)
  then show ?thesis
    unfolding processVideoJob_pipeline_error[OF assms] handle_error_rate_limit[OF True]
      updateData_processing
    by (simp split: option.splits)
next
  case False
  then have "\<not> js_includes (err_message e) ''429''"
    by (simp add: isRateLimitError_def)
  then show ?thesis
    unfolding processVideoJob_pipeline_error[OF assms] handle_error_permanent[OF False]
      updateData_failed
    by (simp split: option.splits)
qed

theorem processVideoJob_failure_classification_witness:
  "snd (processVideoJob ex_env_429 ex_job_url) = Inr (JobSoftFailure ''Rate limit - no auto retry'')
   \<and> db_updates (fst (processVideoJob ex_env_429 ex_job_url))
       = [(''w1'', [(''status'', JStr ''processing''), (''notes'', JStr rate_limit_notes)])]
   \<and> notifications (fst (processVideoJob ex_env_429 ex_job_url)) = []
   \<and> snd (processVideoJob ex_env_blank ex_job_two_urls)
       = Inl (Error ''No text extracted from video frames'')
   \<and> db_updates (fst (processVideoJob ex_env_blank ex_job_two_urls))
       = [(''w1'', [(''status'', JStr ''failed''),
                   (''processing_error'', JStr ''No text extracted from video frames'')])]
   \<and> notifications (fst (processVideoJob ex_env_blank ex_job_two_urls))
       = [(''u1'', JStr ''Workout'', False)]"
proof -
  have p: "pipeline ex_env_429 ex_job_url =
     ([HttpGet ''https://cdn.example/a.mp4'' (download_headers ''https://cdn.example/a.mp4'') 30000,
       Progress 25, FramesPost ''/tmp/video_1700000000000.mp4'', Progress 50,
       Unlink ''/tmp/video_1700000000000.mp4'',
       VisionPost (vision_request ''low'' (openAIKey ex_job_url) ''data:image/png;base64,AAAA''),
       Progress 75,
       SynthPost (synth_request (openAIKey ex_job_url) (synth_prompt (caption ex_job_url) ''Squat 3x10''))],
      Inl (Error ''OpenAI API error: 429 - Rate limit reached''))"
    by (rule run_429_pipeline) (simp_all add: ex_env_429_fields)
  have no: "\<not> js_includes ''No text extracted from video frames'' ''429''"
    by (simp add: js_includes_def sublist_code)
  from processVideoJob_failure_classification[OF p]
  have soft: "processVideoJob ex_env_429 ex_job_url =
     (Progress 10 #
      [HttpGet ''https://cdn.example/a.mp4'' (download_headers ''https://cdn.example/a.mp4'') 30000,
       Progress 25, FramesPost ''/tmp/video_1700000000000.mp4'', Progress 50,
       Unlink ''/tmp/video_1700000000000.mp4'',
       VisionPost (vision_request ''low'' (openAIKey ex_job_url) ''data:image/png;base64,AAAA''),
       Progress 75,
       SynthPost (synth_request (openAIKey ex_job_url) (synth_prompt (caption ex_job_url) ''Squat 3x10''))]
      @ [DbUpdate (workoutId ex_job_url)
           [(''status'', JStr ''processing''), (''notes'', JStr rate_limit_notes)]],
      Inr (JobSoftFailure ''Rate limit - no auto retry''))"
    by (simp add: includes_429_example ex_env_429_fields)
  from processVideoJob_failure_classification[OF pipeline_blank]
  have failed: "processVideoJob ex_env_blank ex_job_two_urls =
     (Progress 10 #
      [HttpGet ''https://cdn.example/a.mp4'' (download_headers ''https://cdn.example/a.mp4'') 30000,
       Progress (35 / 2),
       FramesPost ''/tmp/video_1700000000000.mp4'', Progress (75 / 2),
       Unlink ''/tmp/video_1700000000000.mp4'',
       HttpGet ''https://cdn.example/b.mp4'' (download_headers ''https://cdn.example/b.mp4'') 30000,
       Progress 25,
       FramesPost ''/tmp/video_1700000000000.mp4'', Progress 50,
       Unlink ''/tmp/video_1700000000000.mp4'',
       VisionPost (vision_request ''low'' (openAIKey ex_job_two_urls) ''data:image/png;base64,AAAA''),
       VisionPost (vision_request ''low'' (openAIKey ex_job_two_urls) ''data:image/png;base64,AAAA''),
       Progress 75]
      @ [DbUpdate (workoutId ex_job_two_urls)
           [(''status'', JStr ''failed''),
            (''processing_error'', JStr ''No text extracted from video frames'')],
         Notification (userId ex_job_two_urls) (JStr ''Workout'') False],
      Inl (Error ''No text extracted from video frames''))"
    using no by (simp add: ex_env_blank_fields)
  show ?thesis
    unfolding soft failed by (simp add: ex_job_ids)
qed

theorem rate_limit_with_failing_store_counterexample:
  "snd (pipeline ex_env_429_db_down ex_job_url)
     = Inl (Error ''OpenAI API error: 429 - Rate limit reached'')
   \<and> js_includes ''OpenAI API error: 429 - Rate limit reached'' ''429''
   \<and> snd (processVideoJob ex_env_429_db_down ex_job_url)
     = Inl (Error ''Supabase error: connection lost'')"
proof -
  have "pipeline ex_env_429_db_down ex_job_url =
     ([HttpGet ''https://cdn.example/a.mp4'' (download_headers ''https://cdn.example/a.mp4'') 30000,
       Progress 25, FramesPost ''/tmp/video_1700000000000.mp4'', Progress 50,
       Unlink ''/tmp/video_1700000000000.mp4'',
       VisionPost (vision_request ''low'' (openAIKey ex_job_url) ''data:image/png;base64,AAAA''),
       Progress 75,
       SynthPost (synth_request (openAIKey ex_job_url) (synth_prompt (caption ex_job_url) ''Squat 3x10''))],
      Inl (Error ''OpenAI API error: 429 - Rate limit reached''))"
    by (rule run_429_pipeline) (simp_all add: ex_env_429_fields)
  then show ?thesis
    using includes_429_example run_429_db_down by simp
qed

text \<open>
  C2. For the job with the two URLs of \<open>ex_job_two_urls\<close> and no uploaded file, in an
  environment where every call succeeds, the progress values reported are
  10, 17.5, 37.5, 25, 50, 75, 90, 100: after the first video's frames are extracted at
  37.5, the download of the second video reports \<open>10 + 2 * 15 / 2 = 25\<close>. The sequence is
  not non-decreasing. All these values are exact in binary floating point.
\<close>

theorem progress_goes_backwards_with_two_urls:
  "progress_values (fst (processVideoJob ex_env ex_job_two_urls))
     = [10, 35 / 2, 75 / 2, 25, 50, 75, 90, 100]
   \<and> \<not> sorted (progress_values (fst (processVideoJob ex_env ex_job_two_urls)))"
  by (simp add: run_two_urls)

text \<open>
  C3, as amended. A job that completes successfully has captured a thumbnail frame and
  sends exactly one update to the store, with status \<open>completed\<close>. Its \<open>display_url\<close> is
  the thumbnail frame when the source is \<open>TikTok\<close>; otherwise it is the display URL of
  the job when that is truthy; otherwise the update has no \<open>display_url\<close> and the stored
  display image is left as it was.
\<close>

theorem completed_job_display_image:
  assumes "processVideoJob env d = (evs, Inr (JobSuccess w n))"
  shows "\<exists>evs1 allFrames thumb upd.
           acquire_frames env d = (evs1, Inr (allFrames, Some thumb))
         \<and> db_updates evs = [(workoutId d, upd)]
         \<and> map_of upd ''status'' = Some (JStr ''completed'')
         \<and> map_of upd ''display_url''
             = (if source d = JStr ''TikTok'' then Some (JStr thumb)
                else if truthy (displayUrl d) then Some (displayUrl d) else None)
         \<and> (\<forall>r. store_update r upd ''display_url''
                = (if source d = JStr ''TikTok'' then Some (JStr thumb)
                   else if truthy (displayUrl d) then Some (displayUrl d)
                   else r ''display_url''))"
proof -
  from processVideoJob_success[OF assms] obtain evs1 acc evs2 where
    acq: "acquire_frames env d = (evs1, Inr acc)"
    and pf: "process_frames env d acc = (evs2, Inr (JobSuccess w n))"
    and evs: "evs = Progress 10 # evs1 @ evs2"
    by blast
  from process_frames_success[OF pf] obtain upd where
    ne: "fst acc \<noteq> []"
    and upd: "db_updates evs2 = [(workoutId d, upd)]"
      "map_of upd ''status'' = Some (JStr ''completed'')"
      "map_of upd ''display_url''
         = (if truthy (finalDisplayUrl (source d) (snd acc) (displayUrl d))
            then Some (finalDisplayUrl (source d) (snd acc) (displayUrl d)) else None)"
    by blast
  from acquire_frames_thumbnail[OF acq ne] obtain thumb where
    thumb: "snd acc = Some thumb" "thumb \<noteq> []"
    by blast
  have final: "finalDisplayUrl (source d) (snd acc) (displayUrl d)
                 = (if source d = JStr ''TikTok'' then JStr thumb else displayUrl d)"
    using thumb by (simp add: finalDisplayUrl_def truthy_str_def)
  have disp: "map_of upd ''display_url''
             = (if source d = JStr ''TikTok'' then Some (JStr thumb)
                else if truthy (displayUrl d) then Some (displayUrl d) else None)"
    using upd(3) thumb(2) unfolding final by simp
  have "acquire_frames env d = (evs1, Inr (fst acc, Some thumb))"
    using acq thumb(1) by (metis prod.collapse)
  moreover have "db_updates evs = [(workoutId d, upd)]"
    using evs upd(1) acquire_frames_quiet[of env d] acq by simp
  moreover have "\<forall>r. store_update r upd ''display_url''
                = (if source d = JStr ''TikTok'' then Some (JStr thumb)
                   else if truthy (displayUrl d) then Some (displayUrl d)
                   else r ''display_url'')"
    using disp by (simp add: store_update_def)
  ultimately show ?thesis
    using upd(2) disp by blast
qed

theorem completed_job_display_image_witness:
  "snd (processVideoJob ex_env ex_job_tiktok) = Inr (JobSuccess ''w1'' (JNum 1))
   \<and> source ex_job_tiktok = JStr ''TikTok''
   \<and> snd (acquire_frames ex_env ex_job_tiktok)
       = Inr ([''data:image/png;base64,AAAA''], Some ''data:image/png;base64,AAAA'')
   \<and> (\<exists>upd. db_updates (fst (processVideoJob ex_env ex_job_tiktok)) = [(''w1'', upd)]
         \<and> map_of upd ''display_url'' = Some (JStr ''data:image/png;base64,AAAA''))"
proof -
  have acq: "acquire_frames ex_env ex_job_tiktok =
     ([FramesPost ''/tmp/uploads/3f2a'', Progress 50, Unlink ''/tmp/uploads/3f2a''],
      Inr ([''data:image/png;base64,AAAA''], Some ''data:image/png;base64,AAAA''))"
    by (rule acquire_frames_one_file) (simp_all add: ex_env_fields ex_jobs)
  have src: "source ex_job_tiktok = JStr ''TikTok''"
    by (simp add: ex_job_tiktok_def)
  have run: "snd (processVideoJob ex_env ex_job_tiktok) = Inr (JobSuccess ''w1'' (JNum 1))"
    by (subst run_success_one_frame[OF acq]) (simp_all add: ex_env_fields ex_job_ids)
  then have "processVideoJob ex_env ex_job_tiktok
               = (fst (processVideoJob ex_env ex_job_tiktok), Inr (JobSuccess ''w1'' (JNum 1)))"
    by (metis prod.collapse)
  from completed_job_display_image[OF this] acq src
  have "\<exists>upd. db_updates (fst (processVideoJob ex_env ex_job_tiktok)) = [(''w1'', upd)]
         \<and> map_of upd ''display_url'' = Some (JStr ''data:image/png;base64,AAAA'')"
    by (auto simp: ex_job_ids)
  with run src acq show ?thesis
    by simp
qed

theorem empty_display_url_is_not_persisted_counterexample:
  "snd (processVideoJob ex_env ex_job_no_display) = Inr (JobSuccess ''w1'' (JNum 1))
   \<and> source ex_job_no_display = JStr ''Instagram''
   \<and> displayUrl ex_job_no_display = JStr []
   \<and> db_updates (fst (processVideoJob ex_env ex_job_no_display))
       = [(''w1'',
           [(''status'', JStr ''completed''),
            (''exercises'', JArr [JObj [(''name'', JStr ''Squat''), (''reps'', JStr ''10''),
                                       (''sets'', JStr ''3''), (''notes'', JStr [])]]),
            (''name'', JStr ''Leg Day''), (''duration'', JStr ''30 min''),
            (''difficulty'', JStr ''Intermediate''),
            (''notes'', JStr (''great session'' @ enhanced_marker))])]
   \<and> store_update [''display_url'' \<mapsto> JStr ''https://cdn.example/old.jpg'']
        [(''status'', JStr ''completed''),
         (''exercises'', JArr [JObj [(''name'', JStr ''Squat''), (''reps'', JStr ''10''),
                                    (''sets'', JStr ''3''), (''notes'', JStr [])]]),
         (''name'', JStr ''Leg Day''), (''duration'', JStr ''30 min''),
         (''difficulty'', JStr ''Intermediate''),
         (''notes'', JStr (''great session'' @ enhanced_marker))] ''display_url''
       = Some (JStr ''https://cdn.example/old.jpg'')
   \<and> JStr ''https://cdn.example/old.jpg'' \<noteq> displayUrl ex_job_no_display"
proof -
  have acq: "acquire_frames ex_env ex_job_no_display =
     ([HttpGet ''https://cdn.example/a.mp4'' (download_headers ''https://cdn.example/a.mp4'') 30000,
       Progress 25, FramesPost ''/tmp/video_1700000000000.mp4'', Progress 50,
       Unlink ''/tmp/video_1700000000000.mp4''],
      Inr ([''data:image/png;base64,AAAA''], Some ''data:image/png;base64,AAAA''))"
    by (rule acquire_frames_one_url) (simp_all add: ex_env_fields ex_jobs)
  have d: "source ex_job_no_display = JStr ''Instagram''" "displayUrl ex_job_no_display = JStr []"
    by (simp_all add: ex_job_no_display_def ex_job_url_def ex_job_def)
  have final: "finalDisplayUrl (source ex_job_no_display) th (displayUrl ex_job_no_display) = JStr []" for th
    by (simp add: finalDisplayUrl_def d)
  show ?thesis
    by (subst (1 2) run_success_one_frame[OF acq])
       (simp_all add: ex_env_fields ex_job_ids d finalDisplayUrl_def store_update_def)
qed

text \<open>
  C4. When every per-frame call fails or returns only white space,
  \<open>extractTextFromFrames\<close> returns the empty string and does not throw. In a job whose
  videos gave at least one frame, the \<open>try\<close> block then stops with
  \<open>No text extracted from video frames\<close> right after reporting progress 75, no request
  to the synthesis model is made in the whole run, and the job is rejected with that
  error (with \<open>Supabase error: ...\<close> if the store refuses the update of the status).
\<close>

theorem no_text_aborts_before_synthesis:
  assumes "acquire_frames env d = (evs1, Inr (allFrames, thumbnailFrame))"
    and "allFrames \<noteq> []"
    and "\<forall>i<length allFrames.
           vision_call_fails (e_vision env i) \<or> vision_only_whitespace (e_vision env i)"
  shows "(\<forall>vision fs k.
            (\<forall>i<length fs. vision_call_fails (vision i) \<or> vision_only_whitespace (vision i)) \<longrightarrow>
            snd (extractTextFromFrames vision fs k) = Inr [])
       \<and> snd (extractTextFromFrames (e_vision env) allFrames (openAIKey d)) = Inr []
       \<and> pipeline env d =
           (evs1 @ map (\<lambda>f. VisionPost (vision_request ''low'' (openAIKey d) f)) allFrames
              @ [Progress 75],
            Inl (Error ''No text extracted from video frames''))
       \<and> synth_calls (fst (processVideoJob env d)) = []
       \<and> (case e_db env (workoutId d)
                 [(''status'', JStr ''failed''),
                  (''processing_error'', JStr ''No text extracted from video frames'')] of
             None \<Rightarrow> snd (processVideoJob env d) = Inl (Error ''No text extracted from video frames'')
           | Some m \<Rightarrow> snd (processVideoJob env d) = Inl (Error (''Supabase error: '' @ m)))"
proof -
  have general: "\<forall>vision fs k.
            (\<forall>i<length fs. vision_call_fails (vision i) \<or> vision_only_whitespace (vision i)) \<longrightarrow>
            snd (extractTextFromFrames vision fs k) = Inr []"
    using extractTextFromFrames_no_text by blast
  from general assms(3)
  have empty: "snd (extractTextFromFrames (e_vision env) allFrames (openAIKey d)) = Inr []"
    by blast
  have pf: "process_frames env d (allFrames, thumbnailFrame) =
      (map (\<lambda>f. VisionPost (vision_request ''low'' (openAIKey d) f)) allFrames @ [Progress 75],
       Inl (Error ''No text extracted from video frames''))"
    using process_frames_no_text[of "(allFrames, thumbnailFrame)" env d] assms(2) empty
    by (simp add: fst_extractTextFromFrames)
  have pl: "pipeline env d =
           (evs1 @ map (\<lambda>f. VisionPost (vision_request ''low'' (openAIKey d) f)) allFrames
              @ [Progress 75],
            Inl (Error ''No text extracted from video frames''))"
    by (simp add: pipeline_def assms(1) pf)
  have quiet: "synth_calls evs1 = []"
    using acquire_frames_quiet[of env d] assms(1) by simp
  have job: "processVideoJob env d =
      (Progress 10 # (evs1 @ map (\<lambda>f. VisionPost (vision_request ''low'' (openAIKey d) f)) allFrames
              @ [Progress 75])
         @ fst (handle_error env d (Error ''No text extracted from video frames'')),
       snd (handle_error env d (Error ''No text extracted from video frames'')))"
    by (rule processVideoJob_pipeline_error[OF pl])
  have calls: "synth_calls (fst (processVideoJob env d)) = []"
    by (simp add: job quiet quiet_vision_posts handle_error_no_synth)
  have result: "case e_db env (workoutId d)
                 [(''status'', JStr ''failed''),
                  (''processing_error'', JStr ''No text extracted from video frames'')] of
             None \<Rightarrow> snd (processVideoJob env d) = Inl (Error ''No text extracted from video frames'')
           | Some m \<Rightarrow> snd (processVideoJob env d) = Inl (Error (''Supabase error: '' @ m))"
    unfolding job handle_error_permanent[OF not_rate_limit_fixed_messages(3)]
    by (simp add: updateData_failed split: option.splits)
  from general empty pl calls result show ?thesis
    by blast
qed

theorem no_text_aborts_before_synthesis_witness:
  "snd (extractTextFromFrames (e_vision ex_env_blank)
          [''data:image/png;base64,AAAA'', ''data:image/png;base64,AAAA''] ''sk-test'') = Inr []
   \<and> snd (pipeline ex_env_blank ex_job_two_urls) = Inl (Error ''No text extracted from video frames'')
   \<and> synth_calls (fst (processVideoJob ex_env_blank ex_job_two_urls)) = []
   \<and> snd (processVideoJob ex_env_blank ex_job_two_urls)
       = Inl (Error ''No text extracted from video frames'')"
proof -
  have ne: "[''data:image/png;base64,AAAA'', ''data:image/png;base64,AAAA''] \<noteq> ([] :: string list)"
    by simp
  have key: "openAIKey ex_job_two_urls = ''sk-test''"
    by (simp add: ex_job_two_urls_def ex_job_def)
  from no_text_aborts_before_synthesis[OF acquire_blank ne ex_blank_frames_no_text]
  show ?thesis
    by (simp add: key ex_env_blank_fields)
qed




section \<open>Further properties\<close>

text \<open>
  X1. The single-video processor of src/index.js, on a job that returns a result: the frame
  service answered with frames and a first frame \<open>thumb\<close>; exactly one record update is
  issued, for the job's workout, with status \<open>completed\<close>; its \<open>display_url\<close> is the
  thumbnail when the source is \<open>TikTok\<close>, else the job's display URL when that is truthy,
  else the field is not written; and the progress values reported are 10, 25, 50, 75, 90,
  100 in this order.
\<close>

theorem processVideoJob_index_completed:
  assumes "processVideoJob_index env d = (evs, Inr res)"
  shows "\<exists>r thumb upd n.
           extractFrames_result (e_frames env 0) = Inr r \<and> r_firstFrame r = Some thumb
         \<and> db_updates evs = [(workoutId d, upd)]
         \<and> map_of upd ''status'' = Some (JStr ''completed'')
         \<and> map_of upd ''display_url''
             = (if source d = JStr ''TikTok'' then Some (JStr thumb)
                else if truthy (displayUrl d) then Some (displayUrl d) else None)
         \<and> progress_values evs = [10, 25, 50, 75, 90, 100]
         \<and> res = JobSuccess (workoutId d) n"
proof -
  obtain evsP rP where P: "pipeline_index env d = (evsP, rP)"
    by (cases "pipeline_index env d")
  show ?thesis
  proof (cases rP)
    case (Inl e)
    with P assms have "snd (handle_error_index env d e) = Inr res"
      by (simp add: processVideoJob_index_pipeline_error)
    with handle_error_index_fails[of env d e] show ?thesis
      by simp
  next
    case (Inr r)
    with P assms have r: "r = res" and evs: "evs = Progress 10 # evsP"
      by (simp_all add: processVideoJob_index_pipeline_ok)
    from pipeline_index_success[OF P[unfolded Inr r]] show ?thesis
      unfolding evs by simp
  qed
qed

theorem processVideoJob_index_completed_witness:
  "snd (processVideoJob_index ex_env ex_job_url) = Inr (JobSuccess ''w1'' (JNum 1))
   \<and> progress_values (fst (processVideoJob_index ex_env ex_job_url)) = [10, 25, 50, 75, 90, 100]
   \<and> (\<exists>upd. db_updates (fst (processVideoJob_index ex_env ex_job_url)) = [(''w1'', upd)]
         \<and> map_of upd ''display_url'' = Some (JStr ''https://cdn.example/preview.jpg''))"
proof -
  have gp: "get_prop ex_workout ''exercises''
          = Inr (JArr [JObj [(''name'', JStr ''Squat''), (''reps'', JStr ''10''),
                             (''sets'', JStr ''3''), (''notes'', JStr [])]])"
    by (simp add: ex_workout_def)
  have parse: "parseWorkoutWithAI_index ex_env ''Leg day!'' ''Squat 3x10'' ''sk-test''
     = ([SynthPost (synth_request ''sk-test'' (synth_prompt ''Leg day!'' ''Squat 3x10''))], Inr ex_workout)"
    using gp
    by (simp add: parseWorkoutWithAI_index_eq ex_env_fields ex_chat_ok_def completion_content_ex
          match_braces_ex ex_synth_answer_nonempty)
  have len: "get_length (JArr [JObj [(''name'', JStr ''Squat''), (''reps'', JStr ''10''),
                             (''sets'', JStr ''3''), (''notes'', JStr [])]]) = Inr (JNum 1)"
    by simp
  have cj: "snd (complete_job_index ex_env ex_job_url (Some ''data:image/png;base64,AAAA'') ex_workout)
              = Inr (JobSuccess ''w1'' (JNum 1))"
    by (simp add: complete_job_index_def ex_workout_def updateWorkout_eq ex_env_fields
          snd_bind_io ex_job_ids)
  have run: "snd (processVideoJob_index ex_env ex_job_url) = Inr (JobSuccess ''w1'' (JNum 1))"
    by (simp add: processVideoJob_index_def snd_bind_io
          pipeline_index_to_synthesis[OF ex_env_fields(1,2,3,4)] parse cj)
  then have "processVideoJob_index ex_env ex_job_url
               = (fst (processVideoJob_index ex_env ex_job_url), Inr (JobSuccess ''w1'' (JNum 1)))"
    by (metis prod.collapse)
  from processVideoJob_index_completed[OF this]
  have "progress_values (fst (processVideoJob_index ex_env ex_job_url)) = [10, 25, 50, 75, 90, 100]
   \<and> (\<exists>upd. db_updates (fst (processVideoJob_index ex_env ex_job_url)) = [(''w1'', upd)]
         \<and> map_of upd ''display_url'' = Some (JStr ''https://cdn.example/preview.jpg''))"
    by (auto simp: ex_job_ids ex_job_url_fields)
  with run show ?thesis
    by simp
qed


text \<open>
  X2. The single-video processor of src/index.js, when a stage of the try block throws
  \<open>e\<close>. If the message of \<open>e\<close> contains \<open>429\<close>, the job throws
  \<open>RATE_LIMIT: OpenAI API rate limit exceeded\<close> and the record is not updated. Otherwise
  the record is updated to status \<open>failed\<close>, with the message as processing error when
  it is non-empty, and \<open>e\<close> is thrown again; when the update itself fails, its
  \<open>Supabase error\<close> is thrown instead.
\<close>

theorem processVideoJob_index_failure_classification:
  assumes "pipeline_index env d = (evs, Inl e)"
  shows "(js_includes (err_message e) ''429'' \<longrightarrow>
            processVideoJob_index env d
              = (Progress 10 # evs, Inl (Error ''RATE_LIMIT: OpenAI API rate limit exceeded'')))
       \<and> (\<not> js_includes (err_message e) ''429'' \<longrightarrow>
           (case e_db env (workoutId d)
                   ((''status'', JStr ''failed'')
                    # (if err_message e = [] then []
                       else [(''processing_error'', JStr (err_message e))])) of
              None \<Rightarrow>
                processVideoJob_index env d =
                  (Progress 10 # evs
                     @ [DbUpdate (workoutId d)
                          ((''status'', JStr ''failed'')
                           # (if err_message e = [] then []
                              else [(''processing_error'', JStr (err_message e))]))],
                   Inl e)
            | Some m \<Rightarrow>
                processVideoJob_index env d =
                  (Progress 10 # evs
                     @ [DbUpdate (workoutId d)
                          ((''status'', JStr ''failed'')
                           # (if err_message e = [] then []
                              else [(''processing_error'', JStr (err_message e))]))],
                   Inl (Error (''Supabase error: '' @ m)))))"
  unfolding processVideoJob_index_pipeline_error[OF assms]
  by (simp add: handle_error_index_def isRateLimitError_def updateWorkout_eq updateData_failed
        io_throw_def split: option.splits)

theorem processVideoJob_index_failure_classification_witness:
  "processVideoJob_index ex_env_429 ex_job_url
     = ([Progress 10,
         HttpGet ''https://cdn.example/a.mp4'' (download_headers_index ''https://cdn.example/a.mp4'') 30000,
         Progress 25, FramesPost ''/tmp/video_1700000000000.mp4'', Progress 50,
         Unlink ''/tmp/video_1700000000000.mp4'',
         VisionPost (vision_request ''high'' ''sk-test'' ''data:image/png;base64,AAAA''),
         Progress 75,
         SynthPost (synth_request ''sk-test'' (synth_prompt ''Leg day!'' ''Squat 3x10''))],
        Inl (Error ''RATE_LIMIT: OpenAI API rate limit exceeded''))"
proof -
  have parse: "parseWorkoutWithAI_index ex_env_429 ''Leg day!'' ''Squat 3x10'' ''sk-test''
     = ([SynthPost (synth_request ''sk-test'' (synth_prompt ''Leg day!'' ''Squat 3x10''))],
        Inl (Error ''OpenAI API error: 429''))"
    by (simp add: parseWorkoutWithAI_index_eq ex_env_429_fields ex_chat_429_def show_nat_429)
  have p: "pipeline_index ex_env_429 ex_job_url =
     ([HttpGet ''https://cdn.example/a.mp4'' (download_headers_index ''https://cdn.example/a.mp4'') 30000,
         Progress 25, FramesPost ''/tmp/video_1700000000000.mp4'', Progress 50,
         Unlink ''/tmp/video_1700000000000.mp4'',
         VisionPost (vision_request ''high'' ''sk-test'' ''data:image/png;base64,AAAA''),
         Progress 75,
         SynthPost (synth_request ''sk-test'' (synth_prompt ''Leg day!'' ''Squat 3x10''))],
      Inl (Error ''OpenAI API error: 429''))"
    by (simp add: pipeline_index_to_synthesis[OF ex_env_429_fields(1,2,3,4)] parse)
  have "js_includes ''OpenAI API error: 429'' ''429''"
    by (simp add: js_includes_def sublist_code)
  with processVideoJob_index_failure_classification[OF p] show ?thesis
    by simp
qed


text \<open>
  X3. A job of the multi-video processor with no URLs (uploaded files only) that completes
  reports the progress values 10, then \<open>25 + (j + 1) * 25 / F\<close> for each of its \<open>F\<close>
  files \<open>j = 0, ..., F - 1\<close>, then 75, 90, 100, as exact values; this sequence never
  decreases, and so neither does the sequence of their roundings.
\<close>

theorem files_only_progress_is_monotone:
  assumes "processVideoJob env d = (evs, Inr (JobSuccess w n))"
    and "job_urls d = []"
  shows "progress_values evs
           = 10 # map (\<lambda>j. 25 + of_nat (j + 1) * 25 / of_nat (length (job_files d)))
                    [0..<length (job_files d)]
             @ [75, 90, 100]
       \<and> sorted (progress_values evs)"
proof -
  from processVideoJob_success[OF assms(1)] obtain evs1 acc evs2 where
    acq: "acquire_frames env d = (evs1, Inr acc)"
    and pf: "process_frames env d acc = (evs2, Inr (JobSuccess w n))"
    and evs: "evs = Progress 10 # evs1 @ evs2"
    by blast
  from process_frames_success[OF pf] have ne: "fst acc \<noteq> []"
    and p2: "progress_values evs2 = [75, 90, 100]"
    by auto
  from acq assms(2) have fl: "files_loop env (length (job_files d)) 0 (job_files d) ([], None) = (evs1, Inr acc)"
    by (cases "files_loop env (length (job_files d)) 0 (job_files d) ([], None)")
       (auto simp: acquire_frames_def Let_def bind_io_pair io_return_def split: sum.splits)
  have files: "job_files d \<noteq> []"
  proof
    assume "job_files d = []"
    with fl have "acc = ([], None)"
      by (simp add: io_return_def)
    with ne show False
      by simp
  qed
  from files_loop_progress[OF fl] evs p2
  have seq: "progress_values evs
           = 10 # map (\<lambda>j. 25 + of_nat (j + 1) * 25 / of_nat (length (job_files d)))
                    [0..<length (job_files d)]
             @ [75, 90, 100]"
    by simp
  from files have "0 < length (job_files d)"
    by simp
  from sorted_progress_steps[OF this] seq show ?thesis
    by simp
qed


theorem files_only_progress_is_monotone_witness:
  "snd (processVideoJob ex_env ex_job_tiktok) = Inr (JobSuccess ''w1'' (JNum 1))
   \<and> job_files ex_job_tiktok = [''/tmp/uploads/3f2a''] \<and> job_urls ex_job_tiktok = []
   \<and> progress_values (fst (processVideoJob ex_env ex_job_tiktok)) = [10, 50, 75, 90, 100]
   \<and> sorted (progress_values (fst (processVideoJob ex_env ex_job_tiktok)))"
proof -
  have acq: "acquire_frames ex_env ex_job_tiktok =
     ([FramesPost ''/tmp/uploads/3f2a'', Progress 50, Unlink ''/tmp/uploads/3f2a''],
      Inr ([''data:image/png;base64,AAAA''], Some ''data:image/png;base64,AAAA''))"
    by (rule acquire_frames_one_file) (simp_all add: ex_env_fields ex_jobs)
  have run: "snd (processVideoJob ex_env ex_job_tiktok) = Inr (JobSuccess ''w1'' (JNum 1))"
    by (subst run_success_one_frame[OF acq]) (simp_all add: ex_env_fields ex_job_ids)
  then have "processVideoJob ex_env ex_job_tiktok
               = (fst (processVideoJob ex_env ex_job_tiktok), Inr (JobSuccess ''w1'' (JNum 1)))"
    by (metis prod.collapse)
  from files_only_progress_is_monotone[OF this ex_jobs(8)]
  have "progress_values (fst (processVideoJob ex_env ex_job_tiktok)) = [10, 50, 75, 90, 100]
      \<and> sorted (progress_values (fst (processVideoJob ex_env ex_job_tiktok)))"
    by (simp add: ex_jobs)
  with run show ?thesis
    by (simp add: ex_jobs)
qed

end
